(* ===== verification/Prelude.thy ===== *)
theory Prelude
  imports Complex_Main "HOL-Library.Stream"
begin

text \<open>
  Shared vocabulary of the EduNet Optimizer development. JavaScript strings are modelled
  as HOL \<open>string\<close>s holding the UTF-8 bytes of the text: every delimiter the code
  searches for is ASCII, and an ASCII byte never occurs inside the UTF-8 encoding of
  another code point, so splitting and matching on bytes agrees with JavaScript's
  UTF-16 code units on every input. Emoji literals of the source are written as their
  UTF-8 byte sequences. This theory holds the named theorem collections, the type
  synonyms naming the model's types, and generic list lemmas the component theories
  share.
\<close>

named_theorems scan_simps "characteristic equations of the string scanners"
named_theorems model_defs "definitions unfolded when evaluating a handler on a concrete input"

type_synonym jstring = string

text \<open>\<open>Math.random\<close> is a hidden generator; the model passes it explicitly as the
  infinite stream of the values it will return, one per call.\<close>
type_synonym rng = "real stream"

abbreviation nl :: char where "nl \<equiv> CHR 0x0A"
abbreviation cr :: char where "cr \<equiv> CHR 0x0D"

subsection \<open>Generic list lemmas\<close>

lemma take_eq_imp_append_drop:
  "take (length p) s = p \<Longrightarrow> s = p @ drop (length p) s"
  by (metis append_take_drop_id)

lemma length_drop_less_Cons:
  "p \<noteq> [] \<Longrightarrow> length (drop (length p) (c # cs)) < Suc (length cs)"
  by (cases p) auto

lemma drop_append_length [simp]: "drop (length p) (p @ r) = r"
  by simp

lemma filter_append_filter_all:
  "\<forall>x \<in> set xs. \<not> P x \<Longrightarrow> filter P (xs @ ys) = filter P ys"
  by (induction xs) auto

lemma all_drop_Cons:
  "(\<forall>i \<le> length (c # cs). P (drop i (c # cs))) \<longleftrightarrow> P (c # cs) \<and> (\<forall>i \<le> length cs. P (drop i cs))"
proof
  assume a: "\<forall>i \<le> length (c # cs). P (drop i (c # cs))"
  have "P (drop 0 (c # cs))" using a by blast
  moreover have "P (drop i cs)" if "i \<le> length cs" for i
    using a that by (metis Suc_le_mono drop_Suc_Cons length_Cons)
  ultimately show "P (c # cs) \<and> (\<forall>i \<le> length cs. P (drop i cs))" by simp
next
  assume b: "P (c # cs) \<and> (\<forall>i \<le> length cs. P (drop i cs))"
  show "\<forall>i \<le> length (c # cs). P (drop i (c # cs))"
  proof (intro allI impI)
    fix i assume "i \<le> length (c # cs)"
    with b show "P (drop i (c # cs))" by (cases i) auto
  qed
qed

lemma those_length: "those xs = Some ys \<Longrightarrow> length ys = length xs"
  by (induction xs arbitrary: ys) (auto split: option.splits)

lemma those_append:
  "those (xs @ ys) = (case those xs of None \<Rightarrow> None | Some as \<Rightarrow> (case those ys of None \<Rightarrow> None | Some bs \<Rightarrow> Some (as @ bs)))"
  by (induction xs) (auto split: option.splits)

lemma those_Some_iff: "(\<exists>ys. those xs = Some ys) \<longleftrightarrow> (\<forall>x \<in> set xs. x \<noteq> None)"
  by (induction xs) (auto split: option.splits)

end
