(* ===== verification/Js_Strings.thy ===== *)
theory Js_Strings
  imports Prelude
begin

text \<open>
  The JavaScript string built-ins the routes call, as executable HOL functions:
  \<open>replace\<close> with a global literal regular expression, \<open>split\<close> with a string
  separator and the inverse \<open>join\<close>, the leftmost-match search of
  \<open>String.prototype.match\<close> (without the \<open>g\<close> flag), the lazy
  \<open>(.*?)(?=\n|$)\<close> line capture, ASCII case folding for the \<open>i\<close> flag and for
  \<open>toLowerCase\<close> on word characters, and decimal printing of naturals.
  These are library functions, not code of the repository; the theories that model the
  routes use them where the source calls them.
\<close>

subsection \<open>Prefixes\<close>

definition starts_with :: "string \<Rightarrow> string \<Rightarrow> bool" where
  "starts_with p s \<longleftrightarrow> take (length p) s = p"

lemma starts_with_Nil [simp, scan_simps]: "starts_with [] s"
  by (simp add: starts_with_def)

lemma starts_with_Cons_Nil [simp, scan_simps]: "\<not> starts_with (a # p) []"
  by (simp add: starts_with_def)

lemma starts_with_Cons_Cons [simp, scan_simps]:
  "starts_with (a # p) (c # s) \<longleftrightarrow> a = c \<and> starts_with p s"
  by (auto simp: starts_with_def)

lemma starts_with_iff: "starts_with p s \<longleftrightarrow> (\<exists>r. s = p @ r)"
  by (metis append_eq_conv_conj starts_with_def)

lemma starts_with_append [simp]: "starts_with p (p @ r)"
  by (simp add: starts_with_iff)

subsection \<open>Global replacement of a literal: \<open>s.replace(/p/g, r)\<close>\<close>

text \<open>The regular expression engine scans left to right; at the first position where
  the literal occurs it substitutes \<open>r\<close> and resumes after the match, so matches never
  overlap. A regular-expression literal cannot be empty, so \<open>p \<noteq> []\<close> in every use.\<close>

function replace_lit :: "string \<Rightarrow> string \<Rightarrow> string \<Rightarrow> string" where
  "replace_lit p r [] = []"
| "replace_lit p r (c # cs) =
     (if p \<noteq> [] \<and> starts_with p (c # cs)
      then r @ replace_lit p r (drop (length p) (c # cs))
      else c # replace_lit p r cs)"
  by pat_completeness auto
termination
  by (relation "measure (\<lambda>(p, r, s). length s)") (auto simp: length_drop_less_Cons)

lemma replace_lit_no_match:
  "\<not> starts_with p (c # cs) \<Longrightarrow> replace_lit p r (c # cs) = c # replace_lit p r cs"
  by simp

lemma replace_lit_single:
  "replace_lit [a] r s = concat (map (\<lambda>c. if c = a then r else [c]) s)"
  by (induction s) auto

subsection \<open>\<open>s.split(sep)\<close> and its inverse\<close>

text \<open>Splitting at every non-overlapping occurrence of \<open>sep\<close>, left to right; the empty
  string splits into one empty piece, as in JavaScript.\<close>

function split_lit :: "string \<Rightarrow> string \<Rightarrow> string list" where
  "split_lit sep [] = [[]]"
| "split_lit sep (c # cs) =
     (if sep \<noteq> [] \<and> starts_with sep (c # cs)
      then [] # split_lit sep (drop (length sep) (c # cs))
      else (case split_lit sep cs of
              [] \<Rightarrow> [[c]]
            | w # ws \<Rightarrow> (c # w) # ws))"
  by pat_completeness auto
termination
  by (relation "measure (\<lambda>(sep, s). length s)") (auto simp: length_drop_less_Cons)

fun join_str :: "string \<Rightarrow> string list \<Rightarrow> string" where
  "join_str sep [] = []"
| "join_str sep [w] = w"
| "join_str sep (w # v # ws) = w @ sep @ join_str sep (v # ws)"

lemma split_lit_not_Nil [simp]: "split_lit sep s \<noteq> []"
  by (induction sep s rule: split_lit.induct) (auto split: list.split)

lemma join_str_Cons_hd:
  "join_str sep ((c # w) # ws) = c # join_str sep (w # ws)"
  by (cases ws) auto

lemma join_split_lit: "sep \<noteq> [] \<Longrightarrow> join_str sep (split_lit sep s) = s"
proof (induction sep s rule: split_lit.induct)
  case (1 sep)
  then show ?case by simp
next
  case (2 sep c cs)
  show ?case
  proof (cases "starts_with sep (c # cs)")
    case True
    then have "c # cs = sep @ drop (length sep) (c # cs)"
      by (simp add: starts_with_def take_eq_imp_append_drop)
    with True 2 show ?thesis
      by (cases "split_lit sep (drop (length sep) (c # cs))") auto
  next
    case False
    obtain w ws where sp: "split_lit sep cs = w # ws"
      using split_lit_not_Nil by (metis list.exhaust)
    with 2 False have "join_str sep (w # ws) = cs" by simp
    with False sp "2.prems" show ?thesis
      using join_str_Cons_hd [of sep c w ws] by simp
  qed
qed

lemma length_split_lit_no_sep:
  "\<not> (\<exists>i \<le> length s. starts_with sep (drop i s)) \<Longrightarrow> split_lit sep s = [s]"
proof (induction sep s rule: split_lit.induct)
  case (1 sep)
  then show ?case by simp
next
  case (2 sep c cs)
  have "\<not> starts_with sep (c # cs)" using "2.prems" by (metis drop0 zero_le)
  moreover have "\<not> (\<exists>i \<le> length cs. starts_with sep (drop i cs))"
    using "2.prems" by (metis Suc_le_mono drop_Suc_Cons length_Cons)
  ultimately show ?case using 2 by simp
qed

subsection \<open>Leftmost match: \<open>s.match(re)\<close> without the \<open>g\<close> flag\<close>

text \<open>A matcher at one position returns the captured group or \<open>None\<close>; the engine tries
  positions \<open>0, 1, \<dots>, length s\<close> in turn and returns the first success.\<close>

fun search_first :: "(string \<Rightarrow> 'a option) \<Rightarrow> string \<Rightarrow> 'a option" where
  "search_first m [] = m []"
| "search_first m (c # cs) = (case m (c # cs) of Some r \<Rightarrow> Some r | None \<Rightarrow> search_first m cs)"

lemma search_first_None_iff:
  "search_first m s = None \<longleftrightarrow> (\<forall>i \<le> length s. m (drop i s) = None)"
proof (induction s)
  case Nil
  then show ?case by simp
next
  case (Cons c cs)
  from all_drop_Cons [of c cs "\<lambda>t. m t = None"] Cons.IH show ?case
    by (auto split: option.split)
qed

lemma search_first_SomeD:
  "search_first m s = Some r \<Longrightarrow>
     \<exists>i \<le> length s. m (drop i s) = Some r \<and> (\<forall>j < i. m (drop j s) = None)"
proof (induction s)
  case Nil
  then show ?case by simp
next
  case (Cons c cs)
  show ?case
  proof (cases "m (c # cs)")
    case None
    with Cons obtain i where i: "i \<le> length cs" "m (drop i cs) = Some r"
      "\<forall>j < i. m (drop j cs) = None" by auto
    have "\<forall>j < Suc i. m (drop j (c # cs)) = None"
    proof (intro allI impI)
      fix j assume "j < Suc i"
      with None i(3) show "m (drop j (c # cs)) = None" by (cases j) auto
    qed
    with i show ?thesis by (intro exI [of _ "Suc i"]) simp
  next
    case (Some r')
    with Cons.prems show ?thesis by (intro exI [of _ 0]) simp
  qed
qed

lemma search_first_SomeI:
  "i \<le> length s \<Longrightarrow> m (drop i s) = Some r \<Longrightarrow> \<forall>j < i. m (drop j s) = None \<Longrightarrow>
     search_first m s = Some r"
proof (induction s arbitrary: i)
  case Nil
  then show ?case by simp
next
  case (Cons c cs)
  show ?case
  proof (cases i)
    case 0
    with Cons.prems show ?thesis by simp
  next
    case (Suc i')
    with Cons.prems have "m (c # cs) = None" by (metis drop0 zero_less_Suc)
    moreover have "search_first m cs = Some r"
      using Cons.prems Suc by (intro Cons.IH [of i']) auto
    ultimately show ?thesis by simp
  qed
qed

lemma search_first_Some_iff:
  "search_first m s = Some r \<longleftrightarrow>
     (\<exists>i \<le> length s. m (drop i s) = Some r \<and> (\<forall>j < i. m (drop j s) = None))"
  by (blast intro: search_first_SomeI dest: search_first_SomeD)

text \<open>The suffixes of a string, one per start position of a match.\<close>

fun tails :: "'a list \<Rightarrow> 'a list list" where
  "tails [] = [[]]"
| "tails (x # xs) = (x # xs) # tails xs"

lemma set_tails: "set (tails s) = {drop i s | i. i \<le> length s}"
proof (induction s)
  case Nil
  then show ?case by simp
next
  case (Cons x xs)
  have "{drop i (x # xs) | i. i \<le> length (x # xs)} = insert (x # xs) {drop i xs | i. i \<le> length xs}"
  proof (intro equalityI subsetI)
    fix t assume "t \<in> {drop i (x # xs) | i. i \<le> length (x # xs)}"
    then obtain i where "i \<le> Suc (length xs)" "t = drop i (x # xs)" by auto
    then show "t \<in> insert (x # xs) {drop i xs | i. i \<le> length xs}"
      by (cases i) auto
  next
    fix t assume "t \<in> insert (x # xs) {drop i xs | i. i \<le> length xs}"
    then show "t \<in> {drop i (x # xs) | i. i \<le> length (x # xs)}"
      by (auto intro: exI [of _ 0]) (metis Suc_le_mono drop_Suc_Cons length_Cons)
  qed
  with Cons show ?case by simp
qed

lemma search_first_None_tails:
  "search_first m s = None \<longleftrightarrow> (\<forall>t \<in> set (tails s). m t = None)"
  by (induction s) (auto split: option.split)

lemma search_first_here: "m s = Some r \<Longrightarrow> search_first m s = Some r"
  by (cases s) auto

subsection \<open>Line terminators and the lazy capture \<open>(.*?)(?=\n|$)\<close>\<close>

text \<open>\<open>.\<close> matches every code point but the four line terminators \<open>\n\<close>, \<open>\r\<close>,
  U+2028 and U+2029 (the last two are three bytes in UTF-8). The lazy group first tries
  the look-ahead (a newline or the end of the input) and otherwise consumes one more
  character; a line terminator other than \<open>\n\<close> can neither be consumed nor satisfy the
  look-ahead, so the match at this position fails.\<close>

definition line_terminator_at :: "string \<Rightarrow> bool" where
  "line_terminator_at s \<longleftrightarrow>
     starts_with [nl] s \<or> starts_with [cr] s \<or>
     starts_with [CHR 0xE2, CHR 0x80, CHR 0xA8] s \<or> starts_with [CHR 0xE2, CHR 0x80, CHR 0xA9] s"

fun rest_of_line :: "string \<Rightarrow> string option" where
  "rest_of_line [] = Some []"
| "rest_of_line (c # cs) =
     (if c = nl then Some []
      else if line_terminator_at (c # cs) then None
      else map_option (Cons c) (rest_of_line cs))"

lemma rest_of_line_Some:
  "rest_of_line s = Some m \<Longrightarrow>
     s = m @ drop (length m) s \<and> nl \<notin> set m \<and> (drop (length m) s = [] \<or> hd (drop (length m) s) = nl)"
  by (induction s arbitrary: m rule: rest_of_line.induct) (auto split: if_splits)

lemma rest_of_line_plain:
  "\<forall>i < length m. \<not> line_terminator_at (drop i (m @ r)) \<Longrightarrow>
   r = [] \<or> hd r = nl \<Longrightarrow> rest_of_line (m @ r) = Some m"
proof (induction m)
  case Nil
  then show ?case by (cases r) auto
next
  case (Cons c m)
  have hd: "\<not> line_terminator_at (c # m @ r)"
    using Cons.prems(1) by (metis append_Cons drop0 length_Cons zero_less_Suc)
  then have "c \<noteq> nl" by (auto simp: line_terminator_at_def)
  have "\<forall>i < length m. \<not> line_terminator_at (drop i (m @ r))"
  proof (intro allI impI)
    fix i assume "i < length m"
    then have "Suc i < length (c # m)" by simp
    with Cons.prems(1) show "\<not> line_terminator_at (drop i (m @ r))"
      by (metis append_Cons drop_Suc_Cons)
  qed
  then have "rest_of_line (m @ r) = Some m" using Cons.prems(2) by (rule Cons.IH)
  with hd \<open>c \<noteq> nl\<close> show ?case by simp
qed

subsection \<open>ASCII classes and case folding\<close>

text \<open>\<open>toLowerCase\<close> and the \<open>i\<close> flag of a non-Unicode regular expression fold only
  the 26 ASCII capitals onto ASCII (a non-ASCII character never folds onto an ASCII one),
  and every string the model folds is ASCII text or is compared with ASCII text, so
  folding on bytes is exact: bit 5 is set on \<open>A\<close>..\<open>Z\<close>.\<close>

fun lower_char :: "char \<Rightarrow> char" where
  "lower_char (Char b0 b1 b2 b3 b4 b5 b6 b7) =
     (let n = (of_char (Char b0 b1 b2 b3 b4 b5 b6 b7) :: nat)
      in if 65 \<le> n \<and> n \<le> 90 then Char b0 b1 b2 b3 b4 True b6 b7 else Char b0 b1 b2 b3 b4 b5 b6 b7)"

definition to_lower :: "string \<Rightarrow> string" where
  "to_lower s = map lower_char s"

definition is_word_char :: "char \<Rightarrow> bool" where
  "is_word_char c \<longleftrightarrow>
     (let n = (of_char c :: nat) in (48 \<le> n \<and> n \<le> 57) \<or> (65 \<le> n \<and> n \<le> 90) \<or> (97 \<le> n \<and> n \<le> 122) \<or> n = 95)"

definition ci_starts_with :: "string \<Rightarrow> string \<Rightarrow> bool" where
  "ci_starts_with p s \<longleftrightarrow> to_lower (take (length p) s) = to_lower p"

lemma length_to_lower [simp]: "length (to_lower s) = length s"
  by (simp add: to_lower_def)

lemma ci_starts_with_length: "ci_starts_with p s \<Longrightarrow> length p \<le> length s"
  by (metis ci_starts_with_def length_take length_to_lower min.absorb_iff2)

lemma starts_with_ci: "starts_with p s \<Longrightarrow> ci_starts_with p s"
  by (simp add: ci_starts_with_def starts_with_def)

subsection \<open>Decimal printing of naturals: \<open>String(n)\<close>\<close>

definition digit_char :: "nat \<Rightarrow> char" where
  "digit_char d = ''0123456789'' ! d"

fun string_of_nat :: "nat \<Rightarrow> string" where
  "string_of_nat n =
     (if n < 10 then [digit_char n] else string_of_nat (n div 10) @ [digit_char (n mod 10)])"

declare string_of_nat.simps [simp del]

definition digit_val :: "char \<Rightarrow> nat" where
  "digit_val c = length (takeWhile (\<lambda>x. x \<noteq> c) ''0123456789'')"

definition nat_of_string :: "string \<Rightarrow> nat" where
  "nat_of_string s = foldl (\<lambda>acc c. 10 * acc + digit_val c) 0 s"

lemma digit_val_digit_char [simp]: "d < 10 \<Longrightarrow> digit_val (digit_char d) = d"
  by (auto simp: digit_val_def digit_char_def less_Suc_eq numeral_eq_Suc)

lemma nat_of_string_snoc:
  "nat_of_string (s @ [c]) = 10 * nat_of_string s + digit_val c"
  by (simp add: nat_of_string_def)

lemma nat_of_string_of_nat: "nat_of_string (string_of_nat n) = n"
proof (induction n rule: string_of_nat.induct)
  case (1 n)
  show ?case
  proof (cases "n < 10")
    case True
    then show ?thesis by (simp add: string_of_nat.simps nat_of_string_def)
  next
    case False
    with 1 show ?thesis by (simp add: string_of_nat.simps [of n] nat_of_string_snoc)
  qed
qed

lemma string_of_nat_inj: "string_of_nat m = string_of_nat n \<Longrightarrow> m = n"
  by (metis nat_of_string_of_nat)

end
