(* ===== verification/Js_Values.thy ===== *)
theory Js_Values
  imports Js_Strings
begin

text \<open>
  JavaScript values as the route handlers see them: the parsed request body, the
  objects they build for responses, and the JSON the browser pages read back. Numbers
  are modelled by their exact real value (IEEE rounding is not modelled; \<open>NaN\<close> and the
  infinities cannot arise from the inputs modelled here). Objects are association lists
  in insertion order; a property read returns the last binding, as a JavaScript object
  keeps one value per key. The errors the handlers can raise are a datatype, so every
  \<open>throw\<close> and every rejected promise of the source is a value of the model.
\<close>

datatype jsval =
    JUndef
  | JNull
  | JBool bool
  | JNum real
  | JStr string
  | JArr "jsval list"
  | JObj "(string \<times> jsval) list"

datatype js_error =
    TypeError string       \<comment> \<open>property read on \<open>null\<close>/\<open>undefined\<close>\<close>
  | SyntaxError string     \<comment> \<open>\<open>JSON.parse\<close> or \<open>req.json()\<close> on malformed text\<close>
  | ProviderError string   \<comment> \<open>\<open>generateContent\<close> or \<open>fetch\<close> rejected\<close>
  | HttpError string       \<comment> \<open>the error the insights route throws on a non-2xx reply\<close>

subsection \<open>Property access, truthiness, \<open>||\<close>\<close>

fun get_prop :: "jsval \<Rightarrow> string \<Rightarrow> js_error + jsval" where
  "get_prop JUndef k = Inl (TypeError (''Cannot read properties of undefined (reading '' @ k @ '')''))"
| "get_prop JNull k = Inl (TypeError (''Cannot read properties of null (reading '' @ k @ '')''))"
| "get_prop (JObj kvs) k = Inr (case map_of (rev kvs) k of Some v \<Rightarrow> v | None \<Rightarrow> JUndef)"
| "get_prop v k = Inr JUndef"

text \<open>\<open>obj_get\<close> reads a field of a value known to be an object (a response the code
  built itself); a missing field is \<open>undefined\<close>.\<close>

definition obj_get :: "jsval \<Rightarrow> string \<Rightarrow> jsval" where
  "obj_get v k = (case get_prop v k of Inr x \<Rightarrow> x | Inl _ \<Rightarrow> JUndef)"

fun truthy :: "jsval \<Rightarrow> bool" where
  "truthy JUndef = False"
| "truthy JNull = False"
| "truthy (JBool b) = b"
| "truthy (JNum x) = (x \<noteq> 0)"
| "truthy (JStr s) = (s \<noteq> [])"
| "truthy (JArr xs) = True"
| "truthy (JObj kvs) = True"

definition js_or :: "jsval \<Rightarrow> jsval \<Rightarrow> jsval" where
  "js_or a b = (if truthy a then a else b)"

lemma obj_get_JObj [simp]:
  "obj_get (JObj kvs) k = (case map_of (rev kvs) k of Some v \<Rightarrow> v | None \<Rightarrow> JUndef)"
  by (simp add: obj_get_def)

subsection \<open>Numbers as text\<close>

text \<open>\<open>Number::toString\<close> prints the shortest decimal that denotes the number. For a
  value with a finite decimal expansion of at most 20 fractional digits and magnitude
  below \<open>10^21\<close> that is the expansion itself, which is what the model prints; the
  exponent notation JavaScript uses below \<open>10^-6\<close> and from \<open>10^21\<close> on is outside
  the model (beyond 20 digits the model truncates).\<close>

function frac_digits :: "nat \<Rightarrow> real \<Rightarrow> nat" where
  "frac_digits k x =
     (if 20 \<le> k \<or> x * 10 ^ k = of_int \<lfloor>x * 10 ^ k\<rfloor> then k else frac_digits (Suc k) x)"
  by pat_completeness auto
termination
  by (relation "measure (\<lambda>(k, x). 20 - k)") auto

declare frac_digits.simps [simp del]

definition pad_left :: "nat \<Rightarrow> string \<Rightarrow> string" where
  "pad_left n s = replicate (n - length s) (CHR ''0'') @ s"

definition decimal_string :: "nat \<Rightarrow> nat \<Rightarrow> string" where
  \<comment> \<open>\<open>m / 10^k\<close> written with \<open>k\<close> fractional digits\<close>
  "decimal_string k m =
     (if k = 0 then string_of_nat m
      else let ds = pad_left (Suc k) (string_of_nat m)
           in take (length ds - k) ds @ ''.'' @ drop (length ds - k) ds)"

definition js_num_string :: "real \<Rightarrow> string" where
  "js_num_string x =
     (let a = \<bar>x\<bar>; k = frac_digits 0 a; m = nat \<lfloor>a * 10 ^ k\<rfloor>
      in (if x < 0 then ''-'' else []) @ decimal_string k m)"

subsection \<open>Template literals: \<open>`${v}`\<close>\<close>

fun js_to_string :: "jsval \<Rightarrow> string" where
  "js_to_string JUndef = ''undefined''"
| "js_to_string JNull = ''null''"
| "js_to_string (JBool b) = (if b then ''true'' else ''false'')"
| "js_to_string (JNum x) = js_num_string x"
| "js_to_string (JStr s) = s"
| "js_to_string (JArr xs) =
     join_str '','' (map (\<lambda>v. if v = JUndef \<or> v = JNull then [] else js_to_string v) xs)"
| "js_to_string (JObj kvs) = ''[object Object]''"

subsection \<open>\<open>JSON.stringify\<close>\<close>

text \<open>Strings are quoted with the escapes of the standard; a field whose value is
  \<open>undefined\<close> is left out of an object and written \<open>null\<close> in an array.\<close>

definition hex_digit :: "nat \<Rightarrow> char" where
  "hex_digit d = ''0123456789abcdef'' ! d"

definition json_escape_char :: "char \<Rightarrow> string" where
  "json_escape_char c =
     (let n = (of_char c :: nat) in
      if c = CHR 0x22 then [CHR 0x5C, CHR 0x22]
      else if c = CHR 0x5C then [CHR 0x5C, CHR 0x5C]
      else if n = 8 then [CHR 0x5C, CHR ''b''] else if n = 12 then [CHR 0x5C, CHR ''f'']
      else if n = 10 then [CHR 0x5C, CHR ''n''] else if n = 13 then [CHR 0x5C, CHR ''r'']
      else if n = 9 then [CHR 0x5C, CHR ''t'']
      else if n < 32 then [CHR 0x5C] @ ''u00'' @ [hex_digit (n div 16), hex_digit (n mod 16)]
      else [c])"

definition json_quote :: "string \<Rightarrow> string" where
  "json_quote s = [CHR 0x22] @ concat (map json_escape_char s) @ [CHR 0x22]"

fun json_stringify :: "jsval \<Rightarrow> string" where
  "json_stringify JUndef = ''null''"
| "json_stringify JNull = ''null''"
| "json_stringify (JBool b) = (if b then ''true'' else ''false'')"
| "json_stringify (JNum x) = js_num_string x"
| "json_stringify (JStr s) = json_quote s"
| "json_stringify (JArr xs) = ''['' @ join_str '','' (map json_stringify xs) @ '']''"
| "json_stringify (JObj kvs) =
     ''{'' @ join_str '','' (map (\<lambda>(k, v). json_quote k @ '':'' @ json_stringify v)
                            (filter (\<lambda>(k, v). v \<noteq> JUndef) kvs)) @ ''}''"

text \<open>What a client reads back after \<open>res.json()\<close>: the same value with the
  \<open>undefined\<close> fields of objects gone (in arrays they became \<open>null\<close>).\<close>

fun json_clean :: "jsval \<Rightarrow> jsval" where
  "json_clean (JArr xs) = JArr (map (\<lambda>v. if v = JUndef then JNull else json_clean v) xs)"
| "json_clean (JObj kvs) = JObj (map (\<lambda>(k, v). (k, json_clean v)) (filter (\<lambda>(k, v). v \<noteq> JUndef) kvs))"
| "json_clean v = v"

subsection \<open>HTTP replies\<close>

text \<open>A route either returns a \<open>Response\<close> (status, the headers the code sets beyond
  the defaults, the body as a value before serialisation) or lets an exception escape,
  which Next.js turns into a bare 500 page without the route's JSON error envelope.\<close>

datatype http_reply =
    Response nat "(string \<times> string) list" jsval
  | Uncaught js_error

fun status_of :: "http_reply \<Rightarrow> nat" where
  "status_of (Response st hs b) = st"
| "status_of (Uncaught e) = 500"

fun reply_body :: "http_reply \<Rightarrow> jsval" where
  "reply_body (Response st hs b) = b"
| "reply_body (Uncaught e) = JUndef"

definition json_response :: "nat \<Rightarrow> jsval \<Rightarrow> http_reply" where
  \<comment> \<open>\<open>NextResponse.json(body, {status})\<close> and \<open>Response.json\<close>\<close>
  "json_response st b = Response st [(''Content-Type'', ''application/json'')] b"

lemma json_response_simps [simp]:
  "status_of (json_response st b) = st" "reply_body (json_response st b) = b"
  by (simp_all add: json_response_def)

end
