(* ===== verification/Markup.thy ===== *)
theory Markup
  imports Js_Strings
begin

text \<open>
  Markup stripping, \<open>text.replace(/\*\*/g, "").replace(/\*/g, "")\<close>, written twice in
  the source: in the tutor route (\<open>src/app/api/ai-tutor/route.js\<close>, line 14) on the
  completion it returns, and in \<open>formatNetworkResponse\<close>
  (\<open>src/app/api/gemini/route.js\<close>, line 54) for the \<open>rawText\<close> field. The two
  passes together delete every asterisk; the lemmas show that, and idempotence.
\<close>

abbreviation star :: char where "star \<equiv> CHR ''*''"

definition strip_markup :: "string \<Rightarrow> string" where
  "strip_markup text = replace_lit [star] [] (replace_lit [star, star] [] text)"

lemma replace_star_filter: "replace_lit [star] [] s = filter (\<lambda>c. c \<noteq> star) s"
  by (induction s) auto

lemma filter_replace_double_star:
  "filter (\<lambda>c. c \<noteq> star) (replace_lit [star, star] [] s) = filter (\<lambda>c. c \<noteq> star) s"
proof (induction "[star, star]" "[] :: string" s rule: replace_lit.induct)
  case 1
  then show ?case by simp
next
  case (2 c cs)
  then show ?case by (cases cs) auto
qed

lemma strip_markup_filter: "strip_markup s = filter (\<lambda>c. c \<noteq> star) s"
  by (simp add: strip_markup_def replace_star_filter filter_replace_double_star)

lemma strip_markup_no_star: "star \<notin> set (strip_markup s)"
  by (simp add: strip_markup_filter)

lemma strip_markup_id: "star \<notin> set s \<Longrightarrow> strip_markup s = s"
  by (simp add: strip_markup_filter filter_id_conv) blast

section \<open>Properties of markup stripping\<close>

text \<open>Stripping twice is stripping once.\<close>

theorem strip_markup_idempotent: "strip_markup (strip_markup s) = strip_markup s"
  by (simp add: strip_markup_filter)

text \<open>C15: the first pass \<open>replace(/\*\*/g, "")\<close> is redundant: the
  two passes together equal the single pass \<open>replace(/\*/g, "")\<close>, which deletes exactly
  the asterisks and keeps every other character in order.\<close>

theorem strip_markup_single_pass:
  "strip_markup s = replace_lit [star] [] s \<and> replace_lit [star] [] s = filter (\<lambda>c. c \<noteq> star) s"
  by (simp add: strip_markup_filter replace_star_filter)

end
