(* ===== verification/Normalizer.thy ===== *)
theory Normalizer
  imports Js_Values Markup
begin

text \<open>
  The response normalizer of \<open>src/app/api/gemini/route.js\<close>: \<open>formatNetworkResponse\<close>
  (lines 34--57) turns the completion text into the structured insight, and
  \<open>generateMockTimeline\<close> (lines 59--65) fills the presentation data from
  \<open>Math.random\<close>. The three regular expressions are modelled by matchers at one
  position run through the leftmost search \<open>search_first\<close>; the random draws are
  taken from an explicit stream in the order the object literal evaluates them; the
  clock value of \<open>new Date().toISOString()\<close> is an input.
\<close>

subsection \<open>Literals of the source\<close>

definition severity_marker :: string where
  "severity_marker = ''[SEVERITY: ''"

definition predictions_label :: string where
  "predictions_label = ''Predictions: ''"

definition recommendations_label :: string where
  "recommendations_label = ''Recommendations: ''"

text \<open>UTF-8 bytes of the emoji the code inserts: U+1F31F, U+1F4C9, U+2705.\<close>

definition glowing_star :: string where
  "glowing_star = [CHR 0xF0, CHR 0x9F, CHR 0x8C, CHR 0x9F]"

definition chart_decreasing :: string where
  "chart_decreasing = [CHR 0xF0, CHR 0x9F, CHR 0x93, CHR 0x89]"

definition check_mark :: string where
  "check_mark = [CHR 0xE2, CHR 0x9C, CHR 0x85]"

lemmas literal_defs = severity_marker_def predictions_label_def recommendations_label_def
  glowing_star_def chart_decreasing_def check_mark_def

subsection \<open>The three regular expressions\<close>

text \<open>\<open>/\[SEVERITY: (\w+)\]/i\<close> at one position: the marker, case-insensitively, then the
  greedy word run, then \<open>]\<close>. Backtracking into \<open>\w+\<close> cannot help, since a shorter
  run is followed by a word character and not by \<open>]\<close>; \<open>severity_at_iff\<close> below shows
  that the greedy matcher accepts exactly what the regular expression accepts.\<close>

definition severity_at :: "string \<Rightarrow> string option" where
  "severity_at s =
     (if ci_starts_with severity_marker s then
        (let rest = drop (length severity_marker) s; w = takeWhile is_word_char rest
         in if w \<noteq> [] \<and> starts_with '']'' (drop (length w) rest) then Some w else None)
      else None)"

definition severity_match :: "string \<Rightarrow> string option" where
  "severity_match text = search_first severity_at text"

text \<open>\<open>/Predictions: (.*?)(?=\n|$)/\<close> and \<open>/Recommendations: (.*?)(?=\n|$)/\<close>
  at one position: the label, case-sensitively, then the rest of the line.\<close>

definition line_item_at :: "string \<Rightarrow> string \<Rightarrow> string option" where
  "line_item_at label s =
     (if starts_with label s then rest_of_line (drop (length label) s) else None)"

definition item_list :: "string \<Rightarrow> string \<Rightarrow> string \<Rightarrow> string \<Rightarrow> string list" where
  \<comment> \<open>\<open>m ? m[1].split(", ").map((p) => `marker ${p}`) : [placeholder]\<close>\<close>
  "item_list label marker placeholder text =
     (case search_first (line_item_at label) text of
        Some m \<Rightarrow> map (\<lambda>p. marker @ '' '' @ p) (split_lit '', '' m)
      | None \<Rightarrow> [placeholder])"

subsection \<open>The placeholder generator\<close>

definition math_random :: "rng \<Rightarrow> real \<times> rng" where
  "math_random g = (shd g, stl g)"

definition valid_rng :: "rng \<Rightarrow> bool" where
  \<comment> \<open>\<open>Math.random\<close> returns values in \<open>[0, 1)\<close>\<close>
  "valid_rng g \<longleftrightarrow> (\<forall>r \<in> sset g. 0 \<le> r \<and> r < 1)"

definition js_index :: "'a list \<Rightarrow> int \<Rightarrow> 'a option" where
  \<comment> \<open>\<open>xs[i]\<close>: \<open>undefined\<close> out of range\<close>
  "js_index xs i = (if 0 \<le> i \<and> i < int (length xs) then Some (xs ! nat i) else None)"

record timeline_entry =
  day :: string
  risk :: int
  bandwidth :: int

fun mock_timeline_from :: "nat \<Rightarrow> nat \<Rightarrow> rng \<Rightarrow> timeline_entry list \<times> rng" where
  "mock_timeline_from 0 i g = ([], g)"
| "mock_timeline_from (Suc n) i g =
     (let (r1, g1) = math_random g;
          (r2, g2) = math_random g1;
          e = \<lparr>day = ''Day '' @ string_of_nat (Suc i), risk = \<lfloor>r1 * 100\<rfloor>,
               bandwidth = 80 + \<lfloor>r2 * 20\<rfloor>\<rparr>;
          (es, g3) = mock_timeline_from n (Suc i) g2
      in (e # es, g3))"

definition generate_mock_timeline :: "rng \<Rightarrow> timeline_entry list \<times> rng" where
  \<comment> \<open>\<open>Array.from({ length: 7 }, (_, i) => ...)\<close>\<close>
  "generate_mock_timeline g = mock_timeline_from 7 0 g"

record visual_data =
  riskScore :: int
  priorityLevel :: "string option"
  timeline :: "timeline_entry list"

subsection \<open>\<open>formatNetworkResponse\<close>\<close>

record network_insight =
  summary :: string
  severity :: string
  predictions :: "string list"
  recommendations :: "string list"
  visualData :: visual_data
  rawText :: string
  timestamp :: string

definition format_network_response :: "string \<Rightarrow> string \<Rightarrow> rng \<Rightarrow> network_insight \<times> rng" where
  "format_network_response text now g =
     (let sev = severity_match text;
          (r1, g1) = math_random g;
          (r2, g2) = math_random g1;
          (tl, g3) = generate_mock_timeline g2
      in (\<lparr>summary = replace_lit ''**'' (glowing_star @ '' '') (hd (split_lit [nl] text)),
           severity = (case sev of Some w \<Rightarrow> w | None \<Rightarrow> ''medium''),
           predictions = item_list predictions_label chart_decreasing
                           ''No predictions available'' text,
           recommendations = item_list recommendations_label check_mark
                           ''No recommendations available'' text,
           visualData = \<lparr>riskScore = \<lfloor>r1 * 100\<rfloor>,
                         priorityLevel = js_index [''low'', ''medium'', ''high''] \<lfloor>r2 * 3\<rfloor>,
                         timeline = tl\<rparr>,
           rawText = strip_markup text,
           timestamp = now\<rparr>, g3))"

abbreviation insight_of :: "string \<Rightarrow> string \<Rightarrow> rng \<Rightarrow> network_insight" where
  "insight_of text now g \<equiv> fst (format_network_response text now g)"

subsection \<open>Field equations\<close>

text \<open>One equation per field, so that the lemmas below never unfold the whole record.\<close>

lemma insight_fields:
  "summary (insight_of text now g) = replace_lit ''**'' (glowing_star @ '' '') (hd (split_lit [nl] text))"
  "severity (insight_of text now g) = (case severity_match text of Some w \<Rightarrow> w | None \<Rightarrow> ''medium'')"
  "predictions (insight_of text now g) =
     item_list predictions_label chart_decreasing ''No predictions available'' text"
  "recommendations (insight_of text now g) =
     item_list recommendations_label check_mark ''No recommendations available'' text"
  "rawText (insight_of text now g) = strip_markup text"
  "timestamp (insight_of text now g) = now"
  by (simp_all add: format_network_response_def split_def Let_def)

lemma insight_visual:
  "visualData (insight_of text now g) =
     \<lparr>riskScore = \<lfloor>shd g * 100\<rfloor>,
      priorityLevel = js_index [''low'', ''medium'', ''high''] \<lfloor>shd (stl g) * 3\<rfloor>,
      timeline = fst (generate_mock_timeline (stl (stl g)))\<rparr>"
  by (simp add: format_network_response_def split_def Let_def math_random_def)

lemma format_network_response_rng:
  "snd (format_network_response text now g) = snd (generate_mock_timeline (stl (stl g)))"
  by (simp add: format_network_response_def split_def Let_def math_random_def)

subsection \<open>Lemmas on the matchers\<close>

lemma severity_at_iff:
  "severity_at s = Some w \<longleftrightarrow>
     ci_starts_with severity_marker s \<and> w \<noteq> [] \<and> (\<forall>c \<in> set w. is_word_char c) \<and>
     (\<exists>rest. drop (length severity_marker) s = w @ CHR '']'' # rest)"
proof -
  define rest where "rest = drop (length severity_marker) s"
  have nw: "\<not> is_word_char (CHR '']'')" by (simp add: is_word_char_def)
  have key: "(w = takeWhile is_word_char rest \<and> starts_with '']'' (drop (length w) rest)) \<longleftrightarrow>
             (\<forall>c \<in> set w. is_word_char c) \<and> (\<exists>r. rest = w @ CHR '']'' # r)"
  proof
    assume a: "w = takeWhile is_word_char rest \<and> starts_with '']'' (drop (length w) rest)"
    then obtain r where r: "drop (length w) rest = CHR '']'' # r"
      by (auto simp: starts_with_iff)
    have "rest = w @ drop (length w) rest"
      using a by (metis append_take_drop_id takeWhile_eq_take)
    with r a show "(\<forall>c \<in> set w. is_word_char c) \<and> (\<exists>r. rest = w @ CHR '']'' # r)"
      by (auto dest: set_takeWhileD)
  next
    assume b: "(\<forall>c \<in> set w. is_word_char c) \<and> (\<exists>r. rest = w @ CHR '']'' # r)"
    then obtain r where "rest = w @ CHR '']'' # r" by blast
    with b nw show "w = takeWhile is_word_char rest \<and> starts_with '']'' (drop (length w) rest)"
      by simp
  qed
  have "severity_at s = Some w \<longleftrightarrow> ci_starts_with severity_marker s \<and> w \<noteq> [] \<and>
          w = takeWhile is_word_char rest \<and> starts_with '']'' (drop (length w) rest)"
    by (auto simp: severity_at_def rest_def Let_def)
  with key show ?thesis by (auto simp: rest_def)
qed

lemma line_item_at_Some:
  "line_item_at label s = Some m \<Longrightarrow>
     starts_with (label @ m) s \<and> nl \<notin> set m \<and>
     (drop (length label + length m) s = [] \<or> hd (drop (length label + length m) s) = nl)"
  unfolding line_item_at_def
  by (auto split: if_splits simp: starts_with_iff dest!: rest_of_line_Some)

lemma item_list_not_Nil: "item_list label marker placeholder text \<noteq> []"
  by (simp add: item_list_def split: option.split)

lemma item_list_found:
  "search_first (line_item_at label) text = Some m \<Longrightarrow>
     join_str '', '' (map (drop (length marker + 1)) (item_list label marker placeholder text)) = m"
  by (simp add: item_list_def comp_def join_split_lit)

lemma item_list_missing:
  "search_first (line_item_at label) text = None \<Longrightarrow>
     item_list label marker placeholder text = [placeholder]"
  by (simp add: item_list_def)

subsection \<open>Lemmas on the placeholder generator\<close>

lemma valid_rng_stl: "valid_rng g \<Longrightarrow> valid_rng (stl g)"
  by (simp add: valid_rng_def stream.set_sel(2))

lemma valid_rng_shd: "valid_rng g \<Longrightarrow> 0 \<le> shd g \<and> shd g < 1"
  by (simp add: valid_rng_def shd_sset)

lemma floor_scaled_bounds:
  "0 \<le> (r::real) \<Longrightarrow> r < 1 \<Longrightarrow> 0 < (n::nat) \<Longrightarrow>
     0 \<le> \<lfloor>r * of_nat n\<rfloor> \<and> \<lfloor>r * of_nat n\<rfloor> < int n"
  by (auto simp: floor_less_iff)

lemma mock_timeline_from_spec:
  "valid_rng g \<Longrightarrow>
     length (fst (mock_timeline_from n i g)) = n \<and>
     (\<forall>k < n. day (fst (mock_timeline_from n i g) ! k) = ''Day '' @ string_of_nat (Suc (i + k))) \<and>
     (\<forall>e \<in> set (fst (mock_timeline_from n i g)).
        0 \<le> risk e \<and> risk e < 100 \<and> 80 \<le> bandwidth e \<and> bandwidth e < 100) \<and>
     snd (mock_timeline_from n i g) = sdrop (2 * n) g"
proof (induction n arbitrary: i g)
  case 0
  then show ?case by simp
next
  case (Suc n)
  let ?g2 = "stl (stl g)"
  have v2: "valid_rng ?g2" using Suc.prems by (simp add: valid_rng_stl)
  have r1: "0 \<le> \<lfloor>shd g * 100\<rfloor> \<and> \<lfloor>shd g * 100\<rfloor> < 100"
    using floor_scaled_bounds [of "shd g" 100] valid_rng_shd [OF Suc.prems] by simp
  have r2: "0 \<le> \<lfloor>shd (stl g) * 20\<rfloor> \<and> \<lfloor>shd (stl g) * 20\<rfloor> < 20"
    using floor_scaled_bounds [of "shd (stl g)" 20] valid_rng_shd [OF valid_rng_stl [OF Suc.prems]]
    by simp
  have IH: "length (fst (mock_timeline_from n (Suc i) ?g2)) = n \<and>
     (\<forall>k < n. day (fst (mock_timeline_from n (Suc i) ?g2) ! k) = ''Day '' @ string_of_nat (Suc (Suc i + k))) \<and>
     (\<forall>e \<in> set (fst (mock_timeline_from n (Suc i) ?g2)).
        0 \<le> risk e \<and> risk e < 100 \<and> 80 \<le> bandwidth e \<and> bandwidth e < 100) \<and>
     snd (mock_timeline_from n (Suc i) ?g2) = sdrop (2 * n) ?g2"
    using Suc.IH [OF v2] by blast
  have days: "\<forall>k < Suc n. day (fst (mock_timeline_from (Suc n) i g) ! k) = ''Day '' @ string_of_nat (Suc (i + k))"
  proof (intro allI impI)
    fix k assume "k < Suc n"
    with IH show "day (fst (mock_timeline_from (Suc n) i g) ! k) = ''Day '' @ string_of_nat (Suc (i + k))"
      by (cases k) (simp_all add: math_random_def split_def Let_def)
  qed
  from IH r1 r2 days show ?case
    by (simp add: math_random_def split_def Let_def)
qed

lemma mock_timeline_from_rng: "snd (mock_timeline_from n i g) = sdrop (2 * n) g"
  by (induction n arbitrary: i g) (simp_all add: math_random_def split_def Let_def)

lemma sdrop_stl_stl: "sdrop n (stl (stl g)) = sdrop (Suc (Suc n)) g"
  by simp

lemma severity_at_intro:
  "w \<noteq> [] \<Longrightarrow> \<forall>c \<in> set w. is_word_char c \<Longrightarrow>
     severity_at (severity_marker @ w @ CHR '']'' # rest) = Some w"
proof -
  assume w: "w \<noteq> []" "\<forall>c \<in> set w. is_word_char c"
  have "\<not> is_word_char (CHR '']'')" by (simp add: is_word_char_def)
  with w show ?thesis
    by (simp add: severity_at_def starts_with_ci)
qed

lemma severity_match_None:
  "\<forall>t \<in> set (tails text). \<not> ci_starts_with severity_marker t \<Longrightarrow> severity_match text = None"
  by (auto simp: severity_match_def search_first_None_tails severity_at_def)

lemmas insight_eval_simps = insight_fields severity_match_def item_list_def line_item_at_def
  severity_at_def literal_defs line_terminator_at_def to_lower_def ci_starts_with_def
  is_word_char_def

section \<open>Properties of the normalizer\<close>

text \<open>C1: a completion that nowhere contains the marker
  \<open>[SEVERITY: \<close> (in any letter case) gets severity \<open>"medium"\<close>.\<close>

theorem severity_default_medium:
  "\<forall>t \<in> set (tails text). \<not> ci_starts_with severity_marker t \<Longrightarrow>
     severity (insight_of text now g) = ''medium''"
  by (simp add: insight_fields severity_match_None)

theorem severity_default_medium_witness:
  "severity (insight_of ''All links nominal'' ''2025-01-01T00:00:00.000Z'' (sconst 0)) = ''medium''"
  by (rule severity_default_medium) (simp add: severity_marker_def ci_starts_with_def to_lower_def)

text \<open>C2: the severity is the word after the marker exactly as the
  completion writes it; the code does not fold it to lower case, so
  \<open>[SEVERITY: HIGH]\<close> yields \<open>"HIGH"\<close>, not the \<open>"high"\<close> the specification asks for.\<close>

theorem severity_verbatim:
  "w \<noteq> [] \<Longrightarrow> \<forall>c \<in> set w. is_word_char c \<Longrightarrow>
     severity (insight_of (severity_marker @ w @ CHR '']'' # rest) now g) = w"
  by (simp add: insight_fields severity_match_def search_first_here severity_at_intro)

theorem severity_verbatim_witness:
  "severity (insight_of (severity_marker @ ''HIGH'' @ CHR '']'' # '''') '''' (sconst 0)) = ''HIGH''
   \<and> ''HIGH'' \<noteq> ''high''"
  using severity_verbatim [of "''HIGH''" "''''" "''''" "sconst 0"]
  by (simp add: is_word_char_def)

text \<open>The greedy matcher used for \<open>/\[SEVERITY: (\w+)\]/i\<close>
  at a position accepts exactly the texts the regular expression accepts there, and
  captures the same word.\<close>

theorem severity_at_regex:
  "severity_at s = Some w \<longleftrightarrow>
     ci_starts_with severity_marker s \<and> w \<noteq> [] \<and> (\<forall>c \<in> set w. is_word_char c) \<and>
     (\<exists>rest. drop (length severity_marker) s = w @ CHR '']'' # rest)"
  by (rule severity_at_iff)

theorem severity_at_regex_witness: "severity_at ''[severity: Low] rest'' = Some ''Low''"
  using severity_at_regex [of "''[severity: Low] rest''" "''Low''"]
  by (simp add: severity_marker_def ci_starts_with_def to_lower_def is_word_char_def)

text \<open>C3: whatever the completion, the predictions and the
  recommendations are non-empty lists; a missing line gives the one-element placeholder.\<close>

theorem fields_never_empty:
  "predictions (insight_of text now g) \<noteq> [] \<and> recommendations (insight_of text now g) \<noteq> []"
  by (simp add: insight_fields item_list_not_Nil)

text \<open>C9: when a \<open>Predictions:\<close> line is found, every item carries
  the decorative marker, and removing the markers and joining the items with \<open>", "\<close>
  gives back the captured line: no text is lost or reordered.\<close>

theorem predictions_roundtrip:
  "search_first (line_item_at predictions_label) text = Some m \<Longrightarrow>
     (\<forall>p \<in> set (predictions (insight_of text now g)). starts_with (chart_decreasing @ '' '') p) \<and>
     join_str '', '' (map (drop (length chart_decreasing + 1)) (predictions (insight_of text now g))) = m"
  using item_list_found [of predictions_label "text" m chart_decreasing "''No predictions available''"]
  by (auto simp: insight_fields item_list_def starts_with_iff)

theorem predictions_roundtrip_witness:
  "search_first (line_item_at predictions_label) ''Predictions: a, b'' = Some ''a, b'' \<and>
   join_str '', '' (map (drop (length chart_decreasing + 1)) (predictions (insight_of ''Predictions: a, b'' '''' (sconst 0)))) = ''a, b''"
proof -
  have h: "search_first (line_item_at predictions_label) ''Predictions: a, b'' = Some ''a, b''"
    by (simp add: line_item_at_def predictions_label_def line_terminator_at_def)
  show ?thesis using predictions_roundtrip [OF h, of "''''" "sconst 0"] h by simp
qed

text \<open>The worked example of the specification. On
  \<open>"[SEVERITY: LOW]\n**Summary**: ok\nPredictions: a, b, c\nRecommendations: x, y, z"\<close>
  the predictions and recommendations are the three decorated items in order, and the
  severity is \<open>"LOW"\<close> as written (the specification expects \<open>"low"\<close>).\<close>

theorem spec_example:
  "let r = insight_of ''[SEVERITY: LOW]\<newline>**Summary**: ok\<newline>Predictions: a, b, c\<newline>Recommendations: x, y, z'' now g
   in severity r = ''LOW'' \<and> summary r = ''[SEVERITY: LOW]'' \<and>
      predictions r = [chart_decreasing @ '' a'', chart_decreasing @ '' b'', chart_decreasing @ '' c''] \<and>
      recommendations r = [check_mark @ '' x'', check_mark @ '' y'', check_mark @ '' z'']"
  by (simp add: Let_def insight_eval_simps)

text \<open>A completion that follows the output format the route's
  own prompt requests (\<open>**Predictions**: ...\<close>, \<open>**Recommendations**: ...\<close>) never matches
  the extraction patterns \<open>Predictions: \<close> and \<open>Recommendations: \<close>, so both lists
  are the placeholders.\<close>

theorem prompt_format_unparsed:
  "let r = insight_of ''[SEVERITY: HIGH]\<newline>**Summary**: Outage risk\<newline>**Predictions**: a, b, c\<newline>**Recommendations**: x, y, z\<newline>**Technical Analysis**: t'' now g
   in predictions r = [''No predictions available''] \<and>
      recommendations r = [''No recommendations available'']"
  by (simp add: Let_def insight_eval_simps)

text \<open>C16: with \<open>Math.random\<close> in \<open>[0, 1)\<close>, the risk score lies in
  0..99, the priority is one of low/medium/high (never \<open>undefined\<close>), and the timeline
  has seven entries labelled Day 1 .. Day 7 with risk in 0..99 and bandwidth in 80..99.\<close>

theorem visual_data_bounds:
  assumes "valid_rng g"
  shows "let v = visualData (insight_of text now g)
         in 0 \<le> riskScore v \<and> riskScore v < 100 \<and>
            priorityLevel v \<in> {Some ''low'', Some ''medium'', Some ''high''} \<and>
            map day (timeline v) = map (\<lambda>k. ''Day '' @ string_of_nat k) [1..<8] \<and>
            (\<forall>e \<in> set (timeline v). 0 \<le> risk e \<and> risk e < 100 \<and> 80 \<le> bandwidth e \<and> bandwidth e < 100)"
proof -
  have v1: "valid_rng (stl g)" and v2: "valid_rng (stl (stl g))"
    using assms by (simp_all add: valid_rng_stl)
  have r: "0 \<le> \<lfloor>shd g * 100\<rfloor> \<and> \<lfloor>shd g * 100\<rfloor> < 100"
    using floor_scaled_bounds [of "shd g" 100] valid_rng_shd [OF assms] by simp
  have p: "0 \<le> \<lfloor>shd (stl g) * 3\<rfloor> \<and> \<lfloor>shd (stl g) * 3\<rfloor> < 3"
    using floor_scaled_bounds [of "shd (stl g)" 3] valid_rng_shd [OF v1] by simp
  have "\<forall>k::int. 0 \<le> k \<and> k < 3 \<longrightarrow> k \<in> {0, 1, 2}" by auto
  with p have "\<lfloor>shd (stl g) * 3\<rfloor> \<in> {0, 1, 2}" by blast
  moreover have "\<forall>k \<in> {0, 1, 2 :: int}. js_index [''low'', ''medium'', ''high''] k \<in>
               {Some ''low'', Some ''medium'', Some ''high''}"
    by (simp add: js_index_def)
  ultimately have "js_index [''low'', ''medium'', ''high''] \<lfloor>shd (stl g) * 3\<rfloor> \<in>
               {Some ''low'', Some ''medium'', Some ''high''}"
    by blast
  moreover have "map day (fst (mock_timeline_from 7 0 (stl (stl g)))) = map (\<lambda>k. ''Day '' @ string_of_nat k) [1..<8]"
    using mock_timeline_from_spec [OF v2, of 7 0] by (intro nth_equalityI) auto
  ultimately show ?thesis
    using r mock_timeline_from_spec [OF v2, of 7 0]
    by (simp add: insight_visual generate_mock_timeline_def Let_def)
qed

theorem visual_data_bounds_witness:
  "let v = visualData (insight_of ''ok'' '''' (sconst (1/2)))
   in 0 \<le> riskScore v \<and> riskScore v < 100 \<and>
      priorityLevel v \<in> {Some ''low'', Some ''medium'', Some ''high''} \<and>
      map day (timeline v) = map (\<lambda>k. ''Day '' @ string_of_nat k) [1..<8] \<and>
      (\<forall>e \<in> set (timeline v). 0 \<le> risk e \<and> risk e < 100 \<and> 80 \<le> bandwidth e \<and> bandwidth e < 100)"
  by (rule visual_data_bounds) (simp add: valid_rng_def)

text \<open>The presentation data does not depend on the completion
  or the clock, and one call consumes exactly sixteen \<open>Math.random\<close> values (risk score,
  priority, then a risk and a bandwidth for each of seven days).\<close>

theorem visual_data_independent:
  "visualData (insight_of t1 n1 g) = visualData (insight_of t2 n2 g) \<and>
   snd (format_network_response t1 n1 g) = sdrop 16 g"
  by (simp add: insight_visual format_network_response_rng generate_mock_timeline_def
      mock_timeline_from_rng sdrop_stl_stl del: sdrop_simps)

end
