(* ===== verification/Prompts.thy ===== *)
theory Prompts
  imports Js_Values
begin

text \<open>
  The prompt builders of the four routes that call the language model. Each template
  literal of the source is a list of its lines joined with newlines, written out with
  the source's indentation; the interpolated values enter through \<open>js_to_string\<close>
  (a template literal's \<open>${v}\<close>), \<open>json_stringify\<close> and \<open>to_fixed2\<close>
  (\<open>Number.prototype.toFixed(2)\<close>).
\<close>

definition text_lines :: "string list \<Rightarrow> string" where
  "text_lines ls = join_str [nl] ls"

subsection \<open>\<open>toFixed(2)\<close>\<close>

text \<open>\<open>x.toFixed(2)\<close> takes the integer \<open>n\<close> nearest to \<open>100 * |x|\<close>, the larger one on
  a tie, and prints \<open>n / 100\<close> with exactly two fractional digits, with a sign for a
  negative \<open>x\<close> (values from \<open>10^21\<close> on are printed by \<open>ToString\<close> instead and are
  outside the model).\<close>

definition fixed2_units :: "real \<Rightarrow> nat" where
  "fixed2_units x = nat \<lfloor>\<bar>x\<bar> * 100 + 1 / 2\<rfloor>"

definition to_fixed2 :: "real \<Rightarrow> string" where
  "to_fixed2 x = (if x < 0 then ''-'' else []) @ decimal_string 2 (fixed2_units x)"

text \<open>Reading a printed \<open>ddd.dd\<close> back as a number (the inverse used in the lemmas).\<close>

definition fixed2_value :: "string \<Rightarrow> real" where
  "fixed2_value s = real (nat_of_string (filter (\<lambda>c. c \<noteq> CHR ''.'') s)) / 100"

subsection \<open>The four templates\<close>

definition tutor_prompt :: "string \<Rightarrow> string" where
  \<comment> \<open>\<open>src/app/api/ai-tutor/route.js\<close>, line 11\<close>
  "tutor_prompt question = ''As an AI tutor, please answer the following question: '' @ question"

definition evaluate_prompt :: "string \<Rightarrow> string \<Rightarrow> string \<Rightarrow> string" where
  \<comment> \<open>\<open>src/app/api/evaluate-answer/route.js\<close>, lines 11--25\<close>
  "evaluate_prompt question answer difficulty = text_lines
     [ '''',
       ''      Question: \"'' @ question @ ''\"'',
       ''      Student's Answer: \"'' @ answer @ ''\"'',
       ''      Difficulty Level: '' @ difficulty @ ''/10'',
       '''',
       ''      Please evaluate the student's answer based on the following criteria:'',
       ''      1. Relevance to the question'',
       ''      2. Depth of understanding'',
       ''      3. Critical thinking'',
       ''      4. Clarity of expression'',
       '''',
       ''      Provide a brief feedback comment (2-3 sentences) and a score between 0 and 1, where 0 is completely incorrect and 1 is a perfect answer.'',
       '''',
       ''      Format your response as a JSON object with 'comment' and 'score' fields.'',
       ''    '' ]"

definition network_prompt :: "string \<Rightarrow> string \<Rightarrow> string" where
  \<comment> \<open>\<open>src/app/api/gemini/route.js\<close>, lines 73--80\<close>
  "network_prompt query history = text_lines
     [ ''Act as a Network Health AI Analyst. Analyze this network query: \"'' @ query @ ''\"'',
       ''      Historical data: '' @ history,
       ''      Respond in this format:'',
       ''      [SEVERITY: LOW/MEDIUM/HIGH]'',
       ''      **Summary**: One-line emoji-rich summary'',
       ''      **Predictions**: 3 comma-separated future predictions'',
       ''      **Recommendations**: 3 comma-separated action items'',
       ''      **Technical Analysis**: 2-3 sentence expert analysis'' ]"

definition performance_prompt :: "real \<Rightarrow> real \<Rightarrow> real \<Rightarrow> string" where
  \<comment> \<open>\<open>src/app/api/network-performance/route.js\<close>, lines 19--32\<close>
  "performance_prompt bw lat loss = text_lines
     [ '''',
       ''      Analyze the following network performance data:'',
       ''      Bandwidth: '' @ to_fixed2 bw @ '' Mbps'',
       ''      Latency: '' @ to_fixed2 lat @ '' ms'',
       ''      Packet Loss: '' @ to_fixed2 loss @ ''%'',
       '''',
       ''      Provide a brief assessment of the network quality and any potential issues or recommendations.'',
       ''      Consider the following in your analysis:'',
       ''      - Is the bandwidth sufficient for most online activities?'',
       ''      - Is the latency acceptable for real-time applications?'',
       ''      - Is the packet loss within an acceptable range?'',
       ''      '',
       ''      Keep the response concise, within 2-3 sentences.'',
       ''    '' ]"

subsection \<open>Lemmas on \<open>toFixed(2)\<close>\<close>

lemma nat_of_string_zeros [simp]:
  "nat_of_string (replicate k (CHR ''0'') @ s) = nat_of_string s"
proof -
  have z: "foldl (\<lambda>acc c. 10 * acc + digit_val c) 0 (replicate k (CHR ''0'')) = 0"
    by (induction k) (simp_all add: digit_val_def)
  show ?thesis by (simp add: nat_of_string_def z)
qed

lemma string_of_nat_digits: "set (string_of_nat n) \<subseteq> set ''0123456789''"
proof (induction n rule: string_of_nat.induct)
  case (1 n)
  have "digit_char d \<in> set ''0123456789''" if "d < 10" for d
    unfolding digit_char_def using that by (intro nth_mem) simp
  with 1 show ?case by (subst string_of_nat.simps) auto
qed

lemma no_dot_string_of_nat: "CHR ''.'' \<notin> set (string_of_nat n)"
  using string_of_nat_digits [of n] by auto

lemma fixed2_value_decimal_string: "fixed2_value (decimal_string 2 n) = real n / 100"
proof -
  define ds where "ds = pad_left 3 (string_of_nat n)"
  have nodot: "CHR ''.'' \<notin> set ds"
    using no_dot_string_of_nat [of n] by (auto simp: pad_left_def ds_def)
  have ds: "decimal_string 2 n = take (length ds - 2) ds @ ''.'' @ drop (length ds - 2) ds"
    by (simp add: decimal_string_def ds_def Let_def)
  have "filter (\<lambda>c. c \<noteq> CHR ''.'') (decimal_string 2 n) =
        filter (\<lambda>c. c \<noteq> CHR ''.'') (take (length ds - 2) ds) @
        filter (\<lambda>c. c \<noteq> CHR ''.'') (drop (length ds - 2) ds)"
    unfolding ds by simp
  also have "\<dots> = filter (\<lambda>c. c \<noteq> CHR ''.'') ds"
    by (metis append_take_drop_id filter_append)
  also have "\<dots> = ds"
    using nodot by (auto simp: filter_id_conv)
  finally have f: "filter (\<lambda>c. c \<noteq> CHR ''.'') (decimal_string 2 n) = ds" .
  have "nat_of_string ds = n"
    by (simp add: ds_def pad_left_def nat_of_string_of_nat)
  with f show ?thesis by (simp add: fixed2_value_def)
qed

lemma round_half_close:
  "(k::real) \<le> y * 100 + 1 / 2 \<Longrightarrow> y * 100 + 1 / 2 < k + 1 \<Longrightarrow> \<bar>k / 100 - y\<bar> \<le> 1 / 200"
proof -
  assume a: "k \<le> y * 100 + 1 / 2" and b: "y * 100 + 1 / 2 < k + 1"
  have "k / 100 - y \<le> 1 / 200" using a by (simp add: field_simps)
  moreover have "y - k / 100 \<le> 1 / 200" using b by (simp add: field_simps)
  ultimately show ?thesis unfolding abs_le_iff by linarith
qed

lemma fixed2_units_close: "\<bar>real (fixed2_units x) / 100 - \<bar>x\<bar>\<bar> \<le> 1 / 200"
proof -
  let ?y = "\<bar>x\<bar> * 100 + 1 / 2"
  have ge: "0 \<le> \<lfloor>?y\<rfloor>" by simp
  have a: "real_of_int \<lfloor>?y\<rfloor> \<le> ?y" and b: "?y < real_of_int \<lfloor>?y\<rfloor> + 1"
    by linarith+
  have "real (fixed2_units x) = real_of_int \<lfloor>?y\<rfloor>"
    using ge by (simp add: fixed2_units_def)
  with round_half_close [OF a b] show ?thesis by simp
qed

section \<open>Properties of the prompt builders\<close>

text \<open>The metrics the performance route prints into its prompt with
  \<open>toFixed(2)\<close> are within half a hundredth of the measured value: reading the printed
  text back gives a number at most 0.005 away.\<close>

theorem to_fixed2_close: "0 \<le> x \<Longrightarrow> \<bar>fixed2_value (to_fixed2 x) - x\<bar> \<le> 1 / 200"
proof -
  assume x: "0 \<le> x"
  then have "to_fixed2 x = decimal_string 2 (fixed2_units x)"
    by (simp add: to_fixed2_def)
  then have v: "fixed2_value (to_fixed2 x) = real (fixed2_units x) / 100"
    by (simp add: fixed2_value_decimal_string)
  have "\<bar>real (fixed2_units x) / 100 - \<bar>x\<bar>\<bar> \<le> 1 / 200" by (rule fixed2_units_close)
  then show ?thesis by (simp only: v abs_of_nonneg [OF x])
qed

theorem to_fixed2_close_witness:
  "to_fixed2 12.345 = ''12.35'' \<and> \<bar>fixed2_value (to_fixed2 12.345) - 12.345\<bar> \<le> 1 / 200"
proof
  show "to_fixed2 12.345 = ''12.35''"
    by (simp add: to_fixed2_def fixed2_units_def decimal_string_def pad_left_def
        string_of_nat.simps digit_char_def)
  show "\<bar>fixed2_value (to_fixed2 12.345) - 12.345\<bar> \<le> 1 / 200"
    by (rule to_fixed2_close) simp
qed

end
