(* ===== verification/Routes.thy ===== *)
theory Routes
  imports Normalizer Prompts
begin

text \<open>
  The HTTP route handlers of \<open>src/app/api\<close>. Each handler is one function from its
  inputs to the reply: the parsed request body (\<open>await req.json()\<close>, which rejects on a
  malformed body), the language-model provider (\<open>model.generateContent(prompt)\<close>
  followed by \<open>.response.text()\<close>: the completion or the rejection), \<open>JSON.parse\<close>
  (a parameter: a library function), the external insights API, the random stream and
  the clock. Every \<open>throw\<close> inside a \<open>try\<close> becomes the route's error reply; a
  rejection outside the \<open>try\<close> (the body destructuring) escapes as \<open>Uncaught\<close>.
  The handlers share no state: each is a function of its own request.
\<close>

type_synonym provider = "string \<Rightarrow> js_error + string"
type_synonym json_parser = "string \<Rightarrow> js_error + jsval"
type_synonym request_body = "js_error + jsval"

text \<open>\<open>fetch\<close> to the insights API: a rejection, or the status and what
  \<open>response.json()\<close> yields.\<close>
type_synonym insights_api = "jsval \<Rightarrow> js_error + (nat \<times> (js_error + jsval))"

fun error_message :: "js_error \<Rightarrow> string" where
  "error_message (TypeError m) = m"
| "error_message (SyntaxError m) = m"
| "error_message (ProviderError m) = m"
| "error_message (HttpError m) = m"

subsection \<open>\<open>ai-tutor/route.js\<close>\<close>

definition tutor_error_body :: jsval where
  "tutor_error_body = JObj [(''error'', JStr ''An error occurred while processing your request.'')]"

definition ai_tutor_post :: "provider \<Rightarrow> request_body \<Rightarrow> http_reply" where
  "ai_tutor_post gen req =
     (case req of
        Inl e \<Rightarrow> Uncaught e
      | Inr body \<Rightarrow>
          (case get_prop body ''question'' of
             Inl e \<Rightarrow> Uncaught e
           | Inr question \<Rightarrow>
               (case gen (tutor_prompt (js_to_string question)) of
                  Inl e \<Rightarrow> json_response 500 tutor_error_body
                | Inr text \<Rightarrow> json_response 200 (JObj [(''response'', JStr (strip_markup text))]))))"

subsection \<open>\<open>evaluate-answer/route.js\<close>\<close>

definition evaluate_error_body :: jsval where
  "evaluate_error_body = JObj [(''error'', JStr ''Failed to evaluate answer'')]"

definition evaluate_answer_post :: "provider \<Rightarrow> json_parser \<Rightarrow> request_body \<Rightarrow> http_reply" where
  "evaluate_answer_post gen json_parse req =
     (case req of
        Inl e \<Rightarrow> Uncaught e
      | Inr body \<Rightarrow>
          (case get_prop body ''question'' of
             Inl e \<Rightarrow> Uncaught e
           | Inr question \<Rightarrow>
               (let answer = obj_get body ''answer''; difficulty = obj_get body ''difficulty'';
                    prompt = evaluate_prompt (js_to_string question) (js_to_string answer)
                               (js_to_string difficulty)
                in case gen prompt of
                     Inl e \<Rightarrow> json_response 500 evaluate_error_body
                   | Inr text \<Rightarrow>
                       (case json_parse text of
                          Inl e \<Rightarrow> json_response 500 evaluate_error_body
                        | Inr evaluation \<Rightarrow>
                            (case get_prop evaluation ''comment'' of
                               Inl e \<Rightarrow> json_response 500 evaluate_error_body
                             | Inr comment \<Rightarrow>
                                 json_response 200
                                   (JObj [(''feedback'', JObj [(''comment'', comment),
                                          (''score'', obj_get evaluation ''score'')])]))))))"

subsection \<open>\<open>gemini/route.js\<close>: the network insight query\<close>

text \<open>UTF-8 bytes of U+1F7E2, U+1F7E1, U+1F534 and U+1F6A8.\<close>

definition green_circle :: string where "green_circle = [CHR 0xF0, CHR 0x9F, CHR 0x9F, CHR 0xA2]"
definition yellow_circle :: string where "yellow_circle = [CHR 0xF0, CHR 0x9F, CHR 0x9F, CHR 0xA1]"
definition red_circle :: string where "red_circle = [CHR 0xF0, CHR 0x9F, CHR 0x94, CHR 0xB4]"
definition police_light :: string where "police_light = [CHR 0xF0, CHR 0x9F, CHR 0x9A, CHR 0xA8]"

definition color_codes :: jsval where
  "color_codes = JObj [(''low'', JStr ''#2ecc71''), (''medium'', JStr ''#f1c40f''), (''high'', JStr ''#e74c3c'')]"

text \<open>\<open>{low: ..., medium: ..., high: ...}[key]\<close>: an own key gives its emoji; the key
  \<open>__proto__\<close> reads \<open>Object.prototype\<close>, which serialises as \<open>{}\<close>; an inherited
  method name reads a function and any other key \<open>undefined\<close>, both of which
  \<open>JSON.stringify\<close> leaves out.\<close>

definition severity_emoji :: "string \<Rightarrow> jsval" where
  "severity_emoji key =
     (if key = ''low'' then JStr green_circle
      else if key = ''medium'' then JStr yellow_circle
      else if key = ''high'' then JStr red_circle
      else if key = ''__proto__'' then JObj []
      else JUndef)"

definition timeline_json :: "timeline_entry \<Rightarrow> jsval" where
  "timeline_json e = JObj [(''day'', JStr (day e)), (''risk'', JNum (of_int (risk e))),
                           (''bandwidth'', JNum (of_int (bandwidth e)))]"

definition insight_json :: "network_insight \<Rightarrow> jsval" where
  \<comment> \<open>\<open>structuredResponse\<close> after lines 89--99 add \<open>colorCodes\<close> and \<open>emoji\<close>\<close>
  "insight_json r =
     JObj [(''summary'', JStr (summary r)),
           (''severity'', JStr (severity r)),
           (''predictions'', JArr (map JStr (predictions r))),
           (''recommendations'', JArr (map JStr (recommendations r))),
           (''visualData'', JObj [(''riskScore'', JNum (of_int (riskScore (visualData r)))),
                                 (''priorityLevel'', (case priorityLevel (visualData r) of
                                                      Some p \<Rightarrow> JStr p | None \<Rightarrow> JUndef)),
                                 (''timeline'', JArr (map timeline_json (timeline (visualData r))))]),
           (''rawText'', JStr (rawText r)),
           (''timestamp'', JStr (timestamp r)),
           (''colorCodes'', color_codes),
           (''emoji'', severity_emoji (to_lower (severity r)))]"

definition gemini_error_body :: "bool \<Rightarrow> js_error \<Rightarrow> jsval" where
  "gemini_error_body dev e =
     JObj [(''error'', JStr (police_light @ '' Critical System Error'')),
           (''message'', JStr ''Our AI engines are overheating! Try again later.''),
           (''debug'', (if dev then JStr (error_message e) else JUndef))]"

definition gemini_post ::
  "provider \<Rightarrow> bool \<Rightarrow> string \<Rightarrow> rng \<Rightarrow> request_body \<Rightarrow> http_reply \<times> rng" where
  "gemini_post gen dev now g req =
     (case req of
        Inl e \<Rightarrow> (Uncaught e, g)
      | Inr body \<Rightarrow>
          (case get_prop body ''query'' of
             Inl e \<Rightarrow> (Uncaught e, g)
           | Inr query \<Rightarrow>
               (let historical = obj_get body ''historicalData'';
                    prompt = network_prompt (js_to_string query)
                               (json_stringify (js_or historical (JObj [])))
                in case gen prompt of
                     Inl e \<Rightarrow> (Response 500 [(''Content-Type'', ''application/json'')]
                                 (gemini_error_body dev e), g)
                   | Inr text \<Rightarrow>
                       (let (r, g') = format_network_response text now g
                        in (Response 200 [(''Content-Type'', ''application/json''),
                                          (''X-AI-Engine'', ''NetworkPulsePro v2.0'')]
                              (insight_json r), g')))))"

subsection \<open>\<open>network-performance/route.js\<close>\<close>

definition simulate_network_performance :: "rng \<Rightarrow> real list \<times> rng" where
  "simulate_network_performance g =
     (let (r1, g1) = math_random g; (r2, g2) = math_random g1; (r3, g3) = math_random g2
      in ([r1 * 100, r2 * 200, r3 * 5], g3))"

definition network_performance_get :: "provider \<Rightarrow> rng \<Rightarrow> http_reply \<times> rng" where
  "network_performance_get gen g =
     (let (pd, g') = simulate_network_performance g
      in case gen (performance_prompt (pd ! 0) (pd ! 1) (pd ! 2)) of
           Inl e \<Rightarrow> (json_response 500 (JObj [(''error'', JStr ''Failed to analyze network performance'')]), g')
         | Inr analysis \<Rightarrow>
             (json_response 200 (JObj [(''performanceData'', JArr (map JNum pd)),
                                      (''analysis'', JStr analysis)]), g'))"

subsection \<open>\<open>network-data/route.js\<close> and \<open>dashboard-data/route.js\<close>\<close>

definition network_data_get :: "rng \<Rightarrow> http_reply \<times> rng" where
  "network_data_get g =
     (let (r1, g1) = math_random g; (r2, g2) = math_random g1; (r3, g3) = math_random g2
      in (json_response 200 (JObj [(''bandwidth'', JNum (r1 * 100)), (''latency'', JNum (r2 * 200)),
                                  (''downtime'', JNum (r3 * 10))]), g3))"

definition network_status_rows :: "(string \<times> real) list" where
  "network_status_rows = [(''School A'', 98.5), (''School B'', 95.2), (''School C'', 92.7),
                          (''School D'', 97.1), (''School E'', 99.3)]"

definition learning_progress_rows :: "(string \<times> real) list" where
  "learning_progress_rows = [(''Week 1'', 22), (''Week 2'', 37), (''Week 3'', 48),
                             (''Week 4'', 62), (''Week 5'', 78)]"

definition dashboard_data_get :: http_reply where
  "dashboard_data_get =
     json_response 200
       (JObj [(''networkStatus'',
                JArr (map (\<lambda>(s, u). JObj [(''school'', JStr s), (''uptime'', JNum u)]) network_status_rows)),
              (''learningProgress'',
                JArr (map (\<lambda>(w, p). JObj [(''week'', JStr w), (''progress'', JNum p)]) learning_progress_rows))])"

subsection \<open>\<open>insights/route.js\<close>\<close>

definition insights_failure :: "string \<Rightarrow> http_reply" where
  "insights_failure msg =
     json_response 500 (JObj [(''error'', JStr ''Failed to fetch insights''), (''details'', JStr msg)])"

definition insights_post :: "insights_api \<Rightarrow> request_body \<Rightarrow> http_reply" where
  "insights_post api req =
     (case req of
        Inl e \<Rightarrow> Uncaught e
      | Inr body \<Rightarrow>
          (case get_prop body ''bandwidth'' of
             Inl e \<Rightarrow> Uncaught e
           | Inr bw \<Rightarrow>
               (let latency = obj_get body ''latency''; downtime = obj_get body ''downtime''
                in case api (JObj [(''bandwidth'', bw), (''latency'', latency), (''downtime'', downtime)]) of
                     Inl e \<Rightarrow> insights_failure (error_message e)
                   | Inr (st, parsed) \<Rightarrow>
                       (if \<not> (200 \<le> st \<and> st \<le> 299) then
                          (case parsed of
                             Inl e \<Rightarrow> insights_failure (error_message e)
                           | Inr err \<Rightarrow> insights_failure
                               (''API request failed with status '' @ string_of_nat st @ '': '' @
                                json_stringify err))
                        else
                          (case parsed of
                             Inl e \<Rightarrow> insights_failure (error_message e)
                           | Inr data \<Rightarrow>
                               (case get_prop data ''insights'' of
                                  Inl e \<Rightarrow> insights_failure (error_message e)
                                | Inr ins \<Rightarrow>
                                    json_response 200
                                      (JObj [(''insights'', js_or ins (JStr ''No insights available.''))])))))))"

subsection \<open>Lemmas\<close>

lemma insight_json_fields [simp]:
  "obj_get (insight_json r) ''emoji'' = severity_emoji (to_lower (severity r))"
  "obj_get (insight_json r) ''severity'' = JStr (severity r)"
  "obj_get (insight_json r) ''response'' = JUndef"
  by (simp_all add: insight_json_def)

lemma gemini_post_success:
  "get_prop body ''query'' = Inr q \<Longrightarrow>
   fst (gemini_post (\<lambda>_. Inr text) dev now g (Inr body)) =
     Response 200 [(''Content-Type'', ''application/json''), (''X-AI-Engine'', ''NetworkPulsePro v2.0'')]
       (insight_json (insight_of text now g))"
  by (simp add: gemini_post_def Let_def split_def)

lemma severity_of_marked:
  "w \<noteq> [] \<Longrightarrow> \<forall>c \<in> set w. is_word_char c \<Longrightarrow>
     severity (insight_of (severity_marker @ w @ CHR '']'' # rest) now g) = w"
  by (simp add: insight_fields severity_match_def search_first_here severity_at_intro)

section \<open>Properties of the routes\<close>

text \<open>C10: when the completion is not valid JSON, the evaluator
  route answers 500 with its error envelope and never a 200 with partial data.\<close>

theorem evaluate_parse_error:
  "get_prop body ''question'' = Inr q \<Longrightarrow> json_parse text = Inl e \<Longrightarrow>
     evaluate_answer_post (\<lambda>_. Inr text) json_parse (Inr body) = json_response 500 evaluate_error_body"
  by (simp add: evaluate_answer_post_def Let_def)

theorem evaluate_parse_error_witness:
  "evaluate_answer_post (\<lambda>_. Inr ''```json {}```'') (\<lambda>_. Inl (SyntaxError ''Unexpected token''))
     (Inr (JObj [(''question'', JStr ''2+2?''), (''answer'', JStr ''4''), (''difficulty'', JNum 3)]))
   = json_response 500 evaluate_error_body"
  by (rule evaluate_parse_error) simp_all

text \<open>C11: when the completion parses to an object with
  \<open>comment\<close> and \<open>score\<close>, the route answers 200 with exactly those two values, unmodified
  (a score outside 0..1 is passed through unchecked).\<close>

theorem evaluate_passthrough:
  "get_prop body ''question'' = Inr q \<Longrightarrow> json_parse text = Inr (JObj kvs) \<Longrightarrow>
   map_of (rev kvs) ''comment'' = Some c \<Longrightarrow> map_of (rev kvs) ''score'' = Some s \<Longrightarrow>
     evaluate_answer_post (\<lambda>_. Inr text) json_parse (Inr body) =
       json_response 200 (JObj [(''feedback'', JObj [(''comment'', c), (''score'', s)])])"
  by (simp add: evaluate_answer_post_def Let_def)

theorem evaluate_passthrough_witness:
  "evaluate_answer_post (\<lambda>_. Inr ''{...}'')
     (\<lambda>_. Inr (JObj [(''comment'', JStr ''Clear and correct.''), (''score'', JNum 0.9)]))
     (Inr (JObj [(''question'', JStr ''2+2?''), (''answer'', JStr ''4''), (''difficulty'', JNum 3)]))
   = json_response 200 (JObj [(''feedback'', JObj [(''comment'', JStr ''Clear and correct.''), (''score'', JNum 0.9)])])"
  by (rule evaluate_passthrough
      [where kvs = "[(''comment'', JStr ''Clear and correct.''), (''score'', JNum 0.9)]"]) simp_all

text \<open>C18: a completion that is valid JSON but not an object is not
  rejected: for \<open>null\<close> the property read throws inside the \<open>try\<close> and the route answers
  500, and for any other non-object value (a number, a string, a boolean or an array) it
  answers 200 with a feedback whose \<open>comment\<close> and \<open>score\<close> are \<open>undefined\<close>, so they
  are missing from the JSON the client receives.\<close>

theorem evaluate_non_object:
  "get_prop body ''question'' = Inr q \<Longrightarrow> json_parse text = Inr v \<Longrightarrow> v \<noteq> JUndef \<Longrightarrow>
   (\<forall>kvs. v \<noteq> JObj kvs) \<Longrightarrow>
     evaluate_answer_post (\<lambda>_. Inr text) json_parse (Inr body) =
       (if v = JNull then json_response 500 evaluate_error_body
        else json_response 200 (JObj [(''feedback'', JObj [(''comment'', JUndef), (''score'', JUndef)])]))"
  by (cases v) (simp_all add: evaluate_answer_post_def Let_def obj_get_def)

theorem evaluate_non_object_witness:
  "evaluate_answer_post (\<lambda>_. Inr ''ok'') (\<lambda>_. Inr (JStr ''ok'')) (Inr (JObj [(''question'', JStr ''Q'')])) =
     json_response 200 (JObj [(''feedback'', JObj [(''comment'', JUndef), (''score'', JUndef)])])"
  using evaluate_non_object [of "JObj [(''question'', JStr ''Q'')]" "JStr ''Q''" "\<lambda>_. Inr (JStr ''ok'')"
      "''ok''" "JStr ''ok''"]
  by simp

text \<open>C13: for a request with a question, the tutor route answers either
  500 with its fixed error envelope (provider failure) or 200 with a \<open>response\<close> text that
  contains no asterisk.\<close>

theorem tutor_envelope:
  "get_prop body ''question'' = Inr q \<Longrightarrow>
     (ai_tutor_post gen (Inr body) = json_response 500 tutor_error_body) \<or>
     (\<exists>t. ai_tutor_post gen (Inr body) = json_response 200 (JObj [(''response'', JStr t)]) \<and>
          CHR ''*'' \<notin> set t)"
  by (auto simp: ai_tutor_post_def strip_markup_no_star split: sum.split)

theorem tutor_envelope_witness:
  "ai_tutor_post (\<lambda>_. Inr ''**Four**'') (Inr (JObj [(''question'', JStr ''2+2?'')])) =
     json_response 500 tutor_error_body \<or>
   (\<exists>t. ai_tutor_post (\<lambda>_. Inr ''**Four**'') (Inr (JObj [(''question'', JStr ''2+2?'')])) =
          json_response 200 (JObj [(''response'', JStr t)]) \<and> CHR ''*'' \<notin> set t)"
  by (rule tutor_envelope) simp

text \<open>C12: a malformed request body, or the body \<open>null\<close>, makes
  every POST route reject outside its \<open>try\<close>: the reply is an uncaught error, not the
  route's JSON error envelope.\<close>

theorem body_errors_uncaught:
  "ai_tutor_post gen (Inl e) = Uncaught e \<and>
   evaluate_answer_post gen p (Inl e) = Uncaught e \<and>
   fst (gemini_post gen dev now g (Inl e)) = Uncaught e \<and>
   insights_post api (Inl e) = Uncaught e \<and>
   (\<exists>e1. ai_tutor_post gen (Inr JNull) = Uncaught e1) \<and>
   (\<exists>e2. evaluate_answer_post gen p (Inr JNull) = Uncaught e2) \<and>
   (\<exists>e3. fst (gemini_post gen dev now g (Inr JNull)) = Uncaught e3) \<and>
   (\<exists>e4. insights_post api (Inr JNull) = Uncaught e4)"
  by (simp add: ai_tutor_post_def evaluate_answer_post_def gemini_post_def insights_post_def)

text \<open>C31: for every query and every completion whose severity marker is
  followed by a word, the insight route answers with that word as written in
  \<open>severity\<close> and picks the emoji by its lower-cased form, so \<open>HIGH\<close>, \<open>High\<close> and
  \<open>high\<close> all get the red circle while the \<open>severity\<close> field keeps the original
  spelling.\<close>

theorem gemini_emoji:
  "get_prop body ''query'' = Inr q \<Longrightarrow> w \<noteq> [] \<Longrightarrow> \<forall>c \<in> set w. is_word_char c \<Longrightarrow>
   let b = reply_body (fst (gemini_post (\<lambda>_. Inr (severity_marker @ w @ CHR '']'' # rest)) dev now g (Inr body)))
   in obj_get b ''severity'' = JStr w \<and> obj_get b ''emoji'' = severity_emoji (to_lower w)"
  by (simp add: gemini_post_success severity_of_marked)

theorem gemini_emoji_witness:
  "let b = reply_body (fst (gemini_post (\<lambda>_. Inr (severity_marker @ ''High'' @ CHR '']'' # '''')) False ''''
              (sconst 0) (Inr (JObj [(''query'', JStr ''Is school B at risk?'')]))))
   in obj_get b ''severity'' = JStr ''High'' \<and> obj_get b ''emoji'' = severity_emoji (to_lower ''High'')
      \<and> severity_emoji (to_lower ''High'') = JStr red_circle"
proof -
  have "let b = reply_body (fst (gemini_post (\<lambda>_. Inr (severity_marker @ ''High'' @ CHR '']'' # '''')) False ''''
              (sconst 0) (Inr (JObj [(''query'', JStr ''Is school B at risk?'')]))))
   in obj_get b ''severity'' = JStr ''High'' \<and> obj_get b ''emoji'' = severity_emoji (to_lower ''High'')"
    by (rule gemini_emoji) (simp_all add: is_word_char_def)
  then show ?thesis by (simp add: Let_def severity_emoji_def to_lower_def)
qed

text \<open>The severity word is any run of word characters, and the
  emoji table is a plain object, so the completion \<open>[SEVERITY: __proto__]\<close> makes the
  route send \<open>"emoji": {}\<close> (the object prototype) instead of an emoji or nothing.\<close>

theorem gemini_proto_emoji:
  "get_prop body ''query'' = Inr q \<Longrightarrow>
   obj_get (reply_body (fst (gemini_post (\<lambda>_. Inr (severity_marker @ ''__proto__]'')) dev now g (Inr body))))
     ''emoji'' = JObj []"
proof -
  have "severity (insight_of (severity_marker @ ''__proto__'' @ CHR '']'' # []) now g) = ''__proto__''"
    by (rule severity_of_marked) (simp_all add: is_word_char_def)
  moreover assume "get_prop body ''query'' = Inr q"
  ultimately show ?thesis
    by (simp add: gemini_post_success severity_emoji_def to_lower_def)
qed

theorem gemini_proto_emoji_witness:
  "obj_get (reply_body (fst (gemini_post (\<lambda>_. Inr (severity_marker @ ''__proto__]'')) True ''''
     (sconst 0) (Inr (JObj [(''query'', JStr ''status?'')]))))) ''emoji'' = JObj []"
  by (rule gemini_proto_emoji) simp

text \<open>C19: the mock metric route answers 200 with a bandwidth in
  [0, 100), a latency in [0, 200) and a downtime in [0, 10), and draws three random values.\<close>

theorem network_data_bounds:
  assumes "valid_rng g"
  shows "\<exists>b l d. network_data_get g =
            (json_response 200 (JObj [(''bandwidth'', JNum b), (''latency'', JNum l), (''downtime'', JNum d)]),
             sdrop 3 g) \<and>
          0 \<le> b \<and> b < 100 \<and> 0 \<le> l \<and> l < 200 \<and> 0 \<le> d \<and> d < 10"
proof -
  have "0 \<le> shd g \<and> shd g < 1" "0 \<le> shd (stl g) \<and> shd (stl g) < 1"
       "0 \<le> shd (stl (stl g)) \<and> shd (stl (stl g)) < 1"
    using assms by (simp_all add: valid_rng_shd valid_rng_stl)
  then show ?thesis
    by (simp add: network_data_get_def math_random_def Let_def json_response_def eval_nat_numeral)
qed

theorem network_data_bounds_witness:
  "\<exists>b l d. network_data_get (sconst (1/4)) =
            (json_response 200 (JObj [(''bandwidth'', JNum b), (''latency'', JNum l), (''downtime'', JNum d)]),
             sdrop 3 (sconst (1/4))) \<and>
          0 \<le> b \<and> b < 100 \<and> 0 \<le> l \<and> l < 200 \<and> 0 \<le> d \<and> d < 10"
  by (rule network_data_bounds) (simp add: valid_rng_def)

text \<open>C20: when the insights API answers outside 2xx with a JSON
  body, the route answers 500 with details naming the status and the body.\<close>

theorem insights_http_error:
  "get_prop body ''bandwidth'' = Inr bw \<Longrightarrow> api v = Inr (st, Inr err) \<Longrightarrow>
   v = JObj [(''bandwidth'', bw), (''latency'', obj_get body ''latency''), (''downtime'', obj_get body ''downtime'')] \<Longrightarrow>
   \<not> (200 \<le> st \<and> st \<le> 299) \<Longrightarrow>
     insights_post api (Inr body) =
       insights_failure (''API request failed with status '' @ string_of_nat st @ '': '' @ json_stringify err)"
  by (simp add: insights_post_def Let_def)

theorem insights_http_error_witness:
  "insights_post (\<lambda>_. Inr (404, Inr (JObj [(''message'', JStr ''Not Found'')])))
     (Inr (JObj [(''bandwidth'', JNum 50)])) =
   insights_failure (''API request failed with status '' @ string_of_nat 404 @ '': '' @
                     json_stringify (JObj [(''message'', JStr ''Not Found'')]))"
  by (rule insights_http_error [where v = "JObj [(''bandwidth'', JNum 50), (''latency'', JUndef), (''downtime'', JUndef)]"])
    (simp_all add: obj_get_def)

text \<open>A 2xx answer whose \<open>insights\<close> field is missing or empty
  gives 200 with the default text.\<close>

theorem insights_default:
  "get_prop body ''bandwidth'' = Inr bw \<Longrightarrow> api v = Inr (st, Inr (JObj kvs)) \<Longrightarrow>
   v = JObj [(''bandwidth'', bw), (''latency'', obj_get body ''latency''), (''downtime'', obj_get body ''downtime'')] \<Longrightarrow>
   200 \<le> st \<Longrightarrow> st \<le> 299 \<Longrightarrow> \<not> truthy (obj_get (JObj kvs) ''insights'') \<Longrightarrow>
     insights_post api (Inr body) = json_response 200 (JObj [(''insights'', JStr ''No insights available.'')])"
  by (simp add: insights_post_def Let_def js_or_def)

theorem insights_default_witness:
  "insights_post (\<lambda>_. Inr (200, Inr (JObj [(''insights'', JStr '''')])))
     (Inr (JObj [(''bandwidth'', JNum 50)])) =
   json_response 200 (JObj [(''insights'', JStr ''No insights available.'')])"
  by (rule insights_default [where v = "JObj [(''bandwidth'', JNum 50), (''latency'', JUndef), (''downtime'', JUndef)]"
      and kvs = "[(''insights'', JStr '''')]" and st = 200]) (simp_all add: obj_get_def)

end
