(* ===== verification/Chat.thy ===== *)
theory Chat
  imports Routes "HOL-Library.While_Combinator"
begin

text \<open>
  The two chat widgets of the browser side: the tutor chat page
  (\<open>src/app/chatbot/page.js\<close>, \<open>AITutor\<close>, \<open>handleSubmit\<close> at lines 19--44) and the
  learning assistant (\<open>src/app/components/AiAssistant.jsx\<close>, lines 7--24).
  \<open>handleSubmit\<close> is asynchronous: between sending a question and receiving its answer
  the user can type and send again, and the answers may arrive in any order. The page's
  React state (\<open>question\<close>, \<open>conversation\<close>, \<open>isTyping\<close>) is a record; the outstanding
  requests, which the code keeps only in pending promises, are made explicit as a list;
  every state update the handler makes is one event. The functional updaters
  \<open>setConversation((prev) => [...prev, msg])\<close> append to the state current when the
  answer arrives, which is what the step function does.
\<close>

subsection \<open>What a \<open>fetch\<close> returns to the page\<close>

datatype fetch_outcome =
    FetchRejected         \<comment> \<open>the network request itself failed\<close>
  | Reply http_reply      \<comment> \<open>the route's reply\<close>

text \<open>\<open>const data = await response.json(); ... data.response\<close>: a JSON reply is read
  back without its \<open>undefined\<close> fields; the bare 500 page of an uncaught error is not
  JSON, so \<open>response.json()\<close> throws and the \<open>catch\<close> branch runs. \<open>fetch\<close> does not
  throw on an HTTP error status.\<close>

fun read_field :: "string \<Rightarrow> fetch_outcome \<Rightarrow> js_error + jsval" where
  "read_field k FetchRejected = Inl (ProviderError ''Failed to fetch'')"
| "read_field k (Reply (Uncaught e)) = Inl (SyntaxError ''Unexpected token < in JSON'')"
| "read_field k (Reply (Response st hs b)) = get_prop (json_clean b) k"

subsection \<open>JavaScript \<open>String.prototype.trim\<close> emptiness\<close>

text \<open>\<open>!question.trim()\<close> holds when the question consists of white space and line
  terminators only: the ASCII ones and, in UTF-8, U+00A0, U+1680, U+2000--U+200A, U+2028,
  U+2029, U+202F, U+205F, U+3000 and U+FEFF. \<open>ws_len s\<close> is the byte length of the
  white-space code point at the start of \<open>s\<close>, 0 if there is none.\<close>

definition js_ws_seqs :: "string list" where
  "js_ws_seqs =
     [[CHR 0x09], [CHR 0x0A], [CHR 0x0B], [CHR 0x0C], [CHR 0x0D], [CHR 0x20],
      [CHR 0xC2, CHR 0xA0], [CHR 0xE1, CHR 0x9A, CHR 0x80],
      [CHR 0xE2, CHR 0x80, CHR 0x80], [CHR 0xE2, CHR 0x80, CHR 0x81], [CHR 0xE2, CHR 0x80, CHR 0x82],
      [CHR 0xE2, CHR 0x80, CHR 0x83], [CHR 0xE2, CHR 0x80, CHR 0x84], [CHR 0xE2, CHR 0x80, CHR 0x85],
      [CHR 0xE2, CHR 0x80, CHR 0x86], [CHR 0xE2, CHR 0x80, CHR 0x87], [CHR 0xE2, CHR 0x80, CHR 0x88],
      [CHR 0xE2, CHR 0x80, CHR 0x89], [CHR 0xE2, CHR 0x80, CHR 0x8A],
      [CHR 0xE2, CHR 0x80, CHR 0xA8], [CHR 0xE2, CHR 0x80, CHR 0xA9], [CHR 0xE2, CHR 0x80, CHR 0xAF],
      [CHR 0xE2, CHR 0x81, CHR 0x9F], [CHR 0xE3, CHR 0x80, CHR 0x80], [CHR 0xEF, CHR 0xBB, CHR 0xBF]]"

definition ws_len :: "string \<Rightarrow> nat" where
  "ws_len s = (case filter (\<lambda>w. starts_with w s) js_ws_seqs of [] \<Rightarrow> 0 | w # _ \<Rightarrow> length w)"

lemma ws_len_le: "ws_len s \<le> length s"
proof (cases "filter (\<lambda>w. starts_with w s) js_ws_seqs")
  case Nil
  then show ?thesis by (simp add: ws_len_def)
next
  case (Cons w ws)
  then have "w \<in> set (filter (\<lambda>w. starts_with w s) js_ws_seqs)" by simp
  then have "starts_with w s" by simp
  then have "length w \<le> length s" by (auto simp: starts_with_iff)
  with Cons show ?thesis by (simp add: ws_len_def)
qed

function js_blank :: "string \<Rightarrow> bool" where
  "js_blank s = (if s = [] then True else if ws_len s = 0 then False else js_blank (drop (ws_len s) s))"
  by pat_completeness auto
termination
  by (relation "measure length") (auto simp: ws_len_le)

declare js_blank.simps [simp del]

text \<open>The engine's scan behind \<open>trim\<close>: an index advances over one white-space code
  point at a time while there is one; \<open>None\<close> would mean the scan never stops.\<close>

definition trim_scan :: "string \<Rightarrow> nat option" where
  "trim_scan s = while_option (\<lambda>i. i < length s \<and> ws_len (drop i s) \<noteq> 0) (\<lambda>i. i + ws_len (drop i s)) 0"

subsection \<open>The tutor chat page\<close>

datatype role = UserMsg | AiMsg

record message =
  role :: role
  content :: jsval

record chat_state =
  question :: string
  conversation :: "message list"
  isTyping :: bool
  pending :: "(nat \<times> string) list"   \<comment> \<open>requests sent and not yet answered\<close>
  next_id :: nat

definition chat_init :: chat_state where
  "chat_init = \<lparr>question = [], conversation = [], isTyping = False, pending = [], next_id = 0\<rparr>"

datatype chat_event =
    TypeText string              \<comment> \<open>\<open>onChange={(e) => setQuestion(e.target.value)}\<close>\<close>
  | Submit                       \<comment> \<open>\<open>handleSubmit\<close> up to \<open>await fetch\<close>\<close>
  | Complete nat fetch_outcome   \<comment> \<open>the rest of \<open>handleSubmit\<close> for request \<open>i\<close>\<close>

definition sorry_text :: string where
  "sorry_text = ''Sorry, I encountered an error. Please try again.''"

definition answer_content :: "fetch_outcome \<Rightarrow> jsval" where
  "answer_content r = (case read_field ''response'' r of Inr v \<Rightarrow> v | Inl e \<Rightarrow> JStr sorry_text)"

fun chat_step :: "chat_state \<Rightarrow> chat_event \<Rightarrow> chat_state" where
  "chat_step s (TypeText t) = s\<lparr>question := t\<rparr>"
| "chat_step s Submit =
     (if js_blank (question s) then s
      else s\<lparr>conversation := conversation s @ [\<lparr>role = UserMsg, content = JStr (question s)\<rparr>],
             question := [], isTyping := True,
             pending := pending s @ [(next_id s, question s)], next_id := Suc (next_id s)\<rparr>)"
| "chat_step s (Complete i r) =
     (if i \<in> fst ` set (pending s)
      then s\<lparr>conversation := conversation s @ [\<lparr>role = AiMsg, content = answer_content r\<rparr>],
             isTyping := False, pending := filter (\<lambda>p. fst p \<noteq> i) (pending s)\<rparr>
      else s)"

fun chat_run :: "chat_state \<Rightarrow> chat_event list \<Rightarrow> chat_state" where
  "chat_run s [] = s"
| "chat_run s (e # es) = chat_run (chat_step s e) es"

inductive chat_reachable :: "chat_state \<Rightarrow> bool" where
  init: "chat_reachable chat_init"
| step: "chat_reachable s \<Longrightarrow> chat_reachable (chat_step s e)"

subsection \<open>What the chat page renders\<close>

text \<open>Lines 60--117: the placeholder when the conversation is empty, otherwise one row per
  message (right-aligned with the user icon for \<open>"user"\<close>, left-aligned with the robot
  for \<open>"ai"\<close>), then the typing row while \<open>isTyping\<close>. \<open>{msg.content}\<close> is a React child:
  \<open>undefined\<close>, \<open>null\<close> and booleans render nothing, numbers their \<open>toString\<close>, arrays
  their elements, and a plain object throws (\<open>None\<close>).\<close>

fun react_text :: "jsval \<Rightarrow> string option" where
  "react_text JUndef = Some []"
| "react_text JNull = Some []"
| "react_text (JBool b) = Some []"
| "react_text (JNum x) = Some (js_num_string x)"
| "react_text (JStr s) = Some s"
| "react_text (JArr xs) = map_option concat (those (map react_text xs))"
| "react_text (JObj kvs) = None"

datatype chat_row = Placeholder string | Bubble role string | TypingRow string

definition chat_view :: "chat_state \<Rightarrow> chat_row list option" where
  "chat_view s =
     map_option (\<lambda>rows. rows @ (if isTyping s then [TypingRow ''AI is typing...''] else []))
       (if conversation s = [] then Some [Placeholder ''Chat with Bot'']
        else those (map (\<lambda>m. map_option (Bubble (message.role m)) (react_text (content m))) (conversation s)))"

subsection \<open>The learning assistant\<close>

text \<open>\<open>AiAssistant\<close> sends \<open>{query}\<close> to \<open>/api/gemini\<close> and shows
  \<open>data.response\<close> when it is truthy (\<open>{response && ...}\<close>). The submit button is
  disabled while loading, so requests do not overlap.\<close>

record assistant_state =
  query :: string
  response :: jsval
  loading :: bool

definition assistant_error_text :: string where
  "assistant_error_text = ''An error occurred while processing your request.''"

definition assistant_request :: "assistant_state \<Rightarrow> jsval" where
  "assistant_request s = JObj [(''query'', JStr (query s))]"

definition assistant_submit :: "assistant_state \<Rightarrow> assistant_state" where
  \<comment> \<open>\<open>setLoading(true)\<close>; there is no check on the query\<close>
  "assistant_submit s = s\<lparr>loading := True\<rparr>"

definition assistant_complete :: "assistant_state \<Rightarrow> fetch_outcome \<Rightarrow> assistant_state" where
  "assistant_complete s r =
     s\<lparr>response := (case read_field ''response'' r of Inr v \<Rightarrow> v | Inl e \<Rightarrow> JStr assistant_error_text),
       loading := False\<rparr>"

definition assistant_shown :: "assistant_state \<Rightarrow> string option option" where
  \<comment> \<open>\<open>{response && <p>{response}</p>}\<close>: \<open>None\<close> when nothing is shown; otherwise the
     paragraph's text, itself \<open>None\<close> when the child is an object and rendering throws\<close>
  "assistant_shown s = (if truthy (response s) then Some (react_text (response s)) else None)"

subsection \<open>The chat invariant\<close>

definition count_role :: "role \<Rightarrow> message list \<Rightarrow> nat" where
  "count_role r ms = length (filter (\<lambda>m. message.role m = r) ms)"

definition chat_inv :: "chat_state \<Rightarrow> bool" where
  "chat_inv s \<longleftrightarrow>
     count_role UserMsg (conversation s) = count_role AiMsg (conversation s) + length (pending s) \<and>
     (isTyping s \<longrightarrow> pending s \<noteq> []) \<and>
     distinct (map fst (pending s)) \<and> (\<forall>p \<in> set (pending s). fst p < next_id s)"

lemma length_filter_remove_one:
  "distinct (map fst xs) \<Longrightarrow> i \<in> fst ` set xs \<Longrightarrow>
     Suc (length (filter (\<lambda>p. fst p \<noteq> i) xs)) = length xs"
proof (induction xs)
  case Nil
  then show ?case by simp
next
  case (Cons x xs)
  show ?case
  proof (cases "fst x = i")
    case True
    from Cons.prems(1) have nx: "fst x \<notin> fst ` set xs" by simp
    have "\<forall>p \<in> set xs. fst p \<noteq> i"
    proof
      fix p assume "p \<in> set xs"
      then have "fst p \<in> fst ` set xs" by (rule imageI)
      with nx True show "fst p \<noteq> i" by metis
    qed
    with True show ?thesis by (simp add: filter_id_conv)
  next
    case False
    with Cons show ?thesis by auto
  qed
qed

lemma chat_inv_init: "chat_inv chat_init"
  by (simp add: chat_inv_def chat_init_def count_role_def)

lemma chat_step_inv: "chat_inv s \<Longrightarrow> chat_inv (chat_step s e)"
proof (cases e)
  case (TypeText t)
  assume "chat_inv s"
  with TypeText show ?thesis by (simp add: chat_inv_def)
next
  case Submit
  assume "chat_inv s"
  with Submit show ?thesis by (auto simp: chat_inv_def count_role_def)
next
  case (Complete i r)
  assume inv: "chat_inv s"
  show ?thesis
  proof (cases "i \<in> fst ` set (pending s)")
    case True
    with inv have "Suc (length (filter (\<lambda>p. fst p \<noteq> i) (pending s))) = length (pending s)"
      by (intro length_filter_remove_one) (simp_all add: chat_inv_def)
    with inv True Complete show ?thesis
      by (auto simp: chat_inv_def count_role_def distinct_map_filter)
  next
    case False
    with inv Complete show ?thesis by simp
  qed
qed

lemma chat_reachable_inv: "chat_reachable s \<Longrightarrow> chat_inv s"
  by (induction rule: chat_reachable.induct) (simp_all add: chat_inv_init chat_step_inv)

lemma chat_run_reachable: "chat_reachable s \<Longrightarrow> chat_reachable (chat_run s es)"
  by (induction es arbitrary: s) (auto intro: chat_reachable.step)

lemma chat_step_extends: "\<exists>ms. conversation (chat_step s e) = conversation s @ ms"
  by (cases e) auto

lemma chat_run_extends: "\<exists>ms. conversation (chat_run s es) = conversation s @ ms"
proof (induction es arbitrary: s)
  case Nil
  then show ?case by simp
next
  case (Cons e es)
  obtain ms1 where "conversation (chat_step s e) = conversation s @ ms1"
    using chat_step_extends by blast
  moreover obtain ms2 where "conversation (chat_run (chat_step s e) es) = conversation (chat_step s e) @ ms2"
    using Cons.IH by blast
  ultimately show ?case by auto
qed

lemma trim_scan_Some: "\<exists>i. trim_scan s = Some i"
  unfolding trim_scan_def
proof (rule measure_while_option_Some [where P = "\<lambda>i. i \<le> length s" and f = "\<lambda>i. length s - i"])
  fix i assume "i \<le> length s" and b: "i < length s \<and> ws_len (drop i s) \<noteq> 0"
  moreover have "ws_len (drop i s) \<le> length s - i" using ws_len_le [of "drop i s"] by simp
  ultimately show "i + ws_len (drop i s) \<le> length s \<and> length s - (i + ws_len (drop i s)) < length s - i"
    by auto
qed simp

lemma js_blank_drop_step:
  "i < length s \<Longrightarrow> ws_len (drop i s) \<noteq> 0 \<Longrightarrow> js_blank (drop (i + ws_len (drop i s)) s) = js_blank (drop i s)"
  by (subst (2) js_blank.simps) (simp add: add.commute)

lemma trim_scan_result:
  assumes r: "trim_scan s = Some j"
  shows "j \<le> length s \<and> (js_blank s \<longleftrightarrow> j = length s)"
proof -
  let ?b = "\<lambda>i. i < length s \<and> ws_len (drop i s) \<noteq> 0"
  let ?c = "\<lambda>i. i + ws_len (drop i s)"
  have w: "while_option ?b ?c 0 = Some j" using r by (simp add: trim_scan_def)
  have inv: "j \<le> length s \<and> js_blank (drop j s) = js_blank (drop 0 s)"
  proof (rule while_option_rule [where P = "\<lambda>i. i \<le> length s \<and> js_blank (drop i s) = js_blank (drop 0 s)", OF _ w])
    fix i assume p: "i \<le> length s \<and> js_blank (drop i s) = js_blank (drop 0 s)" and b: "?b i"
    have "ws_len (drop i s) \<le> length s - i" using ws_len_le [of "drop i s"] by simp
    with p b js_blank_drop_step [of i s] show "?c i \<le> length s \<and> js_blank (drop (?c i) s) = js_blank (drop 0 s)"
      by auto
  qed simp
  have stop: "\<not> ?b j" using while_option_stop [OF w] .
  show ?thesis
  proof (cases "j = length s")
    case True
    with inv show ?thesis by (simp add: js_blank.simps)
  next
    case False
    with inv stop have "drop j s \<noteq> []" "ws_len (drop j s) = 0" by auto
    then have "\<not> js_blank (drop j s)" by (simp add: js_blank.simps)
    with inv False show ?thesis by simp
  qed
qed

lemma chat_submit_unchanged_iff: "chat_step s Submit = s \<longleftrightarrow> js_blank (question s)"
proof
  assume u: "chat_step s Submit = s"
  show "js_blank (question s)"
  proof (rule ccontr)
    assume "\<not> js_blank (question s)"
    then have "length (conversation (chat_step s Submit)) = Suc (length (conversation s))" by simp
    with u show False by simp
  qed
qed simp

lemmas chat_eval_simps = chat_init_def js_blank.simps ws_len_def js_ws_seqs_def

section \<open>Properties of the chat page\<close>

text \<open>C4: in every reachable state of the tutor page, the user messages
  outnumber the answers by exactly the number of requests still in flight, and the
  typing indicator is only shown while some request is in flight.\<close>

theorem chat_invariant:
  "chat_reachable s \<Longrightarrow>
     count_role UserMsg (conversation s) = count_role AiMsg (conversation s) + length (pending s) \<and>
     (isTyping s \<longrightarrow> pending s \<noteq> [])"
  using chat_reachable_inv by (simp add: chat_inv_def)

theorem chat_invariant_witness:
  "let s = chat_run chat_init [TypeText ''2+2?'', Submit]
   in count_role UserMsg (conversation s) = count_role AiMsg (conversation s) + length (pending s) \<and>
      (isTyping s \<longrightarrow> pending s \<noteq> []) \<and> isTyping s"
proof -
  have r: "chat_reachable (chat_run chat_init [TypeText ''2+2?'', Submit])"
    by (rule chat_run_reachable [OF chat_reachable.init])
  have t: "isTyping (chat_run chat_init [TypeText ''2+2?'', Submit])"
    by (simp add: chat_eval_simps)
  from chat_invariant [OF r] t show ?thesis by (simp add: Let_def)
qed

text \<open>C22: no sequence of typing, sending and answers ever changes or
  removes an earlier message: the conversation only grows at its end.\<close>

theorem chat_keeps_history: "\<exists>ms. conversation (chat_run s es) = conversation s @ ms"
  by (rule chat_run_extends)

text \<open>The white-space scan behind \<open>question.trim()\<close> stops on
  every question, within its length, and a submit leaves the page unchanged (no message, no
  request) exactly when the scan reaches the end of the question.\<close>

theorem chat_trim_terminates:
  "\<exists>i. trim_scan (question s) = Some i \<and> i \<le> length (question s) \<and>
       (chat_step s Submit = s \<longleftrightarrow> i = length (question s))"
proof -
  obtain i where r: "trim_scan (question s) = Some i" using trim_scan_Some by blast
  from trim_scan_result [OF r]
  have "i \<le> length (question s)" and "js_blank (question s) \<longleftrightarrow> i = length (question s)" by auto
  with r chat_submit_unchanged_iff [of s] show ?thesis by blast
qed

theorem chat_trim_terminates_witness:
  "trim_scan [CHR 0x20, CHR 0x09, CHR 0xC2, CHR 0xA0] = Some 4 \<and>
   chat_step (chat_init\<lparr>question := [CHR 0x20, CHR 0x09, CHR 0xC2, CHR 0xA0]\<rparr>) Submit =
     chat_init\<lparr>question := [CHR 0x20, CHR 0x09, CHR 0xC2, CHR 0xA0]\<rparr>"
proof -
  have t: "trim_scan [CHR 0x20, CHR 0x09, CHR 0xC2, CHR 0xA0] = Some 4"
    by code_simp
  show ?thesis
    using chat_trim_terminates [of "chat_init\<lparr>question := [CHR 0x20, CHR 0x09, CHR 0xC2, CHR 0xA0]\<rparr>"] t
    by auto
qed

lemma chat_run_completions:
  "distinct (map fst cs) \<Longrightarrow> fst ` set cs \<subseteq> fst ` set (pending s) \<Longrightarrow>
     conversation (chat_run s (map (\<lambda>(i, r). Complete i r) cs)) =
       conversation s @ map (\<lambda>(i, r). \<lparr>role = AiMsg, content = answer_content r\<rparr>) cs \<and>
     pending (chat_run s (map (\<lambda>(i, r). Complete i r) cs)) = filter (\<lambda>p. fst p \<notin> fst ` set cs) (pending s) \<and>
     (cs \<noteq> [] \<longrightarrow> \<not> isTyping (chat_run s (map (\<lambda>(i, r). Complete i r) cs)))"
proof (induction cs arbitrary: s)
  case Nil
  then show ?case by simp
next
  case (Cons c cs)
  obtain i r where c: "c = (i, r)" by fastforce
  let ?s = "chat_step s (Complete i r)"
  from Cons.prems c have "i \<in> fst ` set (pending s)" by simp
  then have st: "conversation ?s = conversation s @ [\<lparr>role = AiMsg, content = answer_content r\<rparr>]"
      "pending ?s = filter (\<lambda>p. fst p \<noteq> i) (pending s)" "\<not> isTyping ?s" by simp_all
  from Cons.prems c have d: "distinct (map fst cs)" and ni: "i \<notin> fst ` set cs" by auto
  have sub: "fst ` set cs \<subseteq> fst ` set (pending ?s)"
  proof
    fix j assume j: "j \<in> fst ` set cs"
    with Cons.prems c have "j \<in> fst ` set (pending s)" by auto
    moreover from j ni have "j \<noteq> i" by auto
    ultimately show "j \<in> fst ` set (pending ?s)" using st(2) by force
  qed
  from Cons.IH [OF d sub] st c show ?case
    by (cases cs) (auto simp: filter_filter conj_commute)
qed

section \<open>Interleaving of answers\<close>

text \<open>C23: whenever two or more questions are in flight, the
  answer to any one of them hides the typing indicator although another request is still
  pending.\<close>

theorem chat_typing_cleared_early:
  "chat_reachable s \<Longrightarrow> i \<in> fst ` set (pending s) \<Longrightarrow> 2 \<le> length (pending s) \<Longrightarrow>
     \<not> isTyping (chat_step s (Complete i r)) \<and> pending (chat_step s (Complete i r)) \<noteq> []"
proof -
  assume r: "chat_reachable s" and i: "i \<in> fst ` set (pending s)" and two: "2 \<le> length (pending s)"
  from r have "distinct (map fst (pending s))" using chat_reachable_inv by (simp add: chat_inv_def)
  from length_filter_remove_one [OF this i] two have "filter (\<lambda>p. fst p \<noteq> i) (pending s) \<noteq> []" by auto
  with i show ?thesis by simp
qed

theorem chat_typing_cleared_early_witness:
  "let s = chat_run chat_init [TypeText ''a'', Submit, TypeText ''b'', Submit]
   in isTyping s \<and> \<not> isTyping (chat_step s (Complete 0 FetchRejected)) \<and>
      pending (chat_step s (Complete 0 FetchRejected)) \<noteq> []"
proof -
  define s where "s = chat_run chat_init [TypeText ''a'', Submit, TypeText ''b'', Submit]"
  have r: "chat_reachable s" unfolding s_def by (rule chat_run_reachable [OF chat_reachable.init])
  have p: "pending s = [(0, ''a''), (1, ''b'')]" and t: "isTyping s" by (simp_all add: s_def chat_eval_simps)
  from p have i: "0 \<in> fst ` set (pending s)" and two: "2 \<le> length (pending s)" by simp_all
  from chat_typing_cleared_early [OF r i two, of FetchRejected] t show ?thesis
    unfolding Let_def s_def [symmetric] by simp
qed

text \<open>C24: answers are appended in the order the requests complete,
  not in the order the questions were sent: completing requests in flight, in any order and
  each with its own outcome, appends exactly their answers in that order, and an answer
  carries nothing that names its question.\<close>

theorem chat_answers_reordered:
  "distinct (map fst cs) \<Longrightarrow> fst ` set cs \<subseteq> fst ` set (pending s) \<Longrightarrow>
     conversation (chat_run s (map (\<lambda>(i, r). Complete i r) cs)) =
       conversation s @ map (\<lambda>(i, r). \<lparr>role = AiMsg, content = answer_content r\<rparr>) cs"
  using chat_run_completions by blast

theorem chat_answers_reordered_witness:
  "conversation (chat_run (chat_run chat_init [TypeText ''a'', Submit, TypeText ''b'', Submit])
      [Complete 1 (Reply (json_response 200 (JObj [(''response'', JStr ''B'')]))), Complete 0 FetchRejected]) =
   [\<lparr>role = UserMsg, content = JStr ''a''\<rparr>, \<lparr>role = UserMsg, content = JStr ''b''\<rparr>,
    \<lparr>role = AiMsg, content = JStr ''B''\<rparr>, \<lparr>role = AiMsg, content = JStr sorry_text\<rparr>]"
proof -
  define s where "s = chat_run chat_init [TypeText ''a'', Submit, TypeText ''b'', Submit]"
  have p: "pending s = [(0, ''a''), (1, ''b'')]"
    and c: "conversation s = [\<lparr>role = UserMsg, content = JStr ''a''\<rparr>, \<lparr>role = UserMsg, content = JStr ''b''\<rparr>]"
    by (simp_all add: s_def chat_eval_simps)
  have "conversation (chat_run s (map (\<lambda>(i, r). Complete i r)
          [(1, Reply (json_response 200 (JObj [(''response'', JStr ''B'')]))), (0, FetchRejected)])) =
        conversation s @ map (\<lambda>(i, r). \<lparr>role = AiMsg, content = answer_content r\<rparr>)
          [(1, Reply (json_response 200 (JObj [(''response'', JStr ''B'')]))), (0, FetchRejected)]"
    using chat_answers_reordered [of "[(1, Reply (json_response 200 (JObj [(''response'', JStr ''B'')]))), (0, FetchRejected)]" s]
    by (simp add: p)
  moreover have "map (\<lambda>(i, r). Complete i r)
      [(1, Reply (json_response 200 (JObj [(''response'', JStr ''B'')]))), (0, FetchRejected)] =
    [Complete 1 (Reply (json_response 200 (JObj [(''response'', JStr ''B'')]))), Complete 0 FetchRejected]"
    by simp
  ultimately show ?thesis using c unfolding s_def [symmetric]
    by (simp add: answer_content_def json_response_def del: chat_run.simps)
qed

text \<open>C28: once every request in flight has been answered, in any order
  and each with its own outcome, no request is pending, every question has exactly one
  answer and the typing indicator is off.\<close>

theorem chat_all_answered:
  "chat_reachable s \<Longrightarrow> distinct (map fst cs) \<Longrightarrow> fst ` set cs = fst ` set (pending s) \<Longrightarrow>
     pending (chat_run s (map (\<lambda>(i, r). Complete i r) cs)) = [] \<and>
     count_role UserMsg (conversation (chat_run s (map (\<lambda>(i, r). Complete i r) cs))) =
       count_role AiMsg (conversation (chat_run s (map (\<lambda>(i, r). Complete i r) cs))) \<and>
     \<not> isTyping (chat_run s (map (\<lambda>(i, r). Complete i r) cs))"
proof -
  assume r: "chat_reachable s" and d: "distinct (map fst cs)" and eq: "fst ` set cs = fst ` set (pending s)"
  let ?t = "chat_run s (map (\<lambda>(i, r). Complete i r) cs)"
  from chat_run_completions [OF d] eq
  have pt: "pending ?t = filter (\<lambda>p. fst p \<notin> fst ` set cs) (pending s)"
    and ty: "cs \<noteq> [] \<longrightarrow> \<not> isTyping ?t" by auto
  have none: "pending ?t = []"
    unfolding pt eq by (auto simp: filter_empty_conv)
  have inv: "chat_inv ?t" by (rule chat_reachable_inv [OF chat_run_reachable [OF r]])
  have "\<not> isTyping ?t"
  proof (cases "cs = []")
    case True
    with ty inv none show ?thesis by (simp add: chat_inv_def)
  next
    case False
    with ty show ?thesis by simp
  qed
  with none inv show ?thesis by (simp add: chat_inv_def)
qed

theorem chat_all_answered_witness:
  "let s = chat_run chat_init [TypeText ''a'', Submit, TypeText ''b'', Submit];
       s' = chat_run s [Complete 1 FetchRejected, Complete 0 (Reply (json_response 500 tutor_error_body))]
   in pending s \<noteq> [] \<and> pending s' = [] \<and>
      count_role UserMsg (conversation s') = count_role AiMsg (conversation s') \<and> \<not> isTyping s'"
proof -
  define s where "s = chat_run chat_init [TypeText ''a'', Submit, TypeText ''b'', Submit]"
  have r: "chat_reachable s" unfolding s_def by (rule chat_run_reachable [OF chat_reachable.init])
  have p: "pending s = [(0, ''a''), (1, ''b'')]" by (simp add: s_def chat_eval_simps)
  have "pending (chat_run s (map (\<lambda>(i, r). Complete i r) [(1, FetchRejected), (0, Reply (json_response 500 tutor_error_body))])) = [] \<and>
     count_role UserMsg (conversation (chat_run s (map (\<lambda>(i, r). Complete i r) [(1, FetchRejected), (0, Reply (json_response 500 tutor_error_body))]))) =
       count_role AiMsg (conversation (chat_run s (map (\<lambda>(i, r). Complete i r) [(1, FetchRejected), (0, Reply (json_response 500 tutor_error_body))]))) \<and>
     \<not> isTyping (chat_run s (map (\<lambda>(i, r). Complete i r) [(1, FetchRejected), (0, Reply (json_response 500 tutor_error_body))]))"
    by (rule chat_all_answered [OF r]) (simp_all add: p insert_commute)
  with p show ?thesis unfolding Let_def s_def [symmetric] by simp
qed

section \<open>Liveness and message shape\<close>

text \<open>C30: every user message in the conversation is a string that
  is not blank: the page never records \<open>undefined\<close>, a number or white space as a question.\<close>

theorem chat_user_messages_text:
  "chat_reachable s \<Longrightarrow>
     \<forall>m \<in> set (conversation s). message.role m = UserMsg \<longrightarrow> (\<exists>q. content m = JStr q \<and> \<not> js_blank q)"
proof (induction rule: chat_reachable.induct)
  case init
  then show ?case by (simp add: chat_init_def)
next
  case (step s e)
  then show ?case by (cases e) auto
qed

theorem chat_user_messages_text_witness:
  "let s = chat_run chat_init [TypeText ''a'', Submit]
   in conversation s = [\<lparr>role = UserMsg, content = JStr ''a''\<rparr>] \<and>
      (\<forall>m \<in> set (conversation s). message.role m = UserMsg \<longrightarrow> (\<exists>q. content m = JStr q \<and> \<not> js_blank q))"
proof -
  define s where "s = chat_run chat_init [TypeText ''a'', Submit]"
  have r: "chat_reachable s" unfolding s_def by (rule chat_run_reachable [OF chat_reachable.init])
  have c: "conversation s = [\<lparr>role = UserMsg, content = JStr ''a''\<rparr>]" by (simp add: s_def chat_eval_simps)
  from chat_user_messages_text [OF r] c show ?thesis unfolding Let_def s_def [symmetric] by simp
qed

end
