(* ===== verification/Dashboards.thy ===== *)
theory Dashboards
  imports Chat
begin

text \<open>
  The three client dashboards that poll the data routes: the network performance page
  (\<open>src/app/network/page.js\<close>), the school dashboard (\<open>src/app/layout/page.jsx\<close>) and the
  two charts of the home dashboard (\<open>src/app/components/NetworkStatusChart.jsx\<close>,
  \<open>LearningProgressChart.jsx\<close>). Each page is a record of its React state and a step
  function over the events that change it: mounting (the effects), the completion of a
  request with a \<open>fetch_outcome\<close>, and the user's inputs.
\<close>

section \<open>The network performance page\<close>

text \<open>JavaScript indexing \<open>v[i]\<close>: it throws on \<open>undefined\<close> and \<open>null\<close> and reads
  \<open>undefined\<close> out of range.\<close>

fun js_elem :: "jsval \<Rightarrow> nat \<Rightarrow> js_error + jsval" where
  "js_elem JUndef i = Inl (TypeError (''Cannot read properties of undefined (reading '' @ string_of_nat i @ '')''))"
| "js_elem JNull i = Inl (TypeError (''Cannot read properties of null (reading '' @ string_of_nat i @ '')''))"
| "js_elem (JArr xs) i = Inr (if i < length xs then xs ! i else JUndef)"
| "js_elem (JStr s) i = Inr (if i < length s then JStr [s ! i] else JUndef)"
| "js_elem (JObj kvs) i = Inr (obj_get (JObj kvs) (string_of_nat i))"
| "js_elem (JBool b) i = Inr JUndef"
| "js_elem (JNum x) i = Inr JUndef"

definition http_ok :: "nat \<Rightarrow> bool" where
  "http_ok st \<longleftrightarrow> 200 \<le> st \<and> st \<le> 299"

text \<open>The \<open>interval\<close> state. The effect calls \<open>setInterval(fetchNetworkData, interval)\<close>,
  but \<open>setInterval\<close> is the page's own state setter (line 72), which shadows
  \<open>window.setInterval\<close>: React treats the function as an updater, runs
  \<open>fetchNetworkData\<close> once more and stores the promise it returns as the new
  \<open>interval\<close>. No timer is registered.\<close>

datatype interval_value = IntervalMs nat | IntervalPromise

record net_dashboard =
  labels :: "string list"
  bandwidth :: "jsval list"
  latency :: "jsval list"
  packetLoss :: "jsval list"
  analysis :: jsval
  interval :: interval_value
  loading :: bool
  timers :: nat        \<comment> \<open>timers registered with \<open>window.setInterval\<close>\<close>
  in_flight :: nat     \<comment> \<open>requests to \<open>/api/network-performance\<close> not yet settled\<close>
  crashed :: bool      \<comment> \<open>an updater threw during rendering; the page is gone\<close>

definition net_init :: net_dashboard where
  "net_init = \<lparr>labels = [], bandwidth = [], latency = [], packetLoss = [], analysis = JStr [],
               interval = IntervalMs 5000, loading = True, timers = 0, in_flight = 0,
               crashed = False\<rparr>"

definition fetch_start :: "net_dashboard \<Rightarrow> net_dashboard" where
  \<comment> \<open>\<open>fetchNetworkData\<close> up to \<open>await fetch\<close>: \<open>setLoading(true)\<close>\<close>
  "fetch_start s = s\<lparr>loading := True, in_flight := Suc (in_flight s)\<rparr>"

definition net_mount :: "net_dashboard \<Rightarrow> net_dashboard" where
  \<comment> \<open>the mount effect: \<open>fetchNetworkData()\<close>, then the state setter runs it as an updater\<close>
  "net_mount s = (fetch_start (fetch_start s))\<lparr>interval := IntervalPromise\<rparr>"

definition perf_append :: "string \<Rightarrow> jsval \<Rightarrow> net_dashboard \<Rightarrow> net_dashboard option" where
  \<comment> \<open>the updater passed to \<open>setNetworkData\<close>; \<open>None\<close> when it throws\<close>
  "perf_append time data s =
     (case get_prop data ''performanceData'' of
        Inl e \<Rightarrow> None
      | Inr pd \<Rightarrow>
          (case (js_elem pd 0, js_elem pd 1, js_elem pd 2) of
             (Inr b, Inr l, Inr p) \<Rightarrow>
               Some (s\<lparr>labels := labels s @ [time], bandwidth := bandwidth s @ [b],
                       latency := latency s @ [l], packetLoss := packetLoss s @ [p]\<rparr>)
           | _ \<Rightarrow> None))"

definition net_complete :: "string \<Rightarrow> fetch_outcome \<Rightarrow> net_dashboard \<Rightarrow> net_dashboard" where
  \<comment> \<open>the rest of \<open>fetchNetworkData\<close>; \<open>time\<close> is \<open>new Date().toLocaleTimeString()\<close>\<close>
  "net_complete time r s =
     (let s' = s\<lparr>loading := False, in_flight := in_flight s - 1\<rparr>
      in case r of
           Reply (Response st hs b) \<Rightarrow>
             (if http_ok st then
                (let data = json_clean b
                 in case perf_append time data s' of
                      None \<Rightarrow> s'\<lparr>crashed := True\<rparr>
                    | Some s'' \<Rightarrow> s''\<lparr>analysis := obj_get data ''analysis''\<rparr>)
              else s')
         | _ \<Rightarrow> s')"

datatype net_event =
    NetMount                          \<comment> \<open>the effect with \<open>[]\<close> dependencies\<close>
  | NetComplete string fetch_outcome  \<comment> \<open>a started request settles\<close>
  | SelectInterval nat                \<comment> \<open>\<open>onChange={(e) => setInterval(Number(e.target.value))}\<close>\<close>

fun net_step :: "net_dashboard \<Rightarrow> net_event \<Rightarrow> net_dashboard" where
  "net_step s e =
     (if crashed s then s
      else case e of
             NetMount \<Rightarrow> net_mount s
           | NetComplete time r \<Rightarrow> (if in_flight s = 0 then s else net_complete time r s)
           | SelectInterval n \<Rightarrow> s\<lparr>interval := IntervalMs n\<rparr>)"

declare net_step.simps [simp del]

fun net_run :: "net_dashboard \<Rightarrow> net_event list \<Rightarrow> net_dashboard" where
  "net_run s [] = s"
| "net_run s (e # es) = net_run (net_step s e) es"

inductive net_reachable :: "net_dashboard \<Rightarrow> bool" where
  init: "net_reachable net_init"
| step: "net_reachable s \<Longrightarrow> net_reachable (net_step s e)"

subsection \<open>What the page renders\<close>

definition latest :: "jsval list \<Rightarrow> jsval" where
  \<comment> \<open>\<open>xs[xs.length - 1] || 0\<close>; \<open>xs[-1]\<close> is \<open>undefined\<close>\<close>
  "latest xs = js_or (if xs = [] then JUndef else last xs) (JNum 0)"

definition latest_metrics :: "net_dashboard \<Rightarrow> jsval \<times> jsval \<times> jsval" where
  "latest_metrics s = (latest (bandwidth s), latest (latency s), latest (packetLoss s))"

definition metric_tile :: "jsval \<Rightarrow> string option" where
  \<comment> \<open>\<open>{bandwidth.toFixed(2)}\<close>: only a number has \<open>toFixed\<close>; otherwise rendering throws\<close>
  "metric_tile v = (case v of JNum x \<Rightarrow> Some (to_fixed2 x) | _ \<Rightarrow> None)"

definition slice_last :: "nat \<Rightarrow> 'a list \<Rightarrow> 'a list" where
  \<comment> \<open>\<open>xs.slice(-n)\<close>\<close>
  "slice_last n xs = drop (length xs - n) xs"

definition packet_loss_bars :: "net_dashboard \<Rightarrow> string list \<times> jsval list" where
  "packet_loss_bars s = (slice_last 10 (labels s), slice_last 10 (packetLoss s))"

type_synonym chart_config = "string list \<times> (string \<times> jsval list) list"
  \<comment> \<open>Chart.js \<open>{labels, datasets: [{label, data}, ...]}\<close>; colours are not modelled\<close>

definition bandwidth_chart :: "net_dashboard \<Rightarrow> chart_config" where
  "bandwidth_chart s = (labels s, [(''Bandwidth (Mbps)'', bandwidth s)])"

definition latency_chart :: "net_dashboard \<Rightarrow> chart_config" where
  "latency_chart s = (labels s, [(''Latency (ms)'', latency s)])"

definition packet_loss_chart :: "net_dashboard \<Rightarrow> chart_config" where
  "packet_loss_chart s = (labels s, [(''Packet Loss (%)'', packetLoss s)])"

definition pie_chart :: "net_dashboard \<Rightarrow> chart_config" where
  \<comment> \<open>the dataset has no \<open>label\<close>; its data are the three latest metrics\<close>
  "pie_chart s =
     (let (b, l, p) = latest_metrics s in ([''Bandwidth'', ''Latency'', ''Packet Loss''], [([], [b, l, p])]))"

definition bar_chart :: "net_dashboard \<Rightarrow> chart_config" where
  "bar_chart s =
     (labels s, [(''Bandwidth (Mbps)'', bandwidth s), (''Latency (ms)'', latency s),
                 (''Packet Loss (%)'', packetLoss s)])"

subsection \<open>The page as a log of samples\<close>

text \<open>What the page promises: its four series are one log of samples (time, bandwidth,
  latency, packet loss) in arrival order, and each settled request adds the sample its reply
  carries, if any.\<close>

type_synonym sample = "string \<times> jsval \<times> jsval \<times> jsval"

definition net_samples :: "net_dashboard \<Rightarrow> sample list" where
  "net_samples s = zip (labels s) (zip (bandwidth s) (zip (latency s) (packetLoss s)))"

definition data_sample :: "string \<Rightarrow> jsval \<Rightarrow> sample list" where
  "data_sample t d =
     (case get_prop d ''performanceData'' of
        Inr pd \<Rightarrow> (case (js_elem pd 0, js_elem pd 1, js_elem pd 2) of
                    (Inr b, Inr l, Inr p) \<Rightarrow> [(t, b, l, p)]
                  | _ \<Rightarrow> [])
      | Inl e \<Rightarrow> [])"

definition reply_sample :: "string \<Rightarrow> fetch_outcome \<Rightarrow> sample list" where
  "reply_sample t r =
     (case r of
        Reply (Response st hs b) \<Rightarrow> (if http_ok st then data_sample t (json_clean b) else [])
      | _ \<Rightarrow> [])"

section \<open>The school dashboard\<close>

text \<open>\<open>src/app/layout/page.jsx\<close>. Requests go through axios, which throws on a status
  outside 200--299 and otherwise hands back the parsed JSON body as \<open>response.data\<close>.\<close>

definition axios_data :: "fetch_outcome \<Rightarrow> js_error + jsval" where
  "axios_data r =
     (case r of
        Reply (Response st hs b) \<Rightarrow>
          (if http_ok st then Inr (json_clean b)
           else Inl (HttpError (''Request failed with status code '' @ string_of_nat st)))
      | Reply (Uncaught e) \<Rightarrow> Inl (HttpError ''Request failed with status code 500'')
      | FetchRejected \<Rightarrow> Inl (ProviderError ''Network Error''))"

definition opt_get :: "jsval \<Rightarrow> string \<Rightarrow> jsval" where
  \<comment> \<open>optional chaining \<open>v?.k\<close>\<close>
  "opt_get v k = (case get_prop v k of Inr x \<Rightarrow> x | Inl e \<Rightarrow> JUndef)"

text \<open>\<open>ToNumber\<close>, as used by \<open>>\<close>; \<open>None\<close> is \<open>NaN\<close>. Strings are read as numbers when they
  are empty or consist of decimal digits only; the model reads every other string (with a
  sign, a point, an exponent or surrounding white space) as \<open>NaN\<close>.\<close>

definition str_to_number :: "string \<Rightarrow> real option" where
  "str_to_number s =
     (if list_all (\<lambda>c. c \<in> set ''0123456789'') s then Some (of_nat (nat_of_string s)) else None)"

fun js_to_number :: "jsval \<Rightarrow> real option" where
  "js_to_number JUndef = None"
| "js_to_number JNull = Some 0"
| "js_to_number (JBool b) = Some (if b then 1 else 0)"
| "js_to_number (JNum x) = Some x"
| "js_to_number (JStr s) = str_to_number s"
| "js_to_number (JArr xs) = str_to_number (js_to_string (JArr xs))"
| "js_to_number (JObj kvs) = None"

definition js_gt :: "jsval \<Rightarrow> real \<Rightarrow> bool" where
  "js_gt v y = (case js_to_number v of Some x \<Rightarrow> y < x | None \<Rightarrow> False)"

record school_state =
  networkData :: jsval
  insights :: jsval
  alerts :: "string list"
  isDarkMode :: bool
  saved_theme :: "string option"        \<comment> \<open>\<open>localStorage.getItem('theme')\<close>\<close>
  data_pending :: nat                   \<comment> \<open>requests to \<open>/api/network-data\<close> in flight\<close>
  insight_requests :: "jsval list"      \<comment> \<open>bodies posted to \<open>/api/insights\<close>, in order\<close>
  insights_pending :: nat

definition school_init :: "string option \<Rightarrow> school_state" where
  "school_init saved =
     \<lparr>networkData = JNull, insights = JStr [], alerts = [], isDarkMode = False,
      saved_theme = saved, data_pending = 0, insight_requests = [], insights_pending = 0\<rparr>"

definition insights_request :: "jsval \<Rightarrow> jsval" where
  \<comment> \<open>the body axios serialises; \<open>undefined\<close> fields are left out\<close>
  "insights_request nd =
     json_clean (JObj [(''bandwidth'', opt_get nd ''bandwidth''), (''latency'', opt_get nd ''latency''),
                       (''downtime'', opt_get nd ''downtime'')])"

definition alert_text :: "jsval \<Rightarrow> string" where
  "alert_text d = ''High downtime detected: '' @ js_to_string d @ ''%''"

definition network_data_effects :: "school_state \<Rightarrow> school_state" where
  \<comment> \<open>the two effects on \<open>[networkData]\<close>, in the order they are declared\<close>
  "network_data_effects s =
     (let s1 = (if truthy (networkData s)
                then s\<lparr>insight_requests := insight_requests s @ [insights_request (networkData s)],
                       insights_pending := Suc (insights_pending s)\<rparr>
                else s)
      in if js_gt (opt_get (networkData s) ''downtime'') 5
         then s1\<lparr>alerts := [alert_text (opt_get (networkData s) ''downtime'')]\<rparr>
         else s1)"

definition school_mount :: "school_state \<Rightarrow> school_state" where
  \<comment> \<open>the effects with \<open>[]\<close> dependencies run with those on \<open>[networkData]\<close>, in order\<close>
  "school_mount s =
     (let s1 = network_data_effects (s\<lparr>data_pending := Suc (data_pending s)\<rparr>)
      in if saved_theme s1 = Some ''dark'' then s1\<lparr>isDarkMode := True\<rparr> else s1)"

definition data_reply :: "fetch_outcome \<Rightarrow> school_state \<Rightarrow> school_state" where
  \<comment> \<open>\<open>setNetworkData(response.data)\<close>; React skips the effects when the value is the same
     primitive (\<open>Object.is\<close>); a parsed object or array is always new\<close>
  "data_reply r s =
     (let s' = s\<lparr>data_pending := data_pending s - 1\<rparr>
      in case axios_data r of
           Inl e \<Rightarrow> s'
         | Inr d \<Rightarrow>
             (if (case d of JObj kvs \<Rightarrow> False | JArr xs \<Rightarrow> False | _ \<Rightarrow> d = networkData s) then s'
              else network_data_effects (s'\<lparr>networkData := d\<rparr>)))"

definition insights_failed :: string where
  "insights_failed = ''Failed to load insights.''"

definition insights_reply :: "fetch_outcome \<Rightarrow> school_state \<Rightarrow> school_state" where
  "insights_reply r s =
     s\<lparr>insights_pending := insights_pending s - 1,
       insights := (case axios_data r of
                      Inr d \<Rightarrow> (case get_prop d ''insights'' of Inr v \<Rightarrow> v | Inl e \<Rightarrow> JStr insights_failed)
                    | Inl e \<Rightarrow> JStr insights_failed)\<rparr>"

definition toggle_theme :: "school_state \<Rightarrow> school_state" where
  "toggle_theme s =
     s\<lparr>isDarkMode := \<not> isDarkMode s,
       saved_theme := Some (if isDarkMode s then ''light'' else ''dark'')\<rparr>"

datatype school_event = SchoolMount | DataReply fetch_outcome | InsightsReply fetch_outcome | ToggleTheme

fun school_step :: "school_state \<Rightarrow> school_event \<Rightarrow> school_state" where
  "school_step s SchoolMount = school_mount s"
| "school_step s (DataReply r) = (if data_pending s = 0 then s else data_reply r s)"
| "school_step s (InsightsReply r) = (if insights_pending s = 0 then s else insights_reply r s)"
| "school_step s ToggleTheme = toggle_theme s"

inductive school_reachable :: "school_state \<Rightarrow> bool" where
  mount: "school_reachable (school_mount (school_init saved))"
| step: "school_reachable s \<Longrightarrow> school_reachable (school_step s e)"

definition insights_shown :: "school_state \<Rightarrow> string option" where
  \<comment> \<open>\<open>{insights || 'Loading insights...'}\<close> as a React child; \<open>None\<close>: an object, rendering throws\<close>
  "insights_shown s = react_text (js_or (insights s) (JStr ''Loading insights...''))"

definition week_days :: "string list" where
  "week_days = [''Mon'', ''Tue'', ''Wed'', ''Thu'', ''Fri'', ''Sat'', ''Sun'']"

definition school_chart :: "school_state \<Rightarrow> chart_config" where
  \<comment> \<open>\<open>Array(7).fill(networkData?.bandwidth || 0)\<close> and the same for latency and downtime\<close>
  "school_chart s =
     (week_days,
      [(''Bandwidth Usage (%)'', replicate 7 (js_or (opt_get (networkData s) ''bandwidth'') (JNum 0))),
       (''Latency (ms)'', replicate 7 (js_or (opt_get (networkData s) ''latency'') (JNum 0))),
       (''Downtime (%)'', replicate 7 (js_or (opt_get (networkData s) ''downtime'') (JNum 0)))])"

section \<open>The charts of the home dashboard\<close>

text \<open>\<open>NetworkStatusChart\<close> and \<open>LearningProgressChart\<close> fetch \<open>/api/dashboard-data\<close> once
  on mount and map the rows of one field to labels and values. \<open>fetch\<close> does not check
  the status; any exception (no array, a \<open>null\<close> row, a body that is not JSON) is caught
  and the chart keeps its empty initial data.\<close>

type_synonym chart = "jsval list \<times> jsval list"

fun map_prop :: "string \<Rightarrow> jsval list \<Rightarrow> js_error + jsval list" where
  "map_prop k [] = Inr []"
| "map_prop k (v # vs) =
     (case get_prop v k of
        Inl e \<Rightarrow> Inl e
      | Inr x \<Rightarrow> (case map_prop k vs of Inl e \<Rightarrow> Inl e | Inr xs \<Rightarrow> Inr (x # xs)))"

definition chart_load :: "string \<Rightarrow> string \<Rightarrow> string \<Rightarrow> fetch_outcome \<Rightarrow> chart \<Rightarrow> chart" where
  "chart_load field lab val r c =
     (case read_field field r of
        Inr (JArr items) \<Rightarrow>
          (case map_prop lab items of
             Inr ls \<Rightarrow> (case map_prop val items of Inr ds \<Rightarrow> (ls, ds) | Inl e \<Rightarrow> c)
           | Inl e \<Rightarrow> c)
      | _ \<Rightarrow> c)"

definition network_status_chart :: "fetch_outcome \<Rightarrow> chart" where
  "network_status_chart r = chart_load ''networkStatus'' ''school'' ''uptime'' r ([], [])"

definition learning_progress_chart :: "fetch_outcome \<Rightarrow> chart" where
  "learning_progress_chart r = chart_load ''learningProgress'' ''week'' ''progress'' r ([], [])"

section \<open>Invariants and lemmas\<close>

definition series_aligned :: "net_dashboard \<Rightarrow> bool" where
  "series_aligned s \<longleftrightarrow>
     length (bandwidth s) = length (labels s) \<and> length (latency s) = length (labels s) \<and>
     length (packetLoss s) = length (labels s)"

lemma perf_append_Some:
  assumes "perf_append t d s = Some s'"
  shows "series_aligned s \<Longrightarrow> series_aligned s'"
    and "timers s' = timers s" and "crashed s' = crashed s"
    and "in_flight s' = in_flight s" and "loading s' = loading s"
  using assms by (auto simp: perf_append_def series_aligned_def split: sum.splits)

lemma perf_append_sample:
  "series_aligned s \<Longrightarrow> perf_append t d s = Some s' \<Longrightarrow> net_samples s' = net_samples s @ data_sample t d"
  by (auto simp: perf_append_def series_aligned_def net_samples_def data_sample_def split: sum.splits)

lemma net_samples_analysis [simp]: "net_samples (s\<lparr>analysis := a\<rparr>) = net_samples s"
  by (simp add: net_samples_def)

lemma net_complete_progress:
  "in_flight (net_complete t r s) = in_flight s - 1 \<and> \<not> loading (net_complete t r s)"
  by (auto simp: net_complete_def Let_def split: fetch_outcome.splits http_reply.splits option.splits
           dest: perf_append_Some(4) perf_append_Some(5))

lemma net_run_crashed: "crashed s \<Longrightarrow> net_run s es = s"
  by (induction es) (simp_all add: net_step.simps)

lemma net_complete_aligned: "series_aligned s \<Longrightarrow> series_aligned (net_complete t r s)"
  by (auto simp: net_complete_def Let_def series_aligned_def
           split: fetch_outcome.splits http_reply.splits option.splits dest!: perf_append_Some(1))

lemma net_complete_timers: "timers (net_complete t r s) = timers s"
  by (auto simp: net_complete_def Let_def split: fetch_outcome.splits http_reply.splits option.splits
           dest!: perf_append_Some(2))

lemma series_aligned_mount: "series_aligned s \<Longrightarrow> series_aligned (net_mount s)"
  by (simp add: net_mount_def fetch_start_def series_aligned_def)

lemma series_aligned_interval [simp]: "series_aligned (s\<lparr>interval := v\<rparr>) = series_aligned s"
  by (simp add: series_aligned_def)

lemma net_step_aligned: "series_aligned s \<Longrightarrow> series_aligned (net_step s e)"
  by (cases e) (simp_all add: net_step.simps net_complete_aligned series_aligned_mount)

lemma net_step_timers: "timers (net_step s e) = timers s"
  by (cases e) (simp_all add: net_step.simps net_complete_timers net_mount_def fetch_start_def)

lemma net_reachable_aligned: "net_reachable s \<Longrightarrow> series_aligned s"
  by (induction rule: net_reachable.induct)
     (simp add: series_aligned_def net_init_def, erule net_step_aligned)

lemma net_reachable_timers: "net_reachable s \<Longrightarrow> timers s = 0"
  by (induction rule: net_reachable.induct) (simp add: net_init_def, simp only: net_step_timers)

lemma net_run_reachable: "net_reachable s \<Longrightarrow> net_reachable (net_run s es)"
  by (induction es arbitrary: s) (auto intro: net_reachable.step)

lemma slice_last_suffix: "\<exists>pre. xs = pre @ slice_last n xs"
  by (metis append_take_drop_id slice_last_def)

lemma length_slice_last [simp]: "length (slice_last n xs) = min n (length xs)"
  by (simp add: slice_last_def)

definition theme_consistent :: "school_state \<Rightarrow> bool" where
  "theme_consistent s \<longleftrightarrow> (isDarkMode s \<longleftrightarrow> saved_theme s = Some ''dark'')"

lemma network_data_effects_theme [simp]:
  "isDarkMode (network_data_effects s) = isDarkMode s"
  "saved_theme (network_data_effects s) = saved_theme s"
  by (simp_all add: network_data_effects_def Let_def)

lemma school_mount_consistent:
  "\<not> isDarkMode s \<or> theme_consistent s \<Longrightarrow> theme_consistent (school_mount s)"
  by (auto simp: school_mount_def Let_def theme_consistent_def)

lemma school_step_consistent: "theme_consistent s \<Longrightarrow> theme_consistent (school_step s e)"
proof (cases e)
  case SchoolMount
  assume "theme_consistent s"
  with SchoolMount show ?thesis by (simp add: school_mount_consistent)
next
  case (DataReply r)
  assume "theme_consistent s"
  with DataReply show ?thesis
    by (simp add: data_reply_def Let_def theme_consistent_def split: sum.splits)
next
  case (InsightsReply r)
  assume "theme_consistent s"
  with InsightsReply show ?thesis by (simp add: insights_reply_def theme_consistent_def)
next
  case ToggleTheme
  assume "theme_consistent s"
  with ToggleTheme show ?thesis by (auto simp: toggle_theme_def theme_consistent_def)
qed

lemma school_reachable_consistent: "school_reachable s \<Longrightarrow> theme_consistent s"
  by (induction rule: school_reachable.induct)
     (simp_all add: school_step_consistent school_mount_consistent school_init_def)

lemmas net_eval_simps = net_step.simps net_init_def net_mount_def fetch_start_def net_complete_def
  perf_append_def http_ok_def

lemmas school_eval_simps = school_init_def school_mount_def network_data_effects_def toggle_theme_def
  data_reply_def axios_data_def http_ok_def

section \<open>Properties of the dashboards\<close>

text \<open>C7: on the network page the four series (time labels, bandwidth,
  latency, packet loss) always have the same length, whatever the order and outcome of
  the requests, so every chart pairs each value with its time.\<close>

theorem net_series_aligned:
  "net_reachable s \<Longrightarrow>
     length (net_dashboard.bandwidth s) = length (labels s) \<and> length (latency s) = length (labels s) \<and>
     length (packetLoss s) = length (labels s)"
  using net_reachable_aligned by (simp add: series_aligned_def)

theorem net_series_aligned_witness:
  "let s = net_run net_init [NetMount, NetComplete ''10:00''
             (Reply (Response 200 [] (JObj [(''performanceData'', JArr [JNum 1, JNum 2, JNum 3]),
                                           (''analysis'', JStr ''ok'')])))]
   in length (net_dashboard.bandwidth s) = length (labels s) \<and> length (latency s) = length (labels s) \<and>
      length (packetLoss s) = length (labels s) \<and> labels s = [''10:00'']"
proof -
  define s where "s = net_run net_init [NetMount, NetComplete ''10:00''
             (Reply (Response 200 [] (JObj [(''performanceData'', JArr [JNum 1, JNum 2, JNum 3]),
                                           (''analysis'', JStr ''ok'')])))]"
  have "net_reachable s" unfolding s_def by (rule net_run_reachable [OF net_reachable.init])
  moreover have "labels s = [''10:00'']" by (simp add: s_def net_eval_simps)
  ultimately show ?thesis unfolding Let_def s_def [symmetric] using net_series_aligned [of s] by simp
qed

text \<open>The page never registers a timer: the mount effect starts two
  requests (the second through the shadowing state setter) and stores a promise as the
  interval, and choosing an interval starts nothing. The page fetches once per mount
  instead of polling.\<close>

theorem net_never_polls:
  "net_reachable s \<Longrightarrow>
     timers s = 0 \<and>
     (\<not> crashed s \<longrightarrow>
        in_flight (net_step s NetMount) = in_flight s + 2 \<and> timers (net_step s NetMount) = 0 \<and>
        interval (net_step s NetMount) = IntervalPromise \<and>
        in_flight (net_step s (SelectInterval n)) = in_flight s)"
  using net_reachable_timers [of s] by (simp add: net_step.simps net_mount_def fetch_start_def)

theorem net_never_polls_witness:
  "timers net_init = 0 \<and> \<not> crashed net_init \<and> in_flight (net_step net_init NetMount) = 2 \<and>
   timers (net_step net_init NetMount) = 0 \<and> interval (net_step net_init NetMount) = IntervalPromise \<and>
   in_flight (net_step net_init (SelectInterval 1000)) = 0"
  using net_never_polls [OF net_reachable.init, of 1000] by (simp add: net_init_def)

text \<open>C25: the packet-loss bar chart shows the last (at most) ten points
  of the series, each with its own time label.\<close>

theorem packet_loss_window:
  "net_reachable s \<Longrightarrow>
     length (fst (packet_loss_bars s)) = length (snd (packet_loss_bars s)) \<and>
     length (snd (packet_loss_bars s)) = min 10 (length (packetLoss s)) \<and>
     (\<exists>pre. labels s = pre @ fst (packet_loss_bars s)) \<and>
     (\<exists>pre. packetLoss s = pre @ snd (packet_loss_bars s))"
  using net_reachable_aligned [of s]
  by (simp add: packet_loss_bars_def series_aligned_def slice_last_suffix)

theorem packet_loss_window_witness:
  "let s = net_run net_init [NetMount, NetComplete ''10:00''
             (Reply (Response 200 [] (JObj [(''performanceData'', JArr [JNum 1, JNum 2, JNum 3]),
                                           (''analysis'', JStr ''ok'')])))]
   in length (fst (packet_loss_bars s)) = length (snd (packet_loss_bars s)) \<and>
      length (snd (packet_loss_bars s)) = min 10 (length (packetLoss s)) \<and>
      (\<exists>pre. labels s = pre @ fst (packet_loss_bars s)) \<and>
      (\<exists>pre. packetLoss s = pre @ snd (packet_loss_bars s)) \<and> snd (packet_loss_bars s) = [JNum 3]"
proof -
  define s where "s = net_run net_init [NetMount, NetComplete ''10:00''
             (Reply (Response 200 [] (JObj [(''performanceData'', JArr [JNum 1, JNum 2, JNum 3]),
                                           (''analysis'', JStr ''ok'')])))]"
  have "net_reachable s" unfolding s_def by (rule net_run_reachable [OF net_reachable.init])
  moreover have "snd (packet_loss_bars s) = [JNum 3]"
    by (simp add: s_def net_eval_simps packet_loss_bars_def slice_last_def)
  ultimately show ?thesis unfolding Let_def s_def [symmetric] using packet_loss_window [of s] by simp
qed

text \<open>C8: on the school dashboard, once the theme effect has
  run, the page is dark exactly when the stored theme is \<open>'dark'\<close>, across any sequence
  of toggles, data and insight replies and remounts.\<close>

theorem school_theme_consistent:
  "school_reachable s \<Longrightarrow> (isDarkMode s \<longleftrightarrow> saved_theme s = Some ''dark'')"
  using school_reachable_consistent by (simp add: theme_consistent_def)

theorem school_theme_consistent_witness:
  "let s = school_step (school_mount (school_init (Some ''dark''))) ToggleTheme
   in (isDarkMode s \<longleftrightarrow> saved_theme s = Some ''dark'') \<and> saved_theme s = Some ''light''"
proof -
  have r: "school_reachable (school_step (school_mount (school_init (Some ''dark''))) ToggleTheme)"
    by (rule school_reachable.step [OF school_reachable.mount])
  have "saved_theme (school_step (school_mount (school_init (Some ''dark''))) ToggleTheme) = Some ''light''"
    by (simp add: school_eval_simps Let_def js_gt_def opt_get_def)
  with school_theme_consistent [OF r] show ?thesis by (simp add: Let_def)
qed

text \<open>C27: the network page refines its log-of-samples
  specification: as long as the page has not crashed, every step leaves the log unchanged
  except the settling of a started request, which appends exactly the sample its reply
  carries (none for a failed request or an error status).\<close>

theorem net_samples_refinement:
  "net_reachable s \<Longrightarrow> \<not> crashed (net_step s e) \<Longrightarrow>
     net_samples (net_step s e) =
       net_samples s @ (case e of NetComplete t r \<Rightarrow> (if in_flight s = 0 then [] else reply_sample t r)
                                 | _ \<Rightarrow> [])"
proof -
  assume r: "net_reachable s" and nc: "\<not> crashed (net_step s e)"
  have al: "series_aligned s" using r by (rule net_reachable_aligned)
  have c: "\<not> crashed s" using nc by (auto simp: net_step.simps)
  show ?thesis
  proof (cases e)
    case NetMount
    with c show ?thesis by (simp add: net_step.simps net_mount_def fetch_start_def net_samples_def)
  next
    case (SelectInterval n)
    with c show ?thesis by (simp add: net_step.simps net_samples_def)
  next
    case (NetComplete t rep)
    show ?thesis
    proof (cases "in_flight s = 0")
      case True
      with c NetComplete show ?thesis by (simp add: net_step.simps)
    next
      case False
      with c NetComplete nc have nc': "\<not> crashed (net_complete t rep s)" by (simp add: net_step.simps)
      let ?s' = "s\<lparr>loading := False, in_flight := in_flight s - 1\<rparr>"
      have al': "series_aligned ?s'" using al by (simp add: series_aligned_def)
      have eq: "net_samples ?s' = net_samples s" by (simp add: net_samples_def)
      have "net_samples (net_complete t rep s) = net_samples s @ reply_sample t rep"
        using nc' perf_append_sample [OF al'] eq
        by (auto simp: net_complete_def reply_sample_def Let_def
                 split: fetch_outcome.splits http_reply.splits option.splits)
      with c False NetComplete show ?thesis by (simp add: net_step.simps)
    qed
  qed
qed

theorem net_samples_refinement_witness:
  "net_samples (net_step (net_step net_init NetMount) (NetComplete ''10:00''
      (Reply (Response 200 [] (JObj [(''performanceData'', JArr [JNum 1, JNum 2, JNum 3])]))))) =
     [(''10:00'', JNum 1, JNum 2, JNum 3)] \<and>
   \<not> crashed (net_step (net_step net_init NetMount) (NetComplete ''10:00''
      (Reply (Response 200 [] (JObj [(''performanceData'', JArr [JNum 1, JNum 2, JNum 3])])))))"
proof -
  have r: "net_reachable (net_step net_init NetMount)" by (rule net_reachable.step [OF net_reachable.init])
  have nc: "\<not> crashed (net_step (net_step net_init NetMount) (NetComplete ''10:00''
      (Reply (Response 200 [] (JObj [(''performanceData'', JArr [JNum 1, JNum 2, JNum 3])])))))"
    by (simp add: net_eval_simps)
  from net_samples_refinement [OF r nc] nc show ?thesis
    by (simp add: net_eval_simps net_samples_def reply_sample_def data_sample_def)
qed

text \<open>C29: once every started request has settled, whatever the replies, the
  loading indicator is off and no request is left in flight, unless a malformed success
  reply crashed the page.\<close>

theorem net_settles:
  "\<not> crashed s \<Longrightarrow> 0 < in_flight s \<Longrightarrow> length rs = in_flight s \<Longrightarrow>
     \<not> loading (net_run s (map (NetComplete t) rs)) \<and>
     (in_flight (net_run s (map (NetComplete t) rs)) = 0 \<or> crashed (net_run s (map (NetComplete t) rs)))"
proof (induction rs arbitrary: s)
  case Nil
  then show ?case by simp
next
  case (Cons r rs)
  let ?s1 = "net_complete t r s"
  have step: "net_step s (NetComplete t r) = ?s1" using Cons.prems by (simp add: net_step.simps)
  have p: "in_flight ?s1 = length rs" "\<not> loading ?s1"
    using net_complete_progress [of t r s] Cons.prems by simp_all
  show ?case
  proof (cases "crashed ?s1")
    case True
    with step p show ?thesis by (simp add: net_run_crashed)
  next
    case False
    show ?thesis
    proof (cases rs)
      case Nil
      with step p show ?thesis by simp
    next
      case (Cons r' rs')
      with False p have "\<not> loading (net_run ?s1 (map (NetComplete t) rs)) \<and>
          (in_flight (net_run ?s1 (map (NetComplete t) rs)) = 0 \<or> crashed (net_run ?s1 (map (NetComplete t) rs)))"
        by (intro Cons.IH) simp_all
      with step show ?thesis by simp
    qed
  qed
qed

theorem net_settles_witness:
  "\<not> crashed (net_step net_init NetMount) \<and> 0 < in_flight (net_step net_init NetMount) \<and>
   length [FetchRejected, FetchRejected] = in_flight (net_step net_init NetMount) \<and>
   \<not> loading (net_run (net_step net_init NetMount) (map (NetComplete ''t'') [FetchRejected, FetchRejected])) \<and>
   in_flight (net_run (net_step net_init NetMount) (map (NetComplete ''t'') [FetchRejected, FetchRejected])) = 0"
proof -
  have h: "\<not> crashed (net_step net_init NetMount)" "0 < in_flight (net_step net_init NetMount)"
      "length [FetchRejected, FetchRejected] = in_flight (net_step net_init NetMount)"
    by (simp_all add: net_eval_simps)
  have "crashed (net_run (net_step net_init NetMount) (map (NetComplete ''t'') [FetchRejected, FetchRejected])) = False"
    by (simp add: net_eval_simps)
  with net_settles [OF h, of "''t''"] h show ?thesis by simp
qed

end
