(* ===== verification/Home.thy ===== *)
theory Home
  imports Dashboards
begin

text \<open>
  The home dashboard, \<open>src/app/components/Dashboard.jsx\<close>. It shows a spinner for 1.5 s
  (a \<open>setTimeout\<close> registered on mount and cleared on unmount), then the grid of the two
  chart components; the learning assistant is rendered below in both cases. The charts
  are mounted only when the spinner goes, so their fetch effects
  (\<open>NetworkStatusChart\<close>, \<open>LearningProgressChart\<close>) run only then. Time is an event
  \<open>Elapse n\<close> (n milliseconds pass); a timer fires once its delay has fully elapsed.
\<close>

record home_state =
  isLoading :: bool
  timeout_left :: "nat option"      \<comment> \<open>the pending \<open>setTimeout\<close>, milliseconds left\<close>
  status_chart :: "chart option"    \<comment> \<open>\<open>NetworkStatusChart\<close>'s data; \<open>None\<close>: not mounted\<close>
  progress_chart :: "chart option"  \<comment> \<open>\<open>LearningProgressChart\<close>'s data\<close>
  chart_requests :: nat             \<comment> \<open>requests to \<open>/api/dashboard-data\<close> started\<close>
  assistant :: assistant_state

definition spinner_delay :: nat where
  "spinner_delay = 1500"

definition home_init :: home_state where
  "home_init = \<lparr>isLoading = True, timeout_left = None, status_chart = None, progress_chart = None,
                chart_requests = 0,
                assistant = \<lparr>query = [], response = JStr [], assistant_state.loading = False\<rparr>\<rparr>"

definition show_charts :: "home_state \<Rightarrow> home_state" where
  \<comment> \<open>\<open>setIsLoading(false)\<close>: the grid mounts both charts, and each effect starts its fetch\<close>
  "show_charts s =
     s\<lparr>isLoading := False, status_chart := Some ([], []), progress_chart := Some ([], []),
       chart_requests := chart_requests s + 2\<rparr>"

definition elapse :: "nat \<Rightarrow> home_state \<Rightarrow> home_state" where
  "elapse n s =
     (case timeout_left s of
        None \<Rightarrow> s
      | Some t \<Rightarrow> (if t \<le> n then show_charts (s\<lparr>timeout_left := None\<rparr>)
                  else s\<lparr>timeout_left := Some (t - n)\<rparr>))"

datatype home_event =
    HomeMount                     \<comment> \<open>the effect: \<open>setTimeout(..., 1500)\<close>\<close>
  | HomeUnmount                   \<comment> \<open>its cleanup \<open>clearTimeout(timer)\<close>; the charts go too\<close>
  | Elapse nat
  | StatusReply fetch_outcome     \<comment> \<open>\<open>NetworkStatusChart\<close>'s fetch settles\<close>
  | ProgressReply fetch_outcome   \<comment> \<open>\<open>LearningProgressChart\<close>'s fetch settles\<close>
  | AskType string                \<comment> \<open>the assistant's input \<open>setQuery\<close>\<close>
  | AskSubmit                     \<comment> \<open>the assistant's \<open>handleSubmit\<close> up to \<open>await fetch\<close>\<close>
  | AskReply fetch_outcome        \<comment> \<open>the rest of the assistant's \<open>handleSubmit\<close>\<close>

fun home_step :: "home_state \<Rightarrow> home_event \<Rightarrow> home_state" where
  "home_step s HomeMount = s\<lparr>timeout_left := Some spinner_delay\<rparr>"
| "home_step s HomeUnmount = s\<lparr>timeout_left := None, status_chart := None, progress_chart := None\<rparr>"
| "home_step s (Elapse n) = elapse n s"
| "home_step s (StatusReply r) =
     s\<lparr>status_chart := map_option (chart_load ''networkStatus'' ''school'' ''uptime'' r) (status_chart s)\<rparr>"
| "home_step s (ProgressReply r) =
     s\<lparr>progress_chart := map_option (chart_load ''learningProgress'' ''week'' ''progress'' r) (progress_chart s)\<rparr>"
| "home_step s (AskType q) = s\<lparr>assistant := (assistant s)\<lparr>query := q\<rparr>\<rparr>"
| "home_step s AskSubmit = s\<lparr>assistant := assistant_submit (assistant s)\<rparr>"
| "home_step s (AskReply r) = s\<lparr>assistant := assistant_complete (assistant s) r\<rparr>"

fun home_run :: "home_state \<Rightarrow> home_event list \<Rightarrow> home_state" where
  "home_run s [] = s"
| "home_run s (e # es) = home_run (home_step s e) es"

datatype home_section = Spinner | ChartGrid chart chart

definition home_view :: "home_state \<Rightarrow> home_section option \<times> string option option" where
  \<comment> \<open>lines 28--48: spinner or grid, then \<open><AiAssistant />\<close> with what it shows\<close>
  "home_view s =
     ((if isLoading s then Some Spinner
       else (case (status_chart s, progress_chart s) of
               (Some c1, Some c2) \<Rightarrow> Some (ChartGrid c1 c2)
             | _ \<Rightarrow> None)),
      assistant_shown (assistant s))"

section \<open>Lemmas\<close>

lemma home_run_elapse_idle:
  "timeout_left s = None \<Longrightarrow> home_run s (map Elapse ns) = s"
  by (induction ns) (simp_all add: elapse_def)

lemma home_run_elapse:
  "timeout_left s = Some t \<Longrightarrow> 0 < t \<Longrightarrow>
     home_run s (map Elapse ns) =
       (if sum_list ns < t then s\<lparr>timeout_left := Some (t - sum_list ns)\<rparr>
        else show_charts (s\<lparr>timeout_left := None\<rparr>))"
proof (induction ns arbitrary: s t)
  case Nil
  then show ?case by simp
next
  case (Cons n ns)
  show ?case
  proof (cases "t \<le> n")
    case True
    have "timeout_left (show_charts (s\<lparr>timeout_left := None\<rparr>)) = None" by (simp add: show_charts_def)
    with True Cons.prems show ?thesis by (simp add: elapse_def home_run_elapse_idle)
  next
    case False
    have "home_run (s\<lparr>timeout_left := Some (t - n)\<rparr>) (map Elapse ns) =
       (if sum_list ns < t - n then s\<lparr>timeout_left := Some (t - n - sum_list ns)\<rparr>
        else show_charts (s\<lparr>timeout_left := None\<rparr>))"
    proof -
      from False have p: "0 < t - n" by simp
      have "timeout_left (s\<lparr>timeout_left := Some (t - n)\<rparr>) = Some (t - n)" by simp
      from Cons.IH [OF this p] show ?thesis by simp
    qed
    with False Cons.prems show ?thesis by (auto simp: elapse_def)
  qed
qed

section \<open>Properties of the home dashboard\<close>

text \<open>C17: after the dashboard mounts, however the elapsed time
  is split, the spinner shows exactly while less than 1.5 s have passed; no chart exists and
  no dashboard data is requested before, and from then on both charts are mounted and each
  has requested the data exactly once.\<close>

theorem home_spinner_gates_charts:
  "isLoading (home_run (home_step home_init HomeMount) (map Elapse ns)) = (sum_list ns < 1500) \<and>
   chart_requests (home_run (home_step home_init HomeMount) (map Elapse ns)) =
     (if sum_list ns < 1500 then 0 else 2) \<and>
   (home_view (home_run (home_step home_init HomeMount) (map Elapse ns)) =
      ((if sum_list ns < 1500 then Some Spinner else Some (ChartGrid ([], []) ([], []))), None))"
  using home_run_elapse [of "home_step home_init HomeMount" spinner_delay ns]
  unfolding spinner_delay_def
  by (simp add: home_init_def spinner_delay_def show_charts_def home_view_def assistant_shown_def)

end
