(* ===== verification/Views.thy ===== *)
theory Views
  imports Home
begin

text \<open>
  What the network page (\<open>src/app/network/page.js\<close>, lines 22--61 and 204--313), the
  school dashboard (\<open>src/app/layout/page.jsx\<close>, lines 109--191) and the learning
  assistant's form (\<open>src/app/components/AiAssistant.jsx\<close>, lines 45--54) render, as a
  list of sections computed from the page state. A view is \<open>None\<close> when rendering
  throws: \<open>toFixed\<close> on a value that is not a number, or a plain object as a React child.
  Styling, icons and animation are left out; chart options keep the fields the code sets.
\<close>

section \<open>The network performance page\<close>

record chart_options =
  responsive :: bool
  maintainAspectRatio :: bool
  legend_position :: string
  title_text :: string
  begin_at_zero :: bool    \<comment> \<open>\<open>scales.y.beginAtZero\<close>; \<open>False\<close> where the code sets no scale\<close>

definition create_chart_options :: "string \<Rightarrow> chart_options" where
  "create_chart_options title =
     \<lparr>responsive = True, maintainAspectRatio = True, legend_position = ''top'', title_text = title,
      begin_at_zero = True\<rparr>"

definition pie_chart_options :: chart_options where
  "pie_chart_options =
     \<lparr>responsive = True, maintainAspectRatio = False, legend_position = ''right'',
      title_text = ''Current Network Metrics'', begin_at_zero = False\<rparr>"

definition interval_options :: "(nat \<times> string) list" where
  "interval_options = [(1000, ''1 second''), (5000, ''5 seconds''), (10000, ''10 seconds'')]"

text \<open>A controlled \<open><select value={interval}>\<close> selects the option whose value is
  \<open>String(interval)\<close>; when none matches (the promise the mount stores), React selects the
  first option.\<close>

definition interval_shown :: "interval_value \<Rightarrow> string" where
  "interval_shown iv =
     (case iv of
        IntervalMs n \<Rightarrow> (case filter (\<lambda>opt. fst opt = n) interval_options of
                          opt # _ \<Rightarrow> snd opt
                        | [] \<Rightarrow> snd (hd interval_options))
      | IntervalPromise \<Rightarrow> snd (hd interval_options))"

datatype chart_kind = LineChart | PieChart | BarChart

datatype net_section =
    NetSpinner
  | MetricTile string string string     \<comment> \<open>label, value, unit\<close>
  | IntervalSelect string               \<comment> \<open>the option shown\<close>
  | ChartPanel chart_kind chart_options chart_config
  | AnalysisText string

definition net_view :: "net_dashboard \<Rightarrow> net_section list option" where
  "net_view s =
     (if crashed s then None
      else if loading s then Some [NetSpinner]
      else (case latest_metrics s of (b, l, p) \<Rightarrow>
             (case (metric_tile b, metric_tile l, metric_tile p, react_text (analysis s)) of
                (Some vb, Some vl, Some vp, Some ta) \<Rightarrow>
                  Some [MetricTile ''Bandwidth'' vb '' Mbps'', MetricTile ''Latency'' vl '' ms'',
                        MetricTile ''Packet Loss'' vp ''%'', IntervalSelect (interval_shown (interval s)),
                        ChartPanel LineChart (create_chart_options ''Bandwidth Over Time'') (bandwidth_chart s),
                        ChartPanel LineChart (create_chart_options ''Latency Over Time'') (latency_chart s),
                        ChartPanel LineChart (create_chart_options ''Packet Loss Over Time'') (packet_loss_chart s),
                        ChartPanel PieChart pie_chart_options (pie_chart s),
                        ChartPanel BarChart (create_chart_options ''Network Metrics Comparison'') (bar_chart s),
                        ChartPanel BarChart (create_chart_options ''Packet Loss Distribution'')
                          (fst (packet_loss_bars s), [(''Packet Loss (%)'', snd (packet_loss_bars s))]),
                        AnalysisText ta]
              | _ \<Rightarrow> None)))"

section \<open>The school dashboard\<close>

definition moon_icon :: string where "moon_icon = [CHR 0xF0, CHR 0x9F, CHR 0x8C, CHR 0x99]"
definition sun_icon :: string where "sun_icon = [CHR 0xE2, CHR 0x98, CHR 0x80, CHR 0xEF, CHR 0xB8, CHR 0x8F]"

datatype school_section =
    ThemeButton string
  | PerformanceChart chart_config
  | InsightsText string
  | AlertRow string
  | NoIssues            \<comment> \<open>\<open>No issues detected.\<close>\<close>

definition school_view :: "school_state \<Rightarrow> (bool \<times> school_section list) option" where
  \<comment> \<open>whether the page has the \<open>dark\<close> class, and its sections in order\<close>
  "school_view s =
     map_option (\<lambda>t. (isDarkMode s,
                      [ThemeButton (if isDarkMode s then moon_icon else sun_icon),
                       PerformanceChart (school_chart s), InsightsText t] @
                      (if alerts s \<noteq> [] then map AlertRow (alerts s) else [NoIssues])))
       (insights_shown s)"

section \<open>The home dashboard's charts\<close>

text \<open>\<open>NetworkStatusChart.jsx\<close> lines 10--50 and \<open>LearningProgressChart.jsx\<close> lines 19--59:
  both draw percentages on a y axis from 0 to 100 whose ticks are \<open>value + "%"\<close>.\<close>

record percent_axis_options =
  pa_title :: string
  pa_legend :: string
  pa_begin_at_zero :: bool
  pa_y_max :: real

definition percent_tick :: "real \<Rightarrow> string" where
  \<comment> \<open>\<open>callback: (value) => value + "%"\<close>\<close>
  "percent_tick v = js_num_string v @ ''%''"

definition status_chart_options :: percent_axis_options where
  "status_chart_options =
     \<lparr>pa_title = ''School Network Status'', pa_legend = ''top'', pa_begin_at_zero = True, pa_y_max = 100\<rparr>"

definition progress_chart_options :: percent_axis_options where
  "progress_chart_options =
     \<lparr>pa_title = ''Learning Progress Over Time'', pa_legend = ''top'', pa_begin_at_zero = True, pa_y_max = 100\<rparr>"

definition status_dataset_label :: string where
  "status_dataset_label = ''Network Uptime (%)''"

definition progress_dataset_label :: string where
  "progress_dataset_label = ''Average Student Progress''"

definition on_percent_axis :: "percent_axis_options \<Rightarrow> jsval list \<Rightarrow> bool" where
  \<comment> \<open>every value is a number the axis shows without clipping\<close>
  "on_percent_axis opts vs = list_all (\<lambda>v. case v of JNum x \<Rightarrow> 0 \<le> x \<and> x \<le> pa_y_max opts | _ \<Rightarrow> False) vs"

section \<open>The learning assistant's form\<close>

definition assistant_button :: "assistant_state \<Rightarrow> bool \<times> string" where
  \<comment> \<open>\<open>disabled={loading}\<close> and its label\<close>
  "assistant_button s =
     (assistant_state.loading s,
      if assistant_state.loading s then ''Thinking...'' else ''Ask Learning Assistant'')"

section \<open>Lemmas\<close>

lemma truthy_json_clean [simp]: "truthy (json_clean v) = truthy v"
  by (cases v) simp_all

lemma interval_shown_promise [simp]: "interval_shown IntervalPromise = ''1 second''"
  by (simp add: interval_shown_def interval_options_def)

lemma truthy_not_undef: "truthy v \<Longrightarrow> v \<noteq> JUndef"
  by auto

end
