(* ===== verification/Site.thy ===== *)
theory Site
  imports Views
begin

text \<open>
  The pages of the site and how a visitor moves between them. Next.js maps each
  \<open>src/app/<dir>/page.*\<close> to the path \<open>/<dir>\<close>: \<open>/\<close> (\<open>src/app/page.js\<close>: \<open>Hero\<close>
  above the home \<open>Dashboard\<close>), \<open>/chatbot\<close> (the tutor chat), \<open>/network\<close> (the network
  performance page) and \<open>/layout\<close> (the school dashboard of \<open>src/app/layout/page.jsx\<close>).
  Every page is wrapped by the root layout (\<open>src/app/layout.js\<close>). The only links are the
  two buttons of \<open>Hero\<close> (\<open>src/app/components/Hero.jsx\<close>).
\<close>

datatype page_id = HomePage | ChatbotPage | NetworkPage | SchoolPage

definition app_routes :: "(string \<times> page_id) list" where
  \<comment> \<open>the app router's file-system routes\<close>
  "app_routes = [(''/'', HomePage), (''/chatbot'', ChatbotPage), (''/network'', NetworkPage),
                 (''/layout'', SchoolPage)]"

definition hero_title :: string where
  "hero_title = ''AI-Powered EduNet Optmizer''"

definition hero_subtitle :: string where
  "hero_subtitle = ''Connecting underserved schools to the power of AI and the internet''"

definition hero_links :: "(string \<times> string) list" where
  \<comment> \<open>\<open><Link href=...><button>label</button></Link>\<close>; the second label starts with \<open>{" "}\<close>\<close>
  "hero_links = [(''/chatbot'', ''AI Tutor''), (''/network'', '' Network Dashboard'')]"

datatype home_part = HeroPart string string "(string \<times> string) list" | DashboardPart

definition home_page :: "home_part list" where
  \<comment> \<open>\<open><main><Hero /><Dashboard /></main>\<close>\<close>
  "home_page = [HeroPart hero_title hero_subtitle hero_links, DashboardPart]"

fun part_links :: "home_part \<Rightarrow> string list" where
  "part_links (HeroPart t st ls) = map fst ls"
| "part_links DashboardPart = []"

fun page_links :: "page_id \<Rightarrow> string list" where
  "page_links HomePage = concat (map part_links home_page)"
| "page_links ChatbotPage = []"
| "page_links NetworkPage = []"
| "page_links SchoolPage = []"

record site_metadata =
  meta_title :: string
  meta_description :: string
  html_lang :: string

definition root_layout :: site_metadata where
  "root_layout =
     \<lparr>meta_title = ''EduNet Optimizer'',
      meta_description = ''Connecting underserved schools to the power of AI and the internet'',
      html_lang = ''en''\<rparr>"

inductive navigable :: "page_id \<Rightarrow> bool" where
  start: "navigable HomePage"
| follow: "navigable p \<Longrightarrow> href \<in> set (page_links p) \<Longrightarrow> map_of app_routes href = Some q \<Longrightarrow>
           navigable q"

section \<open>Lemmas\<close>

lemma navigable_home_targets: "navigable p \<Longrightarrow> p \<in> {HomePage, ChatbotPage, NetworkPage}"
proof (induction rule: navigable.induct)
  case start
  then show ?case by simp
next
  case (follow p href q)
  then have "href \<in> {''/chatbot'', ''/network''}"
    by (cases p) (auto simp: home_page_def hero_links_def)
  with follow.hyps(3) show ?case by (auto simp: app_routes_def)
qed

lemma navigable_chatbot: "navigable ChatbotPage"
  by (rule navigable.follow [OF navigable.start, of "''/chatbot''"]) (simp_all add: home_page_def hero_links_def app_routes_def)

lemma navigable_network: "navigable NetworkPage"
  by (rule navigable.follow [OF navigable.start, of "''/network''"]) (simp_all add: home_page_def hero_links_def app_routes_def)

section \<open>Properties of the site\<close>

text \<open>Starting from the landing page and following links, a visitor
  reaches exactly the landing page, the tutor chat and the network page: the school
  dashboard at \<open>/layout\<close> is linked from nowhere.\<close>

theorem site_navigation:
  "navigable p \<longleftrightarrow> p \<in> {HomePage, ChatbotPage, NetworkPage}"
  using navigable_home_targets navigable.start navigable_chatbot navigable_network by blast

end
