(* ===== verification/Spec2Isabelle.thy ===== *)
theory Spec2Isabelle
  imports Site
begin

text \<open>
  \<^bold>\<open>EduNet Optimizer: a verification development.\<close>

  The repository is a Next.js application: seven HTTP routes under \<open>src/app/api\<close>
  and the client pages that call them. The model is a shallow embedding in HOL.
  JavaScript values are the datatype \<open>jsval\<close>; strings are UTF-8 byte strings.
  A route is a function from its request body, the provider's completion, the clock and
  a stream of \<open>Math.random\<close> draws to its reply. A page is a record of its React state,
  a step function over its events and an inductive set of reachable states.

  \<^bold>\<open>Theories.\<close>
  \<^item> \<open>Prelude\<close>: named theorem collections, type synonyms (\<open>jstring\<close>, \<open>rng\<close>) and
    generic list lemmas.
  \<^item> \<open>Js_Strings\<close>: the string operations the code uses. These are \<open>startsWith\<close>,
    global \<open>replace\<close> of a literal, \<open>split\<close> and \<open>join\<close>, the leftmost regex search
    \<open>search_first\<close>, the lazy line capture \<open>(.*?)(?=\n|$)\<close>, \<open>toLowerCase\<close> and
    decimal printing and parsing. Lemmas: \<open>join\<close> after \<open>split\<close> is the identity, and
    decimal printing round-trips.
  \<^item> \<open>Js_Values\<close>: \<open>jsval\<close>, property access with its \<open>TypeError\<close>s, truthiness,
    \<open>||\<close>, \<open>Number.prototype.toString\<close>, \<open>JSON.stringify\<close> and the HTTP reply type.
  \<^item> \<open>Markup\<close>: the two chained \<open>replace\<close>s that strip markup (tutor route line 14,
    gemini route line 54). They equal one filter, and stripping is idempotent.
  \<^item> \<open>Normalizer\<close>: \<open>formatNetworkResponse\<close> and \<open>generateMockTimeline\<close> of
    \<open>src/app/api/gemini/route.js\<close>. It has three regular expressions and a placeholder
    generator over an explicit random stream. Lemmas: severity default and verbatim
    capture, non-empty lists, round trip of the predictions line, bounds of the
    visual data.
  \<^item> \<open>Prompts\<close>: the four prompt templates and \<open>toFixed(2)\<close>, whose value is within
    1/200 of its argument.
  \<^item> \<open>Routes\<close>: the seven route handlers (\<open>ai-tutor\<close>, \<open>evaluate-answer\<close>, \<open>gemini\<close>,
    \<open>network-performance\<close>, \<open>network-data\<close>, \<open>dashboard-data\<close>, \<open>insights\<close>), each
    with its error paths. Errors thrown before the \<open>try\<close> are \<open>Uncaught\<close>.
  \<^item> \<open>Chat\<close>: the tutor page \<open>src/app/chatbot/page.js\<close> (\<open>chat_step\<close> over
    typing, submit and request completion, with the requests in flight kept explicitly) and
    \<open>src/app/components/AiAssistant.jsx\<close>. Lemmas:
    \<^item> the chat invariant relates messages to the requests in flight (rule induction
      on \<open>chat_reachable\<close>);
    \<^item> the history only grows, and user messages are non-blank strings;
    \<^item> \<open>js_blank\<close> is the test \<open>!question.trim()\<close>; the engine's white-space scan, a
      \<open>while_option\<close> loop, returns and agrees with it (a supporting lemma: the code
      itself calls the built-in);
    \<^item> the rendering of the conversation (\<open>chat_view\<close>, React children as text);
    \<^item> completing requests in flight, in any order and with any outcomes, appends
      their answers in completion order (\<open>chat_run_completions\<close>); so once every
      request is answered nothing is pending (liveness), with overlapping questions the
      typing flag clears on the first answer, and answers follow completion order, not
      the order of the questions.
  \<^item> \<open>Dashboards\<close>: the network page \<open>src/app/network/page.js\<close> (\<open>net_step\<close>), the
    school dashboard \<open>src/app/layout/page.jsx\<close> (\<open>school_step\<close>) and the two chart
    components, with the chart data each page builds. Lemmas:
    \<^item> the four series stay aligned;
    \<^item> the page refines a log of samples: each settled request appends the sample its
      reply carries (\<open>net_samples_refinement\<close>);
    \<^item> the page registers no timer, because its \<open>setInterval\<close> is the shadowing
      state setter (a lemma kept with the finding; the code's comments say the page polls);
    \<^item> the requests started by a mount all settle;
    \<^item> the packet-loss chart shows the last ten points;
    \<^item> the dark theme agrees with the stored theme.
  \<^item> \<open>Home\<close>: the home dashboard \<open>src/app/components/Dashboard.jsx\<close>, with its 1.5 s
    spinner timer (\<open>Elapse n\<close> events advance time), the chart components it mounts when
    the timer fires, and the assistant below. Lemma: the spinner gates the charts and their
    data requests, however the elapsed time is split.
  \<^item> \<open>Views\<close>: what the network page, the school dashboard and the assistant's form
    render, as lists of sections, with the chart options the code builds. A view is
    \<open>None\<close> where React would throw (\<open>toFixed\<close> on a non-number, an object as a child).
  \<^item> \<open>Site\<close>: the app router's routes (\<open>/\<close>, \<open>/chatbot\<close>, \<open>/network\<close>, \<open>/layout\<close>),
    the landing page \<open>src/app/page.js\<close> (\<open>Hero\<close> above the home dashboard), the two
    buttons of \<open>src/app/components/Hero.jsx\<close>, the root layout's metadata
    (\<open>src/app/layout.js\<close>), and the pages a visitor reaches by following links
    (\<open>navigable\<close>, an inductive predicate). Lemma: exactly the landing page, the tutor
    chat and the network page are reachable; the school dashboard is linked from nowhere.
  \<^item> This theory: the properties that compose a route with the page that calls it.
    Each composition is an inductive set of sessions, whose replies come from the route
    (for every provider outcome and random stream) or are failed fetches, interleaved in
    any order with the page's other events:
    \<^item> \<open>tutor_session\<close>: the chat always renders, and an answer after a provider
      failure is an empty bubble (\<open>tutor_chat_renders\<close>);
    \<^item> \<open>net_session\<close>: the network page never crashes and always renders
      (\<open>net_route_renders\<close>, by the invariant \<open>numeric_page\<close>);
    \<^item> \<open>home_session\<close>: each home chart is unmounted, empty or exactly the columns of
      \<open>/api/dashboard-data\<close>, on its percent axis (\<open>home_charts_from_route\<close>).
    Further: the tutor route's failure reaches the chat as \<open>undefined\<close>, the
    assistant never shows an answer, and the school page renders the upstream insights
    unchecked.

  \<^bold>\<open>Bounds and fuel.\<close> Every loop of the code is a structural recursion, a
  \<^theory_text>\<open>function\<close> with a measure (the remaining input of a regex scan or a
  replacement) or a \<open>while_option\<close> proved to return (the \<open>trim\<close> scan, measure: the
  bytes left), so no fuel is needed. \<open>frac_digits\<close> looks at no
  more than 20 fractional digits. Number printing is therefore exact for the decimal
  literals the code prints (uptimes, weekly progress, the witnesses' values). For a real
  with more digits the model truncates, where JavaScript prints the shortest decimal that
  reads back to the same double. This affects only the printed text, not any property
  proved here. Asynchronous completions are events of the step functions, so every
  interleaving of replies is covered.

  \<^bold>\<open>Not modelled.\<close>
  \<^item> The provider SDK and the HTTP transport: parameters of the route functions.
  \<^item> Styling and animation (CSS classes, framer-motion, Chart.js drawing): they
    change how a section looks, not which sections render or what they say.
  \<^item> The Tailwind configuration (\<open>src/tailwind.config.mjs\<close>): build-time CSS
    configuration, whose effect depends on a Tailwind version the repository does not pin.
  \<^item> Scrolling the chat to its end (a DOM effect with no state).
  \<^item> \<open>ToNumber\<close> of strings other than decimal digit strings.
\<close>

section \<open>The tutor chat driven by the tutor route\<close>

text \<open>The sessions of the chat page in which every answer is the tutor route's reply to
  some request, or a failed \<open>fetch\<close>.\<close>

inductive tutor_session :: "chat_state \<Rightarrow> bool" where
  init: "tutor_session chat_init"
| type: "tutor_session s \<Longrightarrow> tutor_session (chat_step s (TypeText t))"
| submit: "tutor_session s \<Longrightarrow> tutor_session (chat_step s Submit)"
| reply: "tutor_session s \<Longrightarrow> tutor_session (chat_step s (Complete i (Reply (ai_tutor_post gen req))))"
| rejected: "tutor_session s \<Longrightarrow> tutor_session (chat_step s (Complete i FetchRejected))"

definition text_content :: "jsval \<Rightarrow> bool" where
  "text_content v \<longleftrightarrow> v = JUndef \<or> (\<exists>t. v = JStr t)"

definition contents_text :: "chat_state \<Rightarrow> bool" where
  "contents_text s \<longleftrightarrow> (\<forall>m \<in> set (conversation s). text_content (content m))"

section \<open>The network page driven by its route\<close>

text \<open>The sessions of the network page in which every settled request carries the reply
  of \<open>/api/network-performance\<close> (for any provider and random stream) or a failed
  \<open>fetch\<close>, in any interleaving with mounts and interval choices.\<close>

inductive net_session :: "net_dashboard \<Rightarrow> bool" where
  init: "net_session net_init"
| mount: "net_session s \<Longrightarrow> net_session (net_step s NetMount)"
| select: "net_session s \<Longrightarrow> net_session (net_step s (SelectInterval n))"
| reply: "net_session s \<Longrightarrow> net_session (net_step s (NetComplete t (Reply (fst (network_performance_get gen g)))))"
| rejected: "net_session s \<Longrightarrow> net_session (net_step s (NetComplete t FetchRejected))"

definition is_jnum :: "jsval \<Rightarrow> bool" where
  "is_jnum v = (case v of JNum x \<Rightarrow> True | _ \<Rightarrow> False)"

definition numeric_page :: "net_dashboard \<Rightarrow> bool" where
  "numeric_page s \<longleftrightarrow>
     \<not> crashed s \<and> list_all is_jnum (bandwidth s) \<and> list_all is_jnum (latency s) \<and>
     list_all is_jnum (packetLoss s) \<and> (\<exists>a. analysis s = JStr a)"

section \<open>The home charts driven by their route\<close>

text \<open>The sessions of the home dashboard in which each chart's request settles with the
  reply of \<open>/api/dashboard-data\<close> or a failed \<open>fetch\<close>, interleaved with mounts,
  unmounts, elapsing time and the assistant's events.\<close>

inductive home_session :: "home_state \<Rightarrow> bool" where
  init: "home_session home_init"
| other: "home_session s \<Longrightarrow> \<forall>r. e \<noteq> StatusReply r \<and> e \<noteq> ProgressReply r \<Longrightarrow> home_session (home_step s e)"
| status_route: "home_session s \<Longrightarrow> home_session (home_step s (StatusReply (Reply dashboard_data_get)))"
| status_rejected: "home_session s \<Longrightarrow> home_session (home_step s (StatusReply FetchRejected))"
| progress_route: "home_session s \<Longrightarrow> home_session (home_step s (ProgressReply (Reply dashboard_data_get)))"
| progress_rejected: "home_session s \<Longrightarrow> home_session (home_step s (ProgressReply FetchRejected))"

definition chart_from :: "(string \<times> real) list \<Rightarrow> percent_axis_options \<Rightarrow> chart option \<Rightarrow> bool" where
  \<comment> \<open>the chart is unmounted, holds its initial empty data, or holds the route's rows, on the axis\<close>
  "chart_from rows opts c \<longleftrightarrow>
     (\<forall>d. c = Some d \<longrightarrow> (d = ([], []) \<or> d = (map (JStr \<circ> fst) rows, map (JNum \<circ> snd) rows)) \<and>
                         on_percent_axis opts (snd d))"

section \<open>Shared lemmas\<close>

lemma get_prop_json_clean_absent:
  "k \<notin> fst ` set kvs \<Longrightarrow> get_prop (json_clean (JObj kvs)) k = Inr JUndef"
proof -
  assume k: "k \<notin> fst ` set kvs"
  have "fst ` set (map (\<lambda>(k, v). (k, json_clean v)) (filter (\<lambda>(k, v). v \<noteq> JUndef) kvs)) \<subseteq> fst ` set kvs"
    by force
  with k have "map_of (rev (map (\<lambda>(k, v). (k, json_clean v)) (filter (\<lambda>(k, v). v \<noteq> JUndef) kvs))) k = None"
    by (auto simp: map_of_eq_None_iff)
  then show ?thesis by simp
qed

lemma js_or_num_zero [simp]: "js_or (JNum x) (JNum 0) = JNum x"
  by (simp add: js_or_def)

lemma map_prop_label_rows:
  "a \<noteq> b \<Longrightarrow> map_prop a (map (\<lambda>(s, u). JObj [(a, JStr s), (b, JNum u)]) rows) = Inr (map (JStr \<circ> fst) rows)"
  by (induction rows) auto

lemma map_prop_value_rows:
  "map_prop b (map (\<lambda>(s, u). JObj [(a, JStr s), (b, JNum u)]) rows) = Inr (map (JNum \<circ> snd) rows)"
  by (induction rows) auto

lemma json_clean_rows:
  "(\<lambda>v. if v = JUndef then JNull else json_clean v) \<circ> (\<lambda>(s, u). JObj [(a, JStr s), (b, JNum u)]) =
     (\<lambda>(s, u). JObj [(a, JStr s), (b, JNum u)])"
  by (auto simp: fun_eq_iff)

lemma text_content_renders: "text_content v \<Longrightarrow> \<exists>t. react_text v = Some t"
  by (auto simp: text_content_def)

lemma answer_tutor_text: "text_content (answer_content (Reply (ai_tutor_post gen req)))"
  by (auto simp: ai_tutor_post_def answer_content_def tutor_error_body_def json_response_def text_content_def
           split: sum.splits)

lemma answer_rejected_text: "text_content (answer_content FetchRejected)"
  by (simp add: answer_content_def text_content_def)

lemma contents_text_step:
  "contents_text s \<Longrightarrow> (\<And>i r. e = Complete i r \<Longrightarrow> text_content (answer_content r)) \<Longrightarrow>
     contents_text (chat_step s e)"
  by (cases e) (auto simp: contents_text_def text_content_def)

lemma tutor_session_text: "tutor_session s \<Longrightarrow> contents_text s"
proof (induction rule: tutor_session.induct)
  case init
  then show ?case by (simp add: contents_text_def chat_init_def)
next
  case (type s t)
  from type.IH show ?case by (rule contents_text_step) simp
next
  case (submit s)
  from submit.IH show ?case by (rule contents_text_step) simp
next
  case (reply s i gen req)
  from reply.IH show ?case by (rule contents_text_step) (simp add: answer_tutor_text)
next
  case (rejected s i)
  from rejected.IH show ?case by (rule contents_text_step) (simp add: answer_rejected_text)
qed

lemma tutor_session_rows:
  "tutor_session s \<Longrightarrow> \<exists>rows. chat_view s = Some rows \<and>
     length rows = max 1 (length (conversation s)) + (if isTyping s then 1 else 0)"
proof -
  assume "tutor_session s"
  then have c: "contents_text s" by (rule tutor_session_text)
  show ?thesis
  proof (cases "conversation s = []")
    case True
    then show ?thesis by (simp add: chat_view_def)
  next
    case False
    have "\<forall>x \<in> set (map (\<lambda>m. map_option (Bubble (message.role m)) (react_text (content m))) (conversation s)).
            x \<noteq> None"
      using c by (auto simp: contents_text_def dest!: text_content_renders)
    then obtain ys where ys: "those (map (\<lambda>m. map_option (Bubble (message.role m)) (react_text (content m)))
                                (conversation s)) = Some ys"
      using those_Some_iff by blast
    have "length ys = length (conversation s)"
      using those_length [OF ys] by simp
    moreover from False have "max 1 (length (conversation s)) = length (conversation s)" by (cases "conversation s") auto
    ultimately show ?thesis using False ys by (simp add: chat_view_def)
  qed
qed

lemma chat_view_last_message:
  "\<not> isTyping s \<Longrightarrow> conversation s = ms @ [m] \<Longrightarrow> react_text (content m) = Some t \<Longrightarrow>
     chat_view s = Some rows \<Longrightarrow> last rows = Bubble (message.role m) t"
  by (auto simp: chat_view_def those_append split: option.splits)

lemma answer_tutor_failure:
  "get_prop body ''question'' = Inr q \<Longrightarrow> gen (tutor_prompt (js_to_string q)) = Inl e \<Longrightarrow>
     answer_content (Reply (ai_tutor_post gen (Inr body))) = JUndef"
  by (simp add: ai_tutor_post_def answer_content_def tutor_error_body_def json_response_def)

lemma latest_numeric:
  assumes "list_all is_jnum xs"
  shows "\<exists>x. latest xs = JNum x"
proof (cases xs rule: rev_cases)
  case Nil
  then show ?thesis by (simp add: latest_def js_or_def)
next
  case (snoc ys y)
  with assms obtain x where "y = JNum x" by (auto simp: is_jnum_def split: jsval.splits)
  with snoc show ?thesis by (simp add: latest_def js_or_def)
qed

lemma numeric_page_view:
  assumes n: "numeric_page s"
  shows "\<exists>secs. net_view s = Some secs \<and> (if loading s then secs = [NetSpinner] else length secs = 11)"
proof -
  from n have nc: "\<not> crashed s" and bw: "list_all is_jnum (bandwidth s)"
    and lt: "list_all is_jnum (latency s)" and pl: "list_all is_jnum (packetLoss s)"
    and an: "\<exists>a. analysis s = JStr a" by (simp_all add: numeric_page_def)
  obtain b where b: "latest (bandwidth s) = JNum b" using latest_numeric [OF bw] by blast
  obtain l where l: "latest (latency s) = JNum l" using latest_numeric [OF lt] by blast
  obtain p where p: "latest (packetLoss s) = JNum p" using latest_numeric [OF pl] by blast
  obtain a where a: "analysis s = JStr a" using an by blast
  from nc b l p a show ?thesis by (simp add: net_view_def latest_metrics_def metric_tile_def)
qed

lemma network_performance_reply:
  "fst (network_performance_get gen g) =
     (case gen (performance_prompt (shd g * 100) (shd (stl g) * 200) (shd (stl (stl g)) * 5)) of
        Inl e \<Rightarrow> json_response 500 (JObj [(''error'', JStr ''Failed to analyze network performance'')])
      | Inr a \<Rightarrow> json_response 200 (JObj [(''performanceData'',
                    JArr [JNum (shd g * 100), JNum (shd (stl g) * 200), JNum (shd (stl (stl g)) * 5)]),
                  (''analysis'', JStr a)]))"
  by (simp add: network_performance_get_def simulate_network_performance_def math_random_def Let_def
           split: sum.splits)

lemma numeric_page_route_reply:
  assumes n: "numeric_page s"
  shows "numeric_page (net_complete t (Reply (fst (network_performance_get gen g))) s)"
proof (cases "gen (performance_prompt (shd g * 100) (shd (stl g) * 200) (shd (stl (stl g)) * 5))")
  case (Inl e)
  with n show ?thesis
    by (simp add: network_performance_reply numeric_page_def net_complete_def json_response_def http_ok_def Let_def)
next
  case (Inr a)
  with n show ?thesis
    by (simp add: network_performance_reply numeric_page_def net_complete_def json_response_def http_ok_def
                  perf_append_def is_jnum_def Let_def)
qed

lemma net_session_numeric: "net_session s \<Longrightarrow> numeric_page s"
proof (induction rule: net_session.induct)
  case init
  show ?case by (simp add: numeric_page_def net_init_def)
next
  case (mount s)
  then show ?case by (simp add: net_step.simps net_mount_def fetch_start_def numeric_page_def)
next
  case (select s n)
  then show ?case by (simp add: net_step.simps numeric_page_def)
next
  case (reply s t gen g)
  then have "\<not> crashed s" by (simp add: numeric_page_def)
  with reply.IH show ?case by (simp add: net_step.simps numeric_page_route_reply)
next
  case (rejected s t)
  then show ?case by (simp add: net_step.simps net_complete_def numeric_page_def Let_def)
qed

lemma chart_load_rejected [simp]: "chart_load f l v FetchRejected = (\<lambda>c. c)"
  by (simp add: chart_load_def fun_eq_iff)

lemma chart_load_status_route:
  "chart_load ''networkStatus'' ''school'' ''uptime'' (Reply dashboard_data_get) =
     (\<lambda>c. (map (JStr \<circ> fst) network_status_rows, map (JNum \<circ> snd) network_status_rows))"
  by (simp add: fun_eq_iff chart_load_def dashboard_data_get_def json_response_def json_clean_rows
                map_prop_label_rows map_prop_value_rows)

lemma chart_load_progress_route:
  "chart_load ''learningProgress'' ''week'' ''progress'' (Reply dashboard_data_get) =
     (\<lambda>c. (map (JStr \<circ> fst) learning_progress_rows, map (JNum \<circ> snd) learning_progress_rows))"
  by (simp add: fun_eq_iff chart_load_def dashboard_data_get_def json_response_def json_clean_rows
                map_prop_label_rows map_prop_value_rows)

lemma chart_from_empty [simp]: "chart_from rows opts None" "chart_from rows opts (Some ([], []))"
  by (simp_all add: chart_from_def on_percent_axis_def)

lemma chart_from_route:
  "on_percent_axis opts (map (JNum \<circ> snd) rows) \<Longrightarrow>
     chart_from rows opts (map_option (\<lambda>c. (map (JStr \<circ> fst) rows, map (JNum \<circ> snd) rows)) x)"
  by (cases x) (simp_all add: chart_from_def)

lemma rows_on_axis:
  "on_percent_axis status_chart_options (map (JNum \<circ> snd) network_status_rows)"
  "on_percent_axis progress_chart_options (map (JNum \<circ> snd) learning_progress_rows)"
  by (simp_all add: on_percent_axis_def status_chart_options_def progress_chart_options_def
                    network_status_rows_def learning_progress_rows_def)

lemma home_session_charts:
  "home_session s \<Longrightarrow>
     chart_from network_status_rows status_chart_options (status_chart s) \<and>
     chart_from learning_progress_rows progress_chart_options (progress_chart s)"
proof (induction rule: home_session.induct)
  case init
  show ?case by (simp add: home_init_def)
next
  case (other s e)
  then show ?case
    by (cases e) (auto simp: elapse_def show_charts_def split: option.splits)
next
  case (status_route s)
  then show ?case by (simp add: chart_load_status_route chart_from_route rows_on_axis)
next
  case (status_rejected s)
  then show ?case by (simp add: option.map_ident)
next
  case (progress_route s)
  then show ?case by (simp add: chart_load_progress_route chart_from_route rows_on_axis)
next
  case (progress_rejected s)
  then show ?case by (simp add: option.map_ident)
qed

section \<open>Properties that span components\<close>

text \<open>C14: composing the tutor route with the chat page and its
  rendering: in every session driven by the route's replies the page renders without
  throwing, with one row per message (or the placeholder) and the typing row while a
  request is in flight; and when a request in flight is answered by the route after a
  failed provider call, the page renders that answer as an empty bubble, its last row.\<close>

theorem tutor_chat_renders:
  "tutor_session s \<Longrightarrow>
     (\<exists>rows. chat_view s = Some rows \<and>
        length rows = max 1 (length (conversation s)) + (if isTyping s then 1 else 0)) \<and>
     (i \<in> fst ` set (pending s) \<longrightarrow> get_prop body ''question'' = Inr q \<longrightarrow>
      gen (tutor_prompt (js_to_string q)) = Inl e \<longrightarrow>
        (\<exists>rows. chat_view (chat_step s (Complete i (Reply (ai_tutor_post gen (Inr body))))) = Some rows \<and>
                last rows = Bubble AiMsg []))"
proof -
  assume ts: "tutor_session s"
  have fail: "\<exists>rows. chat_view (chat_step s (Complete i (Reply (ai_tutor_post gen (Inr body))))) = Some rows \<and>
                last rows = Bubble AiMsg []"
    if i: "i \<in> fst ` set (pending s)" and b: "get_prop body ''question'' = Inr q"
      and g: "gen (tutor_prompt (js_to_string q)) = Inl e"
  proof -
    let ?s = "chat_step s (Complete i (Reply (ai_tutor_post gen (Inr body))))"
    have "tutor_session ?s" using ts by (rule tutor_session.reply)
    then obtain rows where v: "chat_view ?s = Some rows" using tutor_session_rows by blast
    have a: "answer_content (Reply (ai_tutor_post gen (Inr body))) = JUndef" using b g by (rule answer_tutor_failure)
    have "\<not> isTyping ?s" and "conversation ?s = conversation s @ [\<lparr>role = AiMsg, content = JUndef\<rparr>]"
      using i a by simp_all
    from chat_view_last_message [OF this _ v] have "last rows = Bubble AiMsg []" by simp
    with v show ?thesis by blast
  qed
  from tutor_session_rows [OF ts] fail show ?thesis by blast
qed

theorem tutor_chat_renders_witness:
  "chat_view (chat_step (chat_step (chat_step chat_init (TypeText ''2+2?'')) Submit)
     (Complete 0 (Reply (ai_tutor_post (\<lambda>_. Inl (ProviderError ''quota''))
                          (Inr (JObj [(''question'', JStr ''2+2?'')])))))) =
   Some [Bubble UserMsg ''2+2?'', Bubble AiMsg []]"
proof -
  let ?s = "chat_step (chat_step chat_init (TypeText ''2+2?'')) Submit"
  have ts: "tutor_session ?s"
    by (intro tutor_session.submit tutor_session.type tutor_session.init)
  have i: "0 \<in> fst ` set (pending ?s)" by (simp add: chat_eval_simps)
  from tutor_chat_renders [OF ts, of 0 "JObj [(''question'', JStr ''2+2?'')]" "JStr ''2+2?''"
      "\<lambda>_. Inl (ProviderError ''quota'')" "ProviderError ''quota''"] i
  obtain rows where "chat_view (chat_step ?s (Complete 0 (Reply (ai_tutor_post (\<lambda>_. Inl (ProviderError ''quota''))
                          (Inr (JObj [(''question'', JStr ''2+2?'')])))))) = Some rows"
    by auto
  then show ?thesis
    by (simp add: chat_eval_simps chat_view_def ai_tutor_post_def answer_content_def tutor_error_body_def
                  json_response_def)
qed

text \<open>C6: composing the tutor route with the chat page: when the
  provider fails, the route answers 500 with \<open>{error}\<close>, the page still parses it and
  appends an answer whose content is \<open>undefined\<close> (not the "Sorry" message of its catch
  branch); when it succeeds, the answer is the completion with its asterisks removed.\<close>

theorem tutor_error_shown_undefined:
  "get_prop body ''question'' = Inr q \<Longrightarrow>
     answer_content (Reply (ai_tutor_post gen (Inr body))) =
       (case gen (tutor_prompt (js_to_string q)) of Inl e \<Rightarrow> JUndef | Inr t \<Rightarrow> JStr (strip_markup t))"
  by (cases "gen (tutor_prompt (js_to_string q))")
     (simp_all add: ai_tutor_post_def answer_content_def tutor_error_body_def json_response_def)

theorem tutor_error_shown_undefined_witness:
  "answer_content (Reply (ai_tutor_post (\<lambda>_. Inl (ProviderError ''quota''))
      (Inr (JObj [(''question'', JStr ''What is 2+2?'')])))) = JUndef"
  using tutor_error_shown_undefined [of "JObj [(''question'', JStr ''What is 2+2?'')]" "JStr ''What is 2+2?''"
      "\<lambda>_. Inl (ProviderError ''quota'')"]
  by simp

text \<open>C5: composing the \<open>/api/gemini\<close> route with the learning assistant:
  whatever the provider returns, the reply the assistant receives has no \<open>response\<close>
  field, so the assistant never shows anything for a query it sent.\<close>

theorem assistant_never_shows:
  "assistant_shown (assistant_complete s (Reply (fst (gemini_post gen dev now g (Inr (assistant_request s)))))) = None"
proof -
  let ?p = "network_prompt (js_to_string (JStr (query s))) (json_stringify (js_or JUndef (JObj [])))"
  have "read_field ''response'' (Reply (fst (gemini_post gen dev now g (Inr (assistant_request s))))) = Inr JUndef"
  proof (cases "gen ?p")
    case (Inl e)
    then show ?thesis
      by (simp add: gemini_post_def assistant_request_def gemini_error_body_def Let_def
                    get_prop_json_clean_absent)
  next
    case (Inr reply)
    then show ?thesis
      by (simp add: gemini_post_def assistant_request_def insight_json_def Let_def split_def
                    get_prop_json_clean_absent)
  qed
  then show ?thesis by (simp add: assistant_complete_def assistant_shown_def)
qed

text \<open>Composing \<open>/api/network-performance\<close> with the
  network page and what it renders: after mounting and one successful reply, the page
  renders the three simulated values to two decimals and the analysis text, and the
  interval selector shows "1 second" (the stored interval is a promise, which no option
  matches), while the loading indicator is already hidden with the second request of the
  mount still in flight.\<close>

theorem net_page_shows_route_values:
  "let s = net_run net_init [NetMount, NetComplete t (Reply (fst (network_performance_get (\<lambda>_. Inr a) g)))]
   in latest_metrics s = (JNum (shd g * 100), JNum (shd (stl g) * 200), JNum (shd (stl (stl g)) * 5)) \<and>
      (\<exists>secs. net_view s = Some secs \<and>
         take 4 secs = [MetricTile ''Bandwidth'' (to_fixed2 (shd g * 100)) '' Mbps'',
                        MetricTile ''Latency'' (to_fixed2 (shd (stl g) * 200)) '' ms'',
                        MetricTile ''Packet Loss'' (to_fixed2 (shd (stl (stl g)) * 5)) ''%'',
                        IntervalSelect ''1 second''] \<and>
         last secs = AnalysisText a) \<and>
      \<not> loading s \<and> in_flight s = 1"
  by (simp add: net_eval_simps network_performance_get_def simulate_network_performance_def
                math_random_def latest_metrics_def latest_def metric_tile_def json_response_def Let_def
                net_view_def js_or_def)

text \<open>C26: composing \<open>/api/network-data\<close> with the school dashboard:
  after the data arrives, an alert is raised exactly when the simulated downtime exceeds 5,
  and one insights request is posted carrying the three values.\<close>

theorem school_alert_from_route:
  "let s = school_step (school_mount (school_init saved)) (DataReply (Reply (fst (network_data_get g))))
   in alerts s = (if 5 < shd (stl (stl g)) * 10 then [alert_text (JNum (shd (stl (stl g)) * 10))] else []) \<and>
      insight_requests s = [JObj [(''bandwidth'', JNum (shd g * 100)), (''latency'', JNum (shd (stl g) * 200)),
                                  (''downtime'', JNum (shd (stl (stl g)) * 10))]] \<and>
      insights_pending s = 1"
  by (simp add: school_eval_simps network_data_get_def math_random_def Let_def js_gt_def opt_get_def json_response_def
                insights_request_def)

text \<open>C33: composing \<open>/api/dashboard-data\<close> with the home dashboard:
  whatever the interleaving of mounts, unmounts, elapsing time, the assistant's events and
  the two charts' replies (the route's reply or a failed \<open>fetch\<close>), each chart is
  unmounted, shows its initial empty data, or shows exactly the columns of the route's
  rows in order; every value it shows lies on its 0--100 percent axis.\<close>

theorem home_charts_from_route:
  "home_session s \<Longrightarrow>
     (\<forall>d. status_chart s = Some d \<longrightarrow>
        (d = ([], []) \<or> d = (map (JStr \<circ> fst) network_status_rows, map (JNum \<circ> snd) network_status_rows)) \<and>
        on_percent_axis status_chart_options (snd d)) \<and>
     (\<forall>d. progress_chart s = Some d \<longrightarrow>
        (d = ([], []) \<or> d = (map (JStr \<circ> fst) learning_progress_rows, map (JNum \<circ> snd) learning_progress_rows)) \<and>
        on_percent_axis progress_chart_options (snd d))"
  using home_session_charts unfolding chart_from_def by blast

theorem home_charts_from_route_witness:
  "status_chart (home_step (home_step (home_step home_init HomeMount) (Elapse 1500))
                  (StatusReply (Reply dashboard_data_get))) =
     Some (map (JStr \<circ> fst) network_status_rows, map (JNum \<circ> snd) network_status_rows) \<and>
   on_percent_axis status_chart_options (map (JNum \<circ> snd) network_status_rows)"
proof -
  let ?s = "home_step (home_step (home_step home_init HomeMount) (Elapse 1500)) (StatusReply (Reply dashboard_data_get))"
  have hs: "home_session ?s"
    by (intro home_session.status_route home_session.other home_session.init) simp_all
  have c: "status_chart ?s = Some (map (JStr \<circ> fst) network_status_rows, map (JNum \<circ> snd) network_status_rows)"
    by (simp add: home_init_def spinner_delay_def elapse_def show_charts_def chart_load_status_route)
  from home_charts_from_route [OF hs] c show ?thesis by simp
qed

text \<open>C32: composing \<open>/api/network-performance\<close> with the network page and
  its rendering: in every session whose settled requests carry the route's replies (any
  provider outcome, any random values) or failed fetches, in any order and interleaved
  with mounts and interval choices, the page never crashes and always renders: the spinner
  while loading, otherwise its eleven sections (three metric tiles, the interval selector,
  six charts and the analysis).\<close>

theorem net_route_renders:
  "net_session s \<Longrightarrow>
     \<not> crashed s \<and> (\<exists>secs. net_view s = Some secs \<and> (if loading s then secs = [NetSpinner] else length secs = 11))"
proof -
  assume "net_session s"
  then have n: "numeric_page s" by (rule net_session_numeric)
  from n numeric_page_view [OF n] show ?thesis by (simp add: numeric_page_def)
qed

theorem net_route_renders_witness:
  "let s = net_step (net_step net_init NetMount)
             (NetComplete ''10:00'' (Reply (fst (network_performance_get (\<lambda>_. Inr ''stable'') (sconst (1 / 2))))))
   in \<not> loading s \<and> \<not> crashed s \<and> (\<exists>secs. net_view s = Some secs \<and> length secs = 11)"
proof -
  define s where "s = net_step (net_step net_init NetMount)
             (NetComplete ''10:00'' (Reply (fst (network_performance_get (\<lambda>_. Inr ''stable'') (sconst (1 / 2))))))"
  have ns: "net_session s" unfolding s_def by (intro net_session.reply net_session.mount net_session.init)
  have nl: "\<not> loading s"
    by (simp add: s_def net_eval_simps network_performance_get_def simulate_network_performance_def
                  math_random_def json_response_def http_ok_def perf_append_def Let_def)
  from net_route_renders [OF ns] nl show ?thesis unfolding Let_def s_def [symmetric] by simp
qed

text \<open>C21: composing \<open>/api/insights\<close> with the school dashboard:
  the \<open>insights\<close> field of the upstream API reaches the page unchecked; a falsy value is
  shown as "No insights available.", any other value is rendered as a React child, so an
  object makes the whole page throw.\<close>

theorem school_insights_shown:
  "insights_pending s \<noteq> 0 \<Longrightarrow> get_prop body ''bandwidth'' = Inr bw \<Longrightarrow>
   insights_shown (school_step s (InsightsReply
       (Reply (insights_post (\<lambda>_. Inr (200, Inr (JObj [(''insights'', v)]))) (Inr body))))) =
     (if truthy v then react_text (json_clean v) else Some ''No insights available.'')"
  by (auto simp: insights_reply_def insights_post_def Let_def js_or_def axios_data_def http_ok_def
                 json_response_def insights_shown_def truthy_not_undef)

theorem school_insights_shown_witness:
  "insights_shown (school_step ((school_init None)\<lparr>insights_pending := 1\<rparr>) (InsightsReply
       (Reply (insights_post (\<lambda>_. Inr (200, Inr (JObj [(''insights'', JObj [(''text'', JStr ''Upgrade'')])])))
                (Inr (JObj [(''bandwidth'', JNum 50)])))))) = None \<and>
   school_view (school_step ((school_init None)\<lparr>insights_pending := 1\<rparr>) (InsightsReply
       (Reply (insights_post (\<lambda>_. Inr (200, Inr (JObj [(''insights'', JObj [(''text'', JStr ''Upgrade'')])])))
                (Inr (JObj [(''bandwidth'', JNum 50)])))))) = None"
proof -
  have "insights_shown (school_step ((school_init None)\<lparr>insights_pending := 1\<rparr>) (InsightsReply
       (Reply (insights_post (\<lambda>_. Inr (200, Inr (JObj [(''insights'', JObj [(''text'', JStr ''Upgrade'')])])))
                (Inr (JObj [(''bandwidth'', JNum 50)])))))) = None"
    using school_insights_shown [of "(school_init None)\<lparr>insights_pending := 1\<rparr>"
        "JObj [(''bandwidth'', JNum 50)]" "JNum 50" "JObj [(''text'', JStr ''Upgrade'')]"]
    by simp
  then show ?thesis by (simp add: school_view_def)
qed

end
